theory Spec2Isabelle
  imports Complex_Main "HOL-Library.Sublist"
begin

section \<open>JavaScript values\<close>

text \<open>
  The importer is written in JavaScript. Numbers are modelled as exact rationals together
  with the three special values of the language (\<open>NaN\<close>, \<open>Infinity\<close>, \<open>-Infinity\<close>);
  rounding of doubles and the negative zero are not modelled. Strings are lists of 8-bit
  characters (Latin-1), which covers every character the sources mention.
  Objects are plain dictionaries (association lists); inherited properties of
  \<open>Object.prototype\<close> are not modelled.
\<close>

datatype jsnum = NaN | Fin rat | PInf | NInf

datatype jsval = JUndefined | JNull | JBool bool | JNum jsnum | JStr string

definition truthy :: "jsval \<Rightarrow> bool" where
  "truthy v = (case v of
      JUndefined \<Rightarrow> False
    | JNull \<Rightarrow> False
    | JBool b \<Rightarrow> b
    | JNum n \<Rightarrow> n \<noteq> NaN \<and> n \<noteq> Fin 0
    | JStr s \<Rightarrow> s \<noteq> [])"

definition isNaN :: "jsnum \<Rightarrow> bool" where
  "isNaN n = (n = NaN)"

text \<open>The comparison \<open>a > b\<close> of two numbers; any comparison with \<open>NaN\<close> is false.\<close>

fun num_gt :: "jsnum \<Rightarrow> jsnum \<Rightarrow> bool" where
  "num_gt NaN _ = False"
| "num_gt _ NaN = False"
| "num_gt (Fin a) (Fin b) = (a > b)"
| "num_gt PInf PInf = False"
| "num_gt PInf _ = True"
| "num_gt NInf _ = False"
| "num_gt (Fin a) NInf = True"
| "num_gt (Fin a) PInf = False"

definition num_lt :: "jsnum \<Rightarrow> jsnum \<Rightarrow> bool" where
  "num_lt a b = num_gt b a"

text \<open>Addition of numbers, with the rules of the special values.\<close>

fun num_add :: "jsnum \<Rightarrow> jsnum \<Rightarrow> jsnum" where
  "num_add NaN _ = NaN"
| "num_add _ NaN = NaN"
| "num_add (Fin a) (Fin b) = Fin (a + b)"
| "num_add PInf NInf = NaN"
| "num_add NInf PInf = NaN"
| "num_add PInf _ = PInf"
| "num_add NInf _ = NInf"
| "num_add (Fin a) PInf = PInf"
| "num_add (Fin a) NInf = NInf"

subsection \<open>String primitives\<close>

definition isWhite :: "char \<Rightarrow> bool" where
  "isWhite c = (c \<in> set [CHR 0x09, CHR 0x0A, CHR 0x0B, CHR 0x0C, CHR 0x0D, CHR 0x20, CHR 0xA0])"

definition isDigit :: "char \<Rightarrow> bool" where
  "isDigit c = (c \<in> set ''0123456789'')"

definition digitVal :: "char \<Rightarrow> nat" where
  "digitVal c = of_char c - 48"

definition digitsVal :: "string \<Rightarrow> nat" where
  "digitsVal ds = foldl (\<lambda>acc c. 10 * acc + digitVal c) 0 ds"

text \<open>\<open>String.prototype.trim\<close>.\<close>

definition trim :: "string \<Rightarrow> string" where
  "trim s = rev (dropWhile isWhite (rev (dropWhile isWhite s)))"

text \<open>\<open>s.split(c)\<close> for a one-character separator: the empty string gives one empty piece.\<close>

fun split :: "char \<Rightarrow> string \<Rightarrow> string list" where
  "split c [] = [[]]"
| "split c (x # xs) =
     (if x = c then [] # split c xs
      else (case split c xs of p # ps \<Rightarrow> (x # p) # ps | [] \<Rightarrow> [[x]]))"

text \<open>\<open>s.includes(c)\<close>, and the removal of every dot (\<open>replace\<close> with a global pattern).\<close>

definition str_includes :: "string \<Rightarrow> char \<Rightarrow> bool" where
  "str_includes s c = (c \<in> set s)"

definition removeDots :: "string \<Rightarrow> string" where
  "removeDots s = filter (\<lambda>c. c \<noteq> CHR ''.'') s"

text \<open>
  \<open>parseFloat\<close>: leading white space is skipped, then the longest prefix that is a decimal
  literal (sign, digits, fraction, exponent, or \<open>Infinity\<close>) is read; \<open>NaN\<close> when there is
  none.
\<close>

definition takeSign :: "string \<Rightarrow> bool \<times> string" where
  "takeSign t = (case t of
       [] \<Rightarrow> (False, [])
     | c # r \<Rightarrow> if c = CHR ''-'' then (True, r) else if c = CHR ''+'' then (False, r) else (False, t))"

definition expPart :: "string \<Rightarrow> int" where
  "expPart r = (case r of
       [] \<Rightarrow> 0
     | c # r' \<Rightarrow>
         if c = CHR ''e'' \<or> c = CHR ''E'' then
           (let (eneg, d) = takeSign r'; ds = takeWhile isDigit d
            in if ds = [] then 0
               else if eneg then - int (digitsVal ds) else int (digitsVal ds))
         else 0)"

definition scale10 :: "rat \<Rightarrow> int \<Rightarrow> rat" where
  "scale10 m e = (if e \<ge> 0 then m * 10 ^ nat e else m / 10 ^ nat (- e))"

definition parseFloat :: "string \<Rightarrow> jsnum" where
  "parseFloat s =
     (let (neg, u) = takeSign (dropWhile isWhite s)
      in if prefix ''Infinity'' u then (if neg then NInf else PInf)
         else
           (let ip = takeWhile isDigit u;
                r1 = dropWhile isDigit u;
                (fp, r2) = (case r1 of
                    [] \<Rightarrow> ([], [])
                  | c # r \<Rightarrow> if c = CHR ''.'' then (takeWhile isDigit r, dropWhile isDigit r)
                             else ([], r1))
            in if ip = [] \<and> fp = [] then NaN
               else
                 (let m = of_nat (digitsVal ip) + of_nat (digitsVal fp) / 10 ^ length fp;
                      v = scale10 m (expPart r2)
                  in Fin (if neg then - v else v))))"

text \<open>\<open>toString\<close> of a primitive value that is neither a number nor nullish.\<close>

definition toString :: "jsval \<Rightarrow> string" where
  "toString v = (case v of
       JStr s \<Rightarrow> s
     | JBool b \<Rightarrow> (if b then ''true'' else ''false'')
     | _ \<Rightarrow> [])"

section \<open>Monetary normaliser\<close>

text \<open>
  \<open>parseValorMonetario\<close> of \<open>sped-extractor.js\<close>. The copy in the parser module
  lacks the \<open>typeof valorString === 'number'\<close> branch and is otherwise the same text.
  The \<open>try\<close> block cannot raise on a primitive value, so the \<open>catch\<close> branch has no
  counterpart here.
\<close>

definition normalizarSeparadores :: "string \<Rightarrow> string" where
  "normalizarSeparadores valor =
     (if str_includes valor (CHR '','') then
        (let partes = split (CHR '','') valor
         in if length partes = 2 then removeDots (partes ! 0) @ ''.'' @ (partes ! 1)
            else valor)
      else
        (let pontos = split (CHR ''.'') valor
         in if length pontos > 2 then removeDots valor else valor))"

definition parseValorMonetario :: "jsval \<Rightarrow> jsnum" where
  "parseValorMonetario valorString =
     (if \<not> truthy valorString \<or> valorString = JStr [] \<or> valorString = JStr ''0''
         \<or> valorString = JStr ''null''
      then Fin 0
      else (case valorString of
          JNum n \<Rightarrow> (if isNaN n then Fin 0 else n)
        | _ \<Rightarrow>
          (let valor = normalizarSeparadores (trim (toString valorString));
               resultado = parseFloat valor
           in if isNaN resultado then Fin 0 else resultado)))"

text \<open>
  The normaliser as the specification words it: whenever a comma is present it is the
  decimal separator and the dots before it are dropped; without a comma, two or more dots
  are all dropped; a non-numeric result is 0.
\<close>

definition parseMonetary_spec :: "string \<Rightarrow> jsnum" where
  "parseMonetary_spec s =
     (let t = trim s;
          u = (if str_includes t (CHR '','') then
                 removeDots (takeWhile (\<lambda>c. c \<noteq> CHR '','') t) @ ''.''
                   @ tl (dropWhile (\<lambda>c. c \<noteq> CHR '','') t)
               else if length (filter (\<lambda>c. c = CHR ''.'') t) > 1 then removeDots t
               else t);
          r = parseFloat u
      in if r = NaN then Fin 0 else r)"

text \<open>Vocabulary for stating the separator rules.\<close>

definition countChar :: "char \<Rightarrow> string \<Rightarrow> nat" where
  "countChar c s = length (filter (\<lambda>x. x = c) s)"

definition nanToZero :: "jsnum \<Rightarrow> jsnum" where
  "nanToZero r = (if isNaN r then Fin 0 else r)"

section \<open>Sector classifier\<close>

text \<open>\<open>s.startsWith(c)\<close> for a one-character argument.\<close>

definition startsWith :: "string \<Rightarrow> char \<Rightarrow> bool" where
  "startsWith s c = (case s of [] \<Rightarrow> False | x # _ \<Rightarrow> x = c)"

definition cfopsIndustria :: "string list" where
  "cfopsIndustria =
     [''5101'', ''5102'', ''5103'', ''5104'', ''5105'', ''5106'', ''5109'',
      ''6101'', ''6102'', ''6103'', ''6104'', ''6105'', ''6106'', ''6109'',
      ''5124'', ''5125'', ''6124'', ''6125'', ''5901'', ''5902'', ''6901'', ''6902'']"

definition cfopsServicos :: "string list" where
  "cfopsServicos =
     [''5933'', ''5932'', ''5933'', ''6933'', ''6932'', ''9301'', ''9302'',
      ''5301'', ''5302'', ''5303'', ''5304'', ''5305'', ''5306'', ''5307'',
      ''6301'', ''6302'', ''6303'', ''6304'', ''6305'', ''6306'', ''6307'']"

text \<open>
  The body of the \<open>forEach\<close> of \<open>analisarCFOPs\<close>; the state is the triple
  \<open>(countIndustria, countServicos, countComercio)\<close>.
\<close>

definition contarCFOP :: "string \<Rightarrow> nat \<times> nat \<times> nat \<Rightarrow> nat \<times> nat \<times> nat" where
  "contarCFOP cfop st =
     (case st of (countIndustria, countServicos, countComercio) \<Rightarrow>
        if cfop \<in> set cfopsIndustria then (countIndustria + 2, countServicos, countComercio)
        else if cfop \<in> set cfopsServicos then (countIndustria, countServicos + 1, countComercio)
        else if startsWith cfop (CHR ''5'') \<or> startsWith cfop (CHR ''6'')
             then (countIndustria, countServicos, countComercio + 1)
        else st)"

definition pontuarCFOPs :: "string list \<Rightarrow> nat \<times> nat \<times> nat" where
  "pontuarCFOPs cfops = fold contarCFOP cfops (0, 0, 0)"

definition analisarCFOPs :: "string list \<Rightarrow> string" where
  "analisarCFOPs cfops =
     (case pontuarCFOPs cfops of (countIndustria, countServicos, countComercio) \<Rightarrow>
        if countIndustria > 0 \<and> countIndustria \<ge> max countComercio countServicos
          then ''industria''
        else if countServicos > countComercio then ''servicos''
        else ''comercio'')"

text \<open>
  The decision as the specification words it: the category with the highest score wins,
  and commerce is the answer on any tie.
\<close>

definition classificar_spec :: "nat \<times> nat \<times> nat \<Rightarrow> string" where
  "classificar_spec st =
     (case st of (i, s, c) \<Rightarrow>
        if i > s \<and> i > c then ''industria''
        else if s > i \<and> s > c then ''servicos''
        else ''comercio'')"

section \<open>File-type classifier\<close>

subsection \<open>File-name patterns\<close>

text \<open>
  The regular expressions of \<open>determinarTipoPorNomeArquivo\<close> are sequences of pieces, each
  piece a choice between fixed strings: a literal is a one-element choice, \<open>[_\-]\<close> is
  \<open>[''_'', ''-'']\<close>, \<open>[_\-]?\<close> adds the empty string, \<open>(o|\<atilde>)\<close> is a choice of two
  letters. A pattern is anchored at the start (\<open>^\<close>) or searched at every position.
\<close>

type_synonym padrao = "bool \<times> string list list"

fun matchPieces :: "string list list \<Rightarrow> string \<Rightarrow> bool" where
  "matchPieces [] s = True"
| "matchPieces (alts # ps) s =
     list_ex (\<lambda>a. prefix a s \<and> matchPieces ps (drop (length a) s)) alts"

definition testar :: "padrao \<Rightarrow> string \<Rightarrow> bool" where
  "testar p s = (if fst p then matchPieces (snd p) s
                 else list_ex (matchPieces (snd p)) (suffixes s))"

text \<open>\<open>s.includes(sub)\<close> for a string argument.\<close>

definition contains :: "string \<Rightarrow> string \<Rightarrow> bool" where
  "contains s sub = list_ex (prefix sub) (suffixes s)"

text \<open>\<open>toLowerCase\<close> on Latin-1 text.\<close>

definition maiusculas :: "string" where
  "maiusculas = ''ABCDEFGHIJKLMNOPQRSTUVWXYZ'' @
     [CHR 0xC0, CHR 0xC1, CHR 0xC2, CHR 0xC3, CHR 0xC4, CHR 0xC5, CHR 0xC6, CHR 0xC7,
      CHR 0xC8, CHR 0xC9, CHR 0xCA, CHR 0xCB, CHR 0xCC, CHR 0xCD, CHR 0xCE, CHR 0xCF,
      CHR 0xD0, CHR 0xD1, CHR 0xD2, CHR 0xD3, CHR 0xD4, CHR 0xD5, CHR 0xD6,
      CHR 0xD8, CHR 0xD9, CHR 0xDA, CHR 0xDB, CHR 0xDC, CHR 0xDD, CHR 0xDE]"

definition minusculas :: "string" where
  "minusculas = ''abcdefghijklmnopqrstuvwxyz'' @
     [CHR 0xE0, CHR 0xE1, CHR 0xE2, CHR 0xE3, CHR 0xE4, CHR 0xE5, CHR 0xE6, CHR 0xE7,
      CHR 0xE8, CHR 0xE9, CHR 0xEA, CHR 0xEB, CHR 0xEC, CHR 0xED, CHR 0xEE, CHR 0xEF,
      CHR 0xF0, CHR 0xF1, CHR 0xF2, CHR 0xF3, CHR 0xF4, CHR 0xF5, CHR 0xF6,
      CHR 0xF8, CHR 0xF9, CHR 0xFA, CHR 0xFB, CHR 0xFC, CHR 0xFD, CHR 0xFE]"

definition lowerChar :: "char \<Rightarrow> char" where
  "lowerChar c = (case map_of (zip maiusculas minusculas) c of Some d \<Rightarrow> d | None \<Rightarrow> c)"

definition toLowerCase :: "string \<Rightarrow> string" where
  "toLowerCase s = map lowerChar s"

definition sep :: "string list" where "sep = [''_'', ''-'']"
definition sepOpt :: "string list" where "sepOpt = [''_'', ''-'', []]"
definition aOuATil :: "string list" where "aOuATil = [''a'', [CHR 0xE3]]"
definition oOuATil :: "string list" where "oOuATil = [''o'', [CHR 0xE3]]"

definition padroesPisConfins :: "padrao list" where
  "padroesPisConfins =
     [(False, [[''contribuic''], oOuATil, [''es'']]),
      (False, [[''pis''], sepOpt, [''cofins'']]),
      (False, [[''efd''], sepOpt, [''contribuic'']]),
      (False, [[''efd''], sepOpt, [''pis'']]),
      (False, [[''sped''], sepOpt, [''contribuic'']]),
      (False, [[''sped''], sepOpt, [''pis'']])]"

definition padroesEcf :: "padrao list" where
  "padroesEcf =
     [(True, [[''ecf''], sep]),
      (False, [sep, [''ecf''], sep]),
      (False, [[''escriturac''], aOuATil, [''o''], sepOpt, [''contabil''], sepOpt, [''fiscal'']]),
      (False, [[''sped''], sepOpt, [''ecf'']]),
      (False, [[''ecd''], sepOpt, [''fiscal'']])]"

definition padroesEcd :: "padrao list" where
  "padroesEcd =
     [(True, [[''ecd''], sep]),
      (False, [sep, [''ecd''], sep]),
      (False, [[''escriturac''], aOuATil, [''o''], sepOpt, [''contabil''], sepOpt, [''digital'']]),
      (False, [[''sped''], sepOpt, [''ecd'']]),
      (False, [[''contabil''], sepOpt, [''digital'']])]"

definition padroesFiscal :: "padrao list" where
  "padroesFiscal =
     [(True, [[''efd''], sep]),
      (False, [[''fiscal'']]),
      (False, [[''icms''], sepOpt, [''ipi'']]),
      (False, [[''sped''], sepOpt, [''fiscal'']]),
      (False, [[''efd''], sepOpt, [''icms'']]),
      (False, [[''nota''], sepOpt, [''fiscal'']])]"

definition algumPadrao :: "padrao list \<Rightarrow> string \<Rightarrow> bool" where
  "algumPadrao ps nome = list_ex (\<lambda>p. testar p nome) ps"

text \<open>
  \<open>determinarTipoPorNomeArquivo\<close>; the argument is a string, so the \<open>typeof\<close> test
  reduces to the test for the empty string.
\<close>

definition determinarTipoPorNomeArquivo :: "string \<Rightarrow> string" where
  "determinarTipoPorNomeArquivo nomeArquivo =
     (if nomeArquivo = [] then ''indefinido''
      else
        (let nome = toLowerCase nomeArquivo
         in if algumPadrao padroesPisConfins nome then ''contribuicoes''
            else if algumPadrao padroesEcf nome then ''ecf''
            else if algumPadrao padroesEcd nome then ''ecd''
            else if algumPadrao padroesFiscal nome then ''fiscal''
            else
              (let extensao = last (split (CHR ''.'') nome)
               in if extensao = ''efd'' \<or> extensao = ''sped'' then
                    (if contains nome ''pis'' \<or> contains nome ''cofins''
                        \<or> contains nome ''contribuic'' then ''contribuicoes''
                     else if contains nome ''ecf'' then ''ecf''
                     else if contains nome ''ecd'' then ''ecd''
                     else ''fiscal'')
                  else ''indefinido'')))"

subsection \<open>Record-code histogram\<close>

definition identificadoresContribuicoes :: "string list" where
  "identificadoresContribuicoes =
     [''0110'', ''0140'',
      ''A100'', ''A110'', ''A111'',
      ''C180'', ''C181'', ''C185'', ''C188'',
      ''D100'', ''D101'', ''D105'', ''D111'',
      ''F100'', ''F111'', ''F120'', ''F129'', ''F130'', ''F139'', ''F150'', ''F200'', ''F205'',
      ''F210'', ''F211'',
      ''I100'', ''I199'',
      ''M100'', ''M105'', ''M110'', ''M115'', ''M200'', ''M205'', ''M210'', ''M220'', ''M225'',
      ''M400'', ''M410'',
      ''M500'', ''M505'', ''M510'', ''M515'', ''M600'', ''M605'', ''M610'', ''M620'', ''M625'',
      ''M800'', ''M810'',
      ''P100'', ''P110'', ''P199'', ''P200'', ''P210'',
      ''1001'', ''1100'', ''1200'', ''1300'', ''1500'']"

definition identificadoresEcf :: "string list" where
  "identificadoresEcf =
     [''0010'', ''0020'',
      ''J001'', ''J050'', ''J051'', ''J100'',
      ''K001'', ''K030'', ''K155'', ''K156'',
      ''L001'', ''L030'', ''L100'',
      ''M001'', ''M010'', ''M300'', ''M350'',
      ''N001'', ''N500'', ''N600'', ''N610'', ''N620'', ''N630'', ''N650'', ''N660'', ''N670'',
      ''P001'', ''P030'', ''P100'', ''P130'', ''P150'', ''P200'', ''P230'',
      ''T001'', ''T030'', ''T120'', ''T150'',
      ''U001'', ''U030'', ''U100'',
      ''Y540'']"

definition identificadoresEcd :: "string list" where
  "identificadoresEcd =
     [''0007'', ''0020'',
      ''I001'', ''I010'', ''I012'', ''I015'', ''I020'', ''I030'', ''I050'', ''I051'', ''I052'',
      ''I053'',
      ''I100'', ''I150'', ''I155'', ''I200'', ''I250'', ''I300'', ''I310'', ''I350'', ''I355'',
      ''J001'', ''J005'', ''J100'', ''J150'',
      ''K001'', ''K030'', ''K100'', ''K155'', ''K156'', ''K200'', ''K220'', ''K230'', ''K300'']"

definition identificadoresFiscal :: "string list" where
  "identificadoresFiscal =
     [''0001'', ''0005'', ''0150'', ''0190'', ''0200'',
      ''C100'', ''C170'', ''C190'', ''C197'',
      ''E110'', ''E111'', ''E116'', ''E200'', ''E210'', ''E220'',
      ''H010'', ''H020'',
      ''9900'', ''9990'', ''9999'']"

record contadores =
  contribuicoes :: nat
  ecf :: nat
  ecd :: nat
  fiscal :: nat

definition bump :: "bool \<Rightarrow> nat \<Rightarrow> nat" where
  "bump b n = (if b then n + 1 else n)"

text \<open>One iteration of the scanning loop of \<open>determinarTipoSped\<close>.\<close>

definition contarLinha :: "string \<Rightarrow> contadores \<Rightarrow> contadores" where
  "contarLinha linha cs =
     (if linha = [] \<or> length (trim linha) = 0 then cs
      else
        (let campos = split (CHR ''|'') linha
         in if length campos < 2 then cs
            else
              (let registro = campos ! 1
               in \<lparr> contribuicoes = bump (registro \<in> set identificadoresContribuicoes) (contribuicoes cs),
                     ecf = bump (registro \<in> set identificadoresEcf) (ecf cs),
                     ecd = bump (registro \<in> set identificadoresEcd) (ecd cs),
                     fiscal = bump (registro \<in> set identificadoresFiscal) (fiscal cs) \<rparr>)))"

definition contarLinhas :: "string list \<Rightarrow> contadores" where
  "contarLinhas linhas =
     fold contarLinha (take (min 100 (length linhas)) linhas)
       \<lparr> contribuicoes = 0, ecf = 0, ecd = 0, fiscal = 0 \<rparr>"

text \<open>
  The final selection: start from \<open>fiscal\<close> and visit the counters in the order of the
  object's keys, replacing the candidate only by a strictly greater count.
\<close>

definition escolher :: "string \<times> nat \<Rightarrow> string \<times> nat \<Rightarrow> string \<times> nat" where
  "escolher tc st = (if snd tc > snd st then tc else st)"

definition maiorContador :: "contadores \<Rightarrow> string" where
  "maiorContador cs =
     fst (fold escolher
            [(''contribuicoes'', contribuicoes cs), (''ecf'', ecf cs), (''ecd'', ecd cs),
             (''fiscal'', fiscal cs)]
            (''fiscal'', fiscal cs))"

definition determinarTipoSped :: "string list \<Rightarrow> string \<Rightarrow> string" where
  "determinarTipoSped linhas nomeArquivo =
     (if length linhas = 0 then ''fiscal''
      else if nomeArquivo \<noteq> [] \<and> trim nomeArquivo \<noteq> []
              \<and> determinarTipoPorNomeArquivo nomeArquivo \<noteq> ''indefinido''
           then determinarTipoPorNomeArquivo nomeArquivo
      else maiorContador (contarLinhas linhas))"






section \<open>Structured data\<close>

text \<open>
  Values stored in the datasets: primitives, arrays and objects. A record produced by a
  decoder is an object, kept as the list of its properties in insertion order.
\<close>

datatype dado = Prim jsval | Arr "dado list" | Obj "(string \<times> dado) list"

type_synonym registro = "(string \<times> dado) list"

fun truthyD :: "dado \<Rightarrow> bool" where
  "truthyD (Prim v) = truthy v"
| "truthyD (Arr _) = True"
| "truthyD (Obj _) = True"

text \<open>Reading a property of a record; a missing property reads as \<open>undefined\<close>.\<close>

definition campo :: "registro \<Rightarrow> string \<Rightarrow> dado" where
  "campo r k = (case map_of r k of Some v \<Rightarrow> v | None \<Rightarrow> Prim JUndefined)"

text \<open>Assigning a property: an existing key keeps its position, a new key goes last.\<close>

fun definir :: "string \<Rightarrow> 'a \<Rightarrow> (string \<times> 'a) list \<Rightarrow> (string \<times> 'a) list" where
  "definir k v [] = [(k, v)]"
| "definir k v ((k', v') # r) = (if k = k' then (k, v) # r else (k', v') # definir k v r)"

text \<open>
  The conversions the language applies silently are parameters of the model: the text of
  a value that is not a string (\<open>ToString\<close>: number formatting, array joining) and the
  number of a value that is not a number (\<open>ToNumber\<close>).
\<close>

record coercoes =
  textoDe :: "dado \<Rightarrow> string"
  numeroDe :: "dado \<Rightarrow> jsnum"

definition paraTexto :: "coercoes \<Rightarrow> dado \<Rightarrow> string" where
  "paraTexto c d = (case d of Prim (JStr s) \<Rightarrow> s | _ \<Rightarrow> textoDe c d)"

definition paraNumero :: "coercoes \<Rightarrow> dado \<Rightarrow> jsnum" where
  "paraNumero c d = (case d of Prim (JNum n) \<Rightarrow> n | _ \<Rightarrow> numeroDe c d)"

definition ehNumero :: "dado \<Rightarrow> bool" where
  "ehNumero d = (case d of Prim (JNum _) \<Rightarrow> True | _ \<Rightarrow> False)"

definition ehTexto :: "dado \<Rightarrow> bool" where
  "ehTexto d = (case d of Prim (JStr _) \<Rightarrow> True | _ \<Rightarrow> False)"

text \<open>
  The operator \<open>+\<close>: a string, array or object operand makes it a concatenation,
  otherwise it is the addition of the operands' numbers.
\<close>

definition ehPrimitivoNaoTexto :: "dado \<Rightarrow> bool" where
  "ehPrimitivoNaoTexto d = (case d of Prim (JStr _) \<Rightarrow> False | Prim _ \<Rightarrow> True | _ \<Rightarrow> False)"

definition maisJS :: "coercoes \<Rightarrow> dado \<Rightarrow> dado \<Rightarrow> dado" where
  "maisJS c a b =
     (if ehPrimitivoNaoTexto a \<and> ehPrimitivoNaoTexto b
      then Prim (JNum (num_add (paraNumero c a) (paraNumero c b)))
      else Prim (JStr (paraTexto c a @ paraTexto c b)))"

text \<open>\<open>parseValorMonetario\<close> applied to a stored value.\<close>

definition parseValorMonetarioD :: "coercoes \<Rightarrow> dado \<Rightarrow> jsnum" where
  "parseValorMonetarioD c d =
     (case d of
        Prim v \<Rightarrow> parseValorMonetario v
      | _ \<Rightarrow> nanToZero (parseFloat (normalizarSeparadores (trim (textoDe c d)))))"

section \<open>Record decoders\<close>

text \<open>A line split on the delimiter is a list of field strings.\<close>

definition validarEstruturaRegistro :: "string list \<Rightarrow> nat \<Rightarrow> bool" where
  "validarEstruturaRegistro campos minCampos = (length campos \<ge> minCampos)"

definition validarCampo :: "string list \<Rightarrow> nat \<Rightarrow> string \<Rightarrow> string" where
  "validarCampo campos indice valorPadrao =
     (if indice \<ge> length campos then valorPadrao
      else if campos ! indice \<noteq> [] then trim (campos ! indice) else valorPadrao)"

text \<open>\<open>campos[i]\<close>: \<open>undefined\<close> beyond the end of the array.\<close>

definition indice :: "string list \<Rightarrow> nat \<Rightarrow> jsval" where
  "indice campos i = (if i < length campos then JStr (campos ! i) else JUndefined)"

fun replaceFirst :: "char \<Rightarrow> char \<Rightarrow> string \<Rightarrow> string" where
  "replaceFirst a b [] = []"
| "replaceFirst a b (x # xs) = (if x = a then b # xs else x # replaceFirst a b xs)"

definition converterValorMonetario :: "string \<Rightarrow> jsnum" where
  "converterValorMonetario valor =
     (if valor = [] then Fin 0
      else
        (let valorLimpo = replaceFirst (CHR '','') (CHR ''.'') (filter (\<lambda>c. \<not> isWhite c) valor);
             numero = parseFloat valorLimpo
         in if isNaN numero then Fin 0 else numero))"

text \<open>\<open>parseFloat(s.replace(',', '.')) || 0\<close>.\<close>

definition numeroOuZero :: "string \<Rightarrow> jsnum" where
  "numeroOuZero s =
     (let n = parseFloat (replaceFirst (CHR '','') (CHR ''.'') s)
      in if n = NaN then Fin 0 else n)"

definition texto :: "string \<Rightarrow> dado" where
  "texto s = Prim (JStr s)"

definition numero :: "jsnum \<Rightarrow> dado" where
  "numero n = Prim (JNum n)"

text \<open>\<open>parseRegistroC100\<close> (goods-tax ledger): the only decoder without a field-count test.\<close>

definition parseRegistroC100 :: "string list \<Rightarrow> registro option" where
  "parseRegistroC100 campos =
     Some [(''tipo'', texto ''documento''),
           (''indOper'', Prim (indice campos 2)),
           (''indEmit'', Prim (indice campos 3)),
           (''codPart'', Prim (indice campos 4)),
           (''modelo'', Prim (indice campos 5)),
           (''serie'', Prim (indice campos 7)),
           (''numero'', Prim (indice campos 8)),
           (''chaveNFe'', Prim (indice campos 9)),
           (''dataEmissao'', Prim (indice campos 10)),
           (''dataSaidaEntrada'', Prim (indice campos 11)),
           (''valorTotal'', numero (parseValorMonetario (indice campos 12))),
           (''valorProdutos'', numero (parseValorMonetario (indice campos 16)))]"

definition parseRegistro0001 :: "string list \<Rightarrow> registro option" where
  "parseRegistro0001 campos =
     (if \<not> validarEstruturaRegistro campos 3 then None
      else Some [(''tipo'', texto ''abertura_bloco''),
                 (''bloco'', texto ''0''),
                 (''indicadorMovimento'', texto (validarCampo campos 2 []))])"

definition parseRegistroC170 :: "string list \<Rightarrow> registro option" where
  "parseRegistroC170 campos =
     (if \<not> validarEstruturaRegistro campos 17 then None
      else Some [(''tipo'', texto ''item_documento''),
                 (''categoria'', texto ''item''),
                 (''numItem'', texto (validarCampo campos 2 [])),
                 (''codItem'', texto (validarCampo campos 3 [])),
                 (''descrItem'', texto (validarCampo campos 4 [])),
                 (''qtd'', numero (numeroOuZero (validarCampo campos 5 ''0''))),
                 (''unid'', texto (validarCampo campos 6 [])),
                 (''valorItem'', numero (parseValorMonetario (JStr (validarCampo campos 7 ''0'')))),
                 (''valorTotalItem'', numero (parseValorMonetario (JStr (validarCampo campos 7 ''0'')))),
                 (''valorDesc'', numero (parseValorMonetario (JStr (validarCampo campos 8 ''0'')))),
                 (''indMov'', texto (validarCampo campos 9 [])),
                 (''cstIcms'', texto (validarCampo campos 10 [])),
                 (''cfop'', texto (validarCampo campos 11 [])),
                 (''codNat'', texto (validarCampo campos 12 [])),
                 (''valorBcIcms'', numero (parseValorMonetario (JStr (validarCampo campos 13 ''0'')))),
                 (''aliqIcms'', numero (numeroOuZero (validarCampo campos 14 ''0''))),
                 (''valorIcms'', numero (parseValorMonetario (JStr (validarCampo campos 15 ''0'')))),
                 (''valorBcIcmsSt'', numero (parseValorMonetario (JStr (validarCampo campos 16 ''0'')))),
                 (''aliqIcmsSt'', numero (numeroOuZero (validarCampo campos 17 ''0''))),
                 (''valorIcmsSt'', numero (parseValorMonetario (JStr (validarCampo campos 18 ''0''))))])"

definition parseRegistroE110 :: "string list \<Rightarrow> registro option" where
  "parseRegistroE110 campos =
     (if \<not> validarEstruturaRegistro campos 29 then None
      else Some [(''tipo'', texto ''debito''),
                 (''categoria'', texto ''icms''),
                 (''valorTotalDebitos'', numero (converterValorMonetario (validarCampo campos 2 ''0''))),
                 (''valorAjDebitos'', numero (converterValorMonetario (validarCampo campos 3 ''0''))),
                 (''valorEstornoCreditos'', numero (converterValorMonetario (validarCampo campos 4 ''0''))),
                 (''valorTotalCreditos'', numero (converterValorMonetario (validarCampo campos 6 ''0''))),
                 (''valorAjCreditos'', numero (converterValorMonetario (validarCampo campos 7 ''0''))),
                 (''valorEstornoDebitos'', numero (converterValorMonetario (validarCampo campos 8 ''0''))),
                 (''valorSaldoCredorAnt'', numero (converterValorMonetario (validarCampo campos 9 ''0''))),
                 (''valorSaldoApurado'', numero (converterValorMonetario (validarCampo campos 10 ''0''))),
                 (''valorDebitoEspecial'', numero (converterValorMonetario (validarCampo campos 11 ''0''))),
                 (''valorSaldoAPagar'', numero (converterValorMonetario (validarCampo campos 12 ''0'')))])"

definition parseRegistroM200 :: "string list \<Rightarrow> registro option" where
  "parseRegistroM200 campos =
     (if \<not> validarEstruturaRegistro campos 14 then None
      else Some [(''tipo'', texto ''debito''),
                 (''categoria'', texto ''pis''),
                 (''valorContribuicaoApurada'', numero (converterValorMonetario (validarCampo campos 5 ''0''))),
                 (''valorCredito'', numero (converterValorMonetario (validarCampo campos 6 ''0''))),
                 (''valorContribuicaoDevida'', numero (converterValorMonetario (validarCampo campos 7 ''0''))),
                 (''valorTotalRetencoes'', numero (converterValorMonetario (validarCampo campos 8 ''0''))),
                 (''valorTotalContribuicao'', numero (converterValorMonetario (validarCampo campos 9 ''0''))),
                 (''valorTotalDeducoes'', numero (converterValorMonetario (validarCampo campos 10 ''0''))),
                 (''valorContribuicaoAPagar'', numero (converterValorMonetario (validarCampo campos 11 ''0''))),
                 (''saldoCredorPeriodo'', numero (converterValorMonetario (validarCampo campos 12 ''0'')))])"

text \<open>
  The minimum field counts of the goods-tax layout that the parser module itself records
  in \<open>validarLayoutRegistro\<close>.
\<close>

definition layoutsMinimosFiscal :: "(string \<times> nat) list" where
  "layoutsMinimosFiscal = [(''0000'', 15), (''C100'', 18), (''C170'', 19), (''E110'', 29)]"

section \<open>Per-line decode loop\<close>

text \<open>
  A decoder of the dispatch table either raises (\<open>Inl\<close> with the message of the
  exception), returns nothing (\<open>Inr None\<close>) or returns a record. The table itself
  (\<open>registrosMapeados\<close>, 162 decoders) is a parameter of the loop.
\<close>

type_synonym decodificador = "string list \<Rightarrow> string + registro option"

type_synonym tabela = "string \<Rightarrow> (string \<Rightarrow> decodificador option) option"

record resultado =
  empresa :: registro
  listas :: "(string \<times> registro list) list"
  mapas :: "(string \<times> (string \<times> registro list) list) list"
  regimes :: "(string \<times> registro) list"
  registrosProcessados :: nat
  registrosIgnorados :: nat
  erros :: "string list"
  tipoDetectado :: string

definition resultadoInicial :: "string \<Rightarrow> resultado" where
  "resultadoInicial tipoSped =
     \<lparr> empresa = [],
       listas = [(''documentos'', []), (''itens'', []), (''itensAnaliticos'', []),
                 (''balancoPatrimonial'', []), (''demonstracaoResultado'', []),
                 (''lancamentosContabeis'', []), (''partidasLancamento'', []),
                 (''incentivosFiscais'', []), (''participantes'', []), (''inventario'', []),
                 (''discriminacaoReceita'', [])],
       mapas = [(''impostos'', []), (''creditos'', []), (''debitos'', []), (''ajustes'', []),
                (''receitasNaoTributadas'', []), (''totalizacao'', []), (''detalhamento'', [])],
       regimes = [],
       registrosProcessados = 0,
       registrosIgnorados = 0,
       erros = [],
       tipoDetectado = tipoSped \<rparr>"

text \<open>\<open>lista.push(r)\<close> on a list property, and on a list kept under a category key.\<close>

definition obter :: "(string \<times> 'a list) list \<Rightarrow> string \<Rightarrow> 'a list" where
  "obter m k = (case map_of m k of Some xs \<Rightarrow> xs | None \<Rightarrow> [])"

definition pushLista :: "string \<Rightarrow> registro \<Rightarrow> resultado \<Rightarrow> resultado" where
  "pushLista prop r res = res \<lparr> listas := definir prop (obter (listas res) prop @ [r]) (listas res) \<rparr>"

definition pushMapa :: "string \<Rightarrow> string \<Rightarrow> registro \<Rightarrow> resultado \<Rightarrow> resultado" where
  "pushMapa prop categoria r res =
     res \<lparr> mapas := definir prop
                       (definir categoria (obter (obter (mapas res) prop) categoria @ [r])
                          (obter (mapas res) prop))
                       (mapas res) \<rparr>"

text \<open>A property key: a string is used as it is, any other value through its text.\<close>

definition chave :: "coercoes \<Rightarrow> dado \<Rightarrow> string" where
  "chave c d = paraTexto c d"

text \<open>\<open>Object.assign(alvo, fonte)\<close>.\<close>

definition objectAssign :: "registro \<Rightarrow> registro \<Rightarrow> registro" where
  "objectAssign alvo fonte = fold (\<lambda>(k, v) acc. definir k v acc) fonte alvo"

definition porCategoria :: "coercoes \<Rightarrow> string \<Rightarrow> registro \<Rightarrow> resultado \<Rightarrow> resultado" where
  "porCategoria c prop r res =
     (if truthyD (campo r ''categoria'') then pushMapa prop (chave c (campo r ''categoria'')) r res
      else res)"

definition integrarDados :: "coercoes \<Rightarrow> resultado \<Rightarrow> registro \<Rightarrow> resultado" where
  "integrarDados c res dadosRegistro =
     (let tipo = campo dadosRegistro ''tipo''
      in if \<not> truthyD tipo then res
         else if tipo = texto ''empresa''
           then res \<lparr> empresa := objectAssign (empresa res) dadosRegistro \<rparr>
         else if tipo = texto ''documento'' then pushLista ''documentos'' dadosRegistro res
         else if tipo = texto ''item'' \<or> tipo = texto ''item_documento''
           then pushLista ''itens'' dadosRegistro res
         else if tipo = texto ''analitico_icms'' then pushLista ''itensAnaliticos'' dadosRegistro res
         else if tipo = texto ''participante'' then pushLista ''participantes'' dadosRegistro res
         else if tipo = texto ''credito'' \<or> tipo = texto ''credito_detalhe''
           then porCategoria c ''creditos'' dadosRegistro res
         else if tipo = texto ''debito'' then porCategoria c ''debitos'' dadosRegistro res
         else if tipo = texto ''regime''
           then (if truthyD (campo dadosRegistro ''categoria'')
                 then res \<lparr> regimes := definir (chave c (campo dadosRegistro ''categoria''))
                                            dadosRegistro (regimes res) \<rparr>
                 else res)
         else if tipo = texto ''ajuste'' then porCategoria c ''ajustes'' dadosRegistro res
         else if tipo = texto ''receita_nao_tributada''
           then porCategoria c ''receitasNaoTributadas'' dadosRegistro res
         else if tipo = texto ''balanco_patrimonial'' \<or> tipo = texto ''dados_balancos''
           then pushLista ''balancoPatrimonial'' dadosRegistro res
         else if tipo = texto ''dre'' \<or> tipo = texto ''dre_comparativo''
           then pushLista ''demonstracaoResultado'' dadosRegistro res
         else if tipo = texto ''inventario_abertura'' \<or> tipo = texto ''inventario_info''
           then pushLista ''inventario'' dadosRegistro res
         else if tipo = texto ''totalizacao'' then porCategoria c ''totalizacao'' dadosRegistro res
         else pushMapa ''detalhamento'' (chave c tipo) dadosRegistro res)"

text \<open>Decimal text of a natural number, for the line number of a message.\<close>

fun textoNatAux :: "nat \<Rightarrow> nat \<Rightarrow> string" where
  "textoNatAux 0 n = []"
| "textoNatAux (Suc fuel) n =
     (if n < 10 then [''0123456789'' ! n]
      else textoNatAux fuel (n div 10) @ [''0123456789'' ! (n mod 10)])"

definition textoNat :: "nat \<Rightarrow> string" where
  "textoNat n = textoNatAux (Suc n) n"

definition mensagemErroRegistro :: "string \<Rightarrow> nat \<Rightarrow> string \<Rightarrow> string" where
  "mensagemErroRegistro registro i mensagem =
     ''Erro no registro '' @ registro @ '' (linha '' @ textoNat (i + 1) @ ''): '' @ mensagem"

text \<open>
  The lookup \<open>registrosMapeados[tipoSped] && registrosMapeados[tipoSped][registro]\<close>.
\<close>

definition buscarDecodificador :: "tabela \<Rightarrow> string \<Rightarrow> string \<Rightarrow> decodificador option" where
  "buscarDecodificador registrosMapeados tipoSped registro =
     (case registrosMapeados tipoSped of None \<Rightarrow> None | Some t \<Rightarrow> t registro)"

text \<open>
  The body of the \<open>for\<close> loop of \<open>extrairDados\<close> for the line at index \<open>i\<close>. Splitting a
  string cannot raise, so the outer \<open>catch\<close> has no counterpart; the inner \<open>try\<close> covers
  the decoder call and the integration of its record.
\<close>

definition processarLinha ::
  "coercoes \<Rightarrow> tabela \<Rightarrow> string \<Rightarrow> nat \<Rightarrow> string \<Rightarrow> resultado \<Rightarrow> resultado" where
  "processarLinha c registrosMapeados tipoSped i linha res =
     (if trim linha = [] then res
      else
        (let campos = split (CHR ''|'') linha
         in if length campos < 2 then res \<lparr> registrosIgnorados := registrosIgnorados res + 1 \<rparr>
            else
              (let registro = campos ! 1
               in case buscarDecodificador registrosMapeados tipoSped registro of
                    None \<Rightarrow> res \<lparr> registrosIgnorados := registrosIgnorados res + 1 \<rparr>
                  | Some decodificar \<Rightarrow>
                      (case decodificar campos of
                         Inl mensagem \<Rightarrow>
                           res \<lparr> erros := erros res @ [mensagemErroRegistro registro i mensagem] \<rparr>
                       | Inr None \<Rightarrow> res
                       | Inr (Some dadosRegistro) \<Rightarrow>
                           (integrarDados c res dadosRegistro)
                             \<lparr> registrosProcessados := registrosProcessados res + 1 \<rparr>))))"

text \<open>The loop from index \<open>i\<close> on.\<close>

fun percorrerLinhas ::
  "coercoes \<Rightarrow> tabela \<Rightarrow> string \<Rightarrow> nat \<Rightarrow> string list \<Rightarrow> resultado \<Rightarrow> resultado" where
  "percorrerLinhas c registrosMapeados tipoSped i [] res = res"
| "percorrerLinhas c registrosMapeados tipoSped i (linha # linhas) res =
     percorrerLinhas c registrosMapeados tipoSped (i + 1) linhas
       (processarLinha c registrosMapeados tipoSped i linha res)"

text \<open>
  \<open>extrairDados\<close> up to the end of its loop. An empty \<open>tipo\<close> stands for a missing
  argument. The relational pass that follows the loop attaches references between the
  collected records and leaves the counters and the error list alone.
\<close>

definition resolverTipo :: "tabela \<Rightarrow> string list \<Rightarrow> string \<Rightarrow> string" where
  "resolverTipo registrosMapeados linhas tipo =
     (let tipoSped = (if tipo \<noteq> [] then tipo else determinarTipoSped linhas [])
      in if tipoSped = [] \<or> registrosMapeados tipoSped = None then ''fiscal'' else tipoSped)"

definition extrairDados :: "coercoes \<Rightarrow> tabela \<Rightarrow> string list \<Rightarrow> string \<Rightarrow> resultado" where
  "extrairDados c registrosMapeados linhas tipo =
     (let tipoSped = resolverTipo registrosMapeados linhas tipo
      in percorrerLinhas c registrosMapeados tipoSped 0 linhas (resultadoInicial tipoSped))"

text \<open>
  A small dispatch table and trivial conversions, for evaluating the loop on examples:
  two decoders of the goods-tax table and one decoder that always raises.
\<close>

definition semCoercao :: coercoes where
  "semCoercao = \<lparr> textoDe = (\<lambda>_. []), numeroDe = (\<lambda>_. NaN) \<rparr>"

definition decodificadorFalho :: decodificador where
  "decodificadorFalho campos = Inl ''campo invalido''"

definition tabelaExemplo :: tabela where
  "tabelaExemplo tipoSped =
     (if tipoSped = ''fiscal''
      then Some (\<lambda>registro.
             if registro = ''C100'' then Some (\<lambda>campos. Inr (parseRegistroC100 campos))
             else if registro = ''C170'' then Some (\<lambda>campos. Inr (parseRegistroC170 campos))
             else if registro = ''X999'' then Some decodificadorFalho
             else None)
      else None)"

section \<open>Cross-file combiner\<close>

text \<open>
  What \<open>combinarResultados\<close> reads of one per-file result: the properties are grouped by
  the shape of their value (an object, an array of records, an object of arrays keyed by
  category, an object of objects, any other value). An entry of \<open>resultados\<close> that is
  not an object is \<open>None\<close>.
\<close>

record arquivoSped =
  metadadosA :: "registro option"
  empresaA :: "registro option"
  listasA :: "(string \<times> registro list) list"
  mapasA :: "(string \<times> (string \<times> registro list) list) list"
  objetosA :: "(string \<times> (string \<times> registro) list) list"
  valoresA :: "(string \<times> dado) list"

record combinado =
  empresaC :: registro
  listasC :: "(string \<times> registro list) list"
  mapasC :: "(string \<times> (string \<times> registro list) list) list"
  objetosC :: "(string \<times> (string \<times> registro) list) list"
  valoresC :: "(string \<times> dado) list"
  arquivosProcessados :: "registro list"

definition combinadoInicial :: combinado where
  "combinadoInicial =
     \<lparr> empresaC = [],
       listasC = [(''documentos'', []), (''itens'', []), (''itensAnaliticos'', []),
                  (''balancoPatrimonial'', []), (''demonstracaoResultado'', []),
                  (''lancamentosContabeis'', []), (''partidasLancamento'', []),
                  (''incentivosFiscais'', []), (''participantes'', []), (''inventario'', []),
                  (''discriminacaoReceita'', [])],
       mapasC = [(''impostos'', []), (''creditos'', []), (''debitos'', []), (''ajustes'', []),
                 (''receitasNaoTributadas'', [])],
       objetosC = [(''regimes'', []), (''calculoImposto'', [])],
       valoresC = [],
       arquivosProcessados = [] \<rparr>"

definition arrayProps :: "string list" where
  "arrayProps =
     [''documentos'', ''itens'', ''itensAnaliticos'', ''balancoPatrimonial'',
      ''demonstracaoResultado'', ''lancamentosContabeis'', ''partidasLancamento'',
      ''incentivosFiscais'', ''participantes'', ''inventario'', ''discriminacaoReceita'']"

definition objArrayProps :: "string list" where
  "objArrayProps = [''impostos'', ''creditos'', ''receitasNaoTributadas'', ''ajustes'']"

definition objProps :: "string list" where
  "objProps = [''regimes'', ''calculoImposto'']"

definition valorProps :: "string list" where
  "valorProps =
     [''receitaBruta'', ''receitaLiquida'', ''lucroBruto'', ''resultadoOperacional'',
      ''lucroLiquido'', ''saldoClientes'', ''saldoEstoques'', ''saldoFornecedores'',
      ''ativoCirculante'', ''passivoCirculante'', ''capitalGiro'', ''aliquotaEfetivaIRPJ'',
      ''aliquotaEfetivaCSLL'', ''percentualExportacao'', ''valorTotalIncentivos'']"

text \<open>The company block: the record with a name wins over one without or with fewer keys.\<close>

definition mesclarEmpresa :: "arquivoSped \<Rightarrow> combinado \<Rightarrow> combinado" where
  "mesclarEmpresa a comb =
     (case empresaA a of
        None \<Rightarrow> comb
      | Some e \<Rightarrow>
          if length e > 0
             \<and> truthyD (campo e ''nome'')
             \<and> (\<not> truthyD (campo (empresaC comb) ''nome'') \<or> length (empresaC comb) < length e)
          then comb \<lparr> empresaC := e \<rparr>
          else comb)"

definition mesclarLista :: "arquivoSped \<Rightarrow> string \<Rightarrow> combinado \<Rightarrow> combinado" where
  "mesclarLista a prop comb =
     (case map_of (listasA a) prop of
        None \<Rightarrow> comb
      | Some xs \<Rightarrow> comb \<lparr> listasC := definir prop (obter (listasC comb) prop @ xs) (listasC comb) \<rparr>)"

text \<open>One entry \<open>[categoria, valores]\<close> of a categorised property.\<close>

definition mesclarCategoria ::
  "string \<times> registro list \<Rightarrow> (string \<times> registro list) list \<Rightarrow> (string \<times> registro list) list" where
  "mesclarCategoria entrada m =
     (case entrada of (categoria, valores) \<Rightarrow> definir categoria (obter m categoria @ valores) m)"

definition mesclarMapa :: "arquivoSped \<Rightarrow> string \<Rightarrow> combinado \<Rightarrow> combinado" where
  "mesclarMapa a prop comb =
     (case map_of (mapasA a) prop of
        None \<Rightarrow> comb
      | Some entradas \<Rightarrow>
          comb \<lparr> mapasC := definir prop (fold mesclarCategoria entradas (obter (mapasC comb) prop))
                              (mapasC comb) \<rparr>)"

definition mesclarChave ::
  "string \<times> registro \<Rightarrow> (string \<times> registro) list \<Rightarrow> (string \<times> registro) list" where
  "mesclarChave entrada m =
     (case entrada of (k, valor) \<Rightarrow>
        (case map_of m k of
           None \<Rightarrow> definir k valor m
         | Some existente \<Rightarrow> if length valor > length existente then definir k valor m else m))"

definition mesclarObjeto :: "arquivoSped \<Rightarrow> string \<Rightarrow> combinado \<Rightarrow> combinado" where
  "mesclarObjeto a prop comb =
     (case map_of (objetosA a) prop of
        None \<Rightarrow> comb
      | Some entradas \<Rightarrow>
          comb \<lparr> objetosC := definir prop (fold mesclarChave entradas (obter (objetosC comb) prop))
                                (objetosC comb) \<rparr>)"

definition mesclarValor :: "arquivoSped \<Rightarrow> string \<Rightarrow> combinado \<Rightarrow> combinado" where
  "mesclarValor a prop comb =
     (case map_of (valoresA a) prop of
        Some (Prim (JNum n)) \<Rightarrow>
          (case map_of (valoresC comb) prop of
             None \<Rightarrow> comb \<lparr> valoresC := definir prop (Prim (JNum n)) (valoresC comb) \<rparr>
           | Some v \<Rightarrow> if \<not> truthyD v then comb \<lparr> valoresC := definir prop (Prim (JNum n)) (valoresC comb) \<rparr>
                       else comb)
      | _ \<Rightarrow> comb)"

text \<open>
  The value of a root property of a per-file result when \<open>typeof\<close> gives
  \<open>'number'\<close> for it, which is what the merge of the scalar totals copies.
\<close>

definition totalNumerico :: "arquivoSped \<Rightarrow> string \<Rightarrow> dado option" where
  "totalNumerico a prop =
     (case map_of (valoresA a) prop of
        Some (Prim (JNum n)) \<Rightarrow> Some (Prim (JNum n))
      | _ \<Rightarrow> None)"

text \<open>The body of \<open>resultados.forEach\<close>.\<close>

definition mesclarResultado :: "arquivoSped option \<Rightarrow> combinado \<Rightarrow> combinado" where
  "mesclarResultado resultado comb =
     (case resultado of
        None \<Rightarrow> comb
      | Some a \<Rightarrow>
          (let c1 = (case metadadosA a of
                       None \<Rightarrow> comb
                     | Some m \<Rightarrow> comb \<lparr> arquivosProcessados := arquivosProcessados comb @ [m] \<rparr>);
               c2 = mesclarEmpresa a c1;
               c3 = fold (mesclarLista a) arrayProps c2;
               c4 = fold (mesclarMapa a) objArrayProps c3;
               c5 = fold (mesclarObjeto a) objProps c4
           in fold (mesclarValor a) valorProps c5))"

subsection \<open>Cross relations and aggregated values\<close>

datatype excecao = TypeError string | ReferenceError string

text \<open>Documents receive the participant whose code they name; the last one wins.\<close>

definition participantesPorCodigo :: "coercoes \<Rightarrow> registro list \<Rightarrow> (string \<times> registro) list" where
  "participantesPorCodigo c participantes =
     fold (\<lambda>p m. if truthyD (campo p ''codigo'') then definir (chave c (campo p ''codigo'')) p m
                   else m) participantes []"

definition relacionarParticipante ::
  "coercoes \<Rightarrow> (string \<times> registro) list \<Rightarrow> registro \<Rightarrow> registro" where
  "relacionarParticipante c porCodigo doc =
     (if truthyD (campo doc ''codPart'') then
        (case map_of porCodigo (chave c (campo doc ''codPart'')) of
           Some p \<Rightarrow> definir ''participante'' (Obj p) doc
         | None \<Rightarrow> doc)
      else doc)"

definition itensPorDocumento :: "coercoes \<Rightarrow> registro list \<Rightarrow> (string \<times> registro list) list" where
  "itensPorDocumento c itens =
     fold (\<lambda>item m. if truthyD (campo item ''documentoId'')
                     then definir (chave c (campo item ''documentoId''))
                            (obter m (chave c (campo item ''documentoId'')) @ [item]) m
                     else m) itens []"

definition relacionarItens ::
  "coercoes \<Rightarrow> (string \<times> registro list) list \<Rightarrow> registro \<Rightarrow> registro" where
  "relacionarItens c porDocumento doc =
     (if truthyD (campo doc ''id'') then
        (case map_of porDocumento (chave c (campo doc ''id'')) of
           Some its \<Rightarrow> definir ''itens'' (Arr (map Obj its)) doc
         | None \<Rightarrow> doc)
      else doc)"

definition relacionarDocumentos :: "coercoes \<Rightarrow> combinado \<Rightarrow> registro list" where
  "relacionarDocumentos c dados =
     (let documentos = obter (listasC dados) ''documentos'';
          participantes = obter (listasC dados) ''participantes'';
          itens = obter (listasC dados) ''itens'';
          d1 = (if length documentos > 0 \<and> length participantes > 0
                then map (relacionarParticipante c (participantesPorCodigo c participantes)) documentos
                else documentos)
      in if length documentos > 0 \<and> length itens > 0
         then map (relacionarItens c (itensPorDocumento c itens)) d1
         else d1)"

text \<open>
  \<open>s.replace(/(\d{2})(\d{2})(\d{4})/, '$3-$2')\<close>: the first run of eight digits becomes
  its last four digits, a hyphen and its third and fourth digit.
\<close>

fun reformatarData :: "string \<Rightarrow> string" where
  "reformatarData [] = []"
| "reformatarData (x # xs) =
     (if length (x # xs) \<ge> 8 \<and> list_all isDigit (take 8 (x # xs))
      then take 4 (drop 4 (x # xs)) @ ''-'' @ take 2 (drop 2 (x # xs)) @ drop 8 (x # xs)
      else x # reformatarData xs)"

text \<open>
  Monthly revenue from the outbound regular documents. A truthy \<open>dataEmissao\<close> that is
  not a string has no \<open>replace\<close> method, which raises.
\<close>

definition acumularReceita ::
  "coercoes \<Rightarrow> registro \<Rightarrow> excecao + (string \<times> dado) list \<Rightarrow> excecao + (string \<times> dado) list" where
  "acumularReceita c doc acc =
     (case acc of
        Inl e \<Rightarrow> Inl e
      | Inr receitaPorMes \<Rightarrow>
          if \<not> truthyD (campo doc ''dataEmissao'') then Inr receitaPorMes
          else
            (case campo doc ''dataEmissao'' of
               Prim (JStr s) \<Rightarrow>
                 (let dataEmissao = reformatarData s;
                      valorDoc = (if truthyD (campo doc ''valorTotal'') then campo doc ''valorTotal''
                                  else Prim (JNum (Fin 0)));
                      atual = (case map_of receitaPorMes dataEmissao of
                                 None \<Rightarrow> Prim (JNum (Fin 0))
                               | Some v \<Rightarrow> if truthyD v then v else Prim (JNum (Fin 0)))
                  in Inr (definir dataEmissao (maisJS c atual valorDoc) receitaPorMes))
             | _ \<Rightarrow> Inl (TypeError ''doc.dataEmissao.replace is not a function'')))"

fun num_mul :: "jsnum \<Rightarrow> jsnum \<Rightarrow> jsnum" where
  "num_mul NaN _ = NaN"
| "num_mul _ NaN = NaN"
| "num_mul (Fin a) (Fin b) = Fin (a * b)"
| "num_mul (Fin a) PInf = (if a = 0 then NaN else if a > 0 then PInf else NInf)"
| "num_mul (Fin a) NInf = (if a = 0 then NaN else if a > 0 then NInf else PInf)"
| "num_mul PInf (Fin b) = (if b = 0 then NaN else if b > 0 then PInf else NInf)"
| "num_mul NInf (Fin b) = (if b = 0 then NaN else if b > 0 then NInf else PInf)"
| "num_mul PInf PInf = PInf"
| "num_mul NInf NInf = PInf"
| "num_mul PInf NInf = NInf"
| "num_mul NInf PInf = NInf"

text \<open>Division by a positive finite number.\<close>

fun num_div_pos :: "jsnum \<Rightarrow> rat \<Rightarrow> jsnum" where
  "num_div_pos NaN _ = NaN"
| "num_div_pos (Fin a) d = Fin (a / d)"
| "num_div_pos PInf _ = PInf"
| "num_div_pos NInf _ = NInf"

definition receitaBrutaDeDocumentos :: "coercoes \<Rightarrow> registro list \<Rightarrow> excecao + dado option" where
  "receitaBrutaDeDocumentos c documentos =
     (let documentosSaida = filter (\<lambda>doc. campo doc ''indOper'' = texto ''1''
                                         \<and> campo doc ''situacao'' = texto ''00'') documentos
      in if length documentosSaida > 0 then
           (case fold (acumularReceita c) documentosSaida (Inr []) of
              Inl e \<Rightarrow> Inl e
            | Inr receitaPorMes \<Rightarrow>
                if length receitaPorMes > 0 then
                  (let totalReceita = fold (\<lambda>val sum. maisJS c sum val) (map snd receitaPorMes)
                                        (Prim (JNum (Fin 0)))
                   in Inr (Some (Prim (JNum
                        (num_div_pos (num_mul (paraNumero c totalReceita) (Fin 12))
                           (of_nat (length receitaPorMes)))))))
                else Inr None)
         else Inr None)"

text \<open>
  The filter of the customer accounts. Reading \<open>startsWith\<close> or \<open>toLowerCase\<close> from
  a value that is not a string raises.
\<close>

definition ehContaCliente :: "registro \<Rightarrow> excecao + bool" where
  "ehContaCliente conta =
     (case campo conta ''codigoConta'' of
        Prim (JStr codigo) \<Rightarrow>
          if prefix ''1.1.2'' codigo then Inr (campo conta ''naturezaSaldo'' = texto ''D'')
          else
            (case campo conta ''descricaoConta'' of
               Prim (JStr descricao) \<Rightarrow>
                 Inr (contains (toLowerCase descricao) ''client''
                      \<and> campo conta ''naturezaSaldo'' = texto ''D'')
             | _ \<Rightarrow> Inl (TypeError ''conta.descricaoConta.toLowerCase is not a function''))
      | _ \<Rightarrow> Inl (TypeError ''conta.codigoConta.startsWith is not a function''))"

fun filtrarContas :: "registro list \<Rightarrow> excecao + registro list" where
  "filtrarContas [] = Inr []"
| "filtrarContas (conta # contas) =
     (case ehContaCliente conta of
        Inl e \<Rightarrow> Inl e
      | Inr b \<Rightarrow>
          (case filtrarContas contas of
             Inl e \<Rightarrow> Inl e
           | Inr r \<Rightarrow> Inr (if b then conta # r else r)))"

definition valorTruthy :: "(string \<times> dado) list \<Rightarrow> string \<Rightarrow> bool" where
  "valorTruthy m k = (case map_of m k of None \<Rightarrow> False | Some v \<Rightarrow> truthyD v)"

text \<open>Sequencing of steps that may raise.\<close>

definition ligar :: "excecao + 'a \<Rightarrow> ('a \<Rightarrow> excecao + 'b) \<Rightarrow> excecao + 'b" where
  "ligar r f = (case r of Inl e \<Rightarrow> Inl e | Inr x \<Rightarrow> f x)"

text \<open>The three consecutive \<open>if\<close> statements of \<open>calcularValoresAgregados\<close>.\<close>

definition agregarReceitaBruta :: "coercoes \<Rightarrow> combinado \<Rightarrow> excecao + combinado" where
  "agregarReceitaBruta c dados =
     (let documentos = obter (listasC dados) ''documentos''
      in if \<not> valorTruthy (valoresC dados) ''receitaBruta'' \<and> length documentos > 0
         then (case receitaBrutaDeDocumentos c documentos of
                 Inl e \<Rightarrow> Inl e
               | Inr None \<Rightarrow> Inr dados
               | Inr (Some v) \<Rightarrow>
                   Inr (dados \<lparr> valoresC := definir ''receitaBruta'' v (valoresC dados) \<rparr>))
         else Inr dados)"

definition agregarSaldoClientes :: "coercoes \<Rightarrow> combinado \<Rightarrow> excecao + combinado" where
  "agregarSaldoClientes c dados =
     (let balanco = obter (listasC dados) ''balancoPatrimonial''
      in if \<not> valorTruthy (valoresC dados) ''saldoClientes'' \<and> length balanco > 0
         then (case filtrarContas balanco of
                 Inl e \<Rightarrow> Inl e
               | Inr contasClientes \<Rightarrow>
                   if length contasClientes > 0
                   then Inr (dados \<lparr> valoresC := definir ''saldoClientes''
                               (fold (\<lambda>conta sum. maisJS c sum (campo conta ''saldoFinal''))
                                  contasClientes (Prim (JNum (Fin 0))))
                               (valoresC dados) \<rparr>)
                   else Inr dados)
         else Inr dados)"

definition agregarResultadoOperacional :: "coercoes \<Rightarrow> combinado \<Rightarrow> excecao + combinado" where
  "agregarResultadoOperacional c dados =
     (if \<not> valorTruthy (valoresC dados) ''resultadoOperacional''
         \<and> valorTruthy (valoresC dados) ''lucroBruto''
      then Inr (dados \<lparr> valoresC := definir ''resultadoOperacional''
                   (Prim (JNum (num_mul (paraNumero c (campo (valoresC dados) ''lucroBruto''))
                                  (Fin 0.7))))
                   (valoresC dados) \<rparr>)
      else Inr dados)"

definition calcularValoresAgregados :: "coercoes \<Rightarrow> combinado \<Rightarrow> excecao + combinado" where
  "calcularValoresAgregados c dados =
     ligar (ligar (agregarReceitaBruta c dados) (agregarSaldoClientes c))
       (agregarResultadoOperacional c)"

definition processarRelacoesCruzadas :: "coercoes \<Rightarrow> combinado \<Rightarrow> excecao + combinado" where
  "processarRelacoesCruzadas c dados =
     calcularValoresAgregados c
       (dados \<lparr> listasC := definir ''documentos'' (relacionarDocumentos c dados) (listasC dados) \<rparr>)"

definition combinarResultados :: "coercoes \<Rightarrow> arquivoSped option list \<Rightarrow> excecao + combinado" where
  "combinarResultados c resultados =
     processarRelacoesCruzadas c (fold mesclarResultado resultados combinadoInicial)"

text \<open>An empty per-file result: the structure \<open>extrairDados\<close> starts from.\<close>

definition arquivoVazio :: arquivoSped where
  "arquivoVazio =
     \<lparr> metadadosA = Some [],
       empresaA = Some [],
       listasA = map (\<lambda>p. (p, [])) arrayProps,
       mapasA = [(''impostos'', []), (''creditos'', []), (''debitos'', []), (''ajustes'', []),
                 (''receitasNaoTributadas'', []), (''totalizacao'', []), (''detalhamento'', [])],
       objetosA = [(''regimes'', []), (''calculoImposto'', [])],
       valoresA = [] \<rparr>"

text \<open>
  A per-file result is well formed when no categorised property lists a category twice,
  as is the case for the property list of an object.
\<close>

definition categoriasDistintas :: "arquivoSped \<Rightarrow> bool" where
  "categoriasDistintas a = list_all (\<lambda>(prop, entradas). distinct (map fst entradas)) (mapasA a)"

text \<open>The records that the per-file results contribute to a list or to a category.\<close>

definition listaDe :: "string \<Rightarrow> arquivoSped option \<Rightarrow> registro list" where
  "listaDe prop r = (case r of None \<Rightarrow> [] | Some a \<Rightarrow> obter (listasA a) prop)"

definition categoriaDe :: "string \<Rightarrow> string \<Rightarrow> arquivoSped option \<Rightarrow> registro list" where
  "categoriaDe prop cat r = (case r of None \<Rightarrow> [] | Some a \<Rightarrow> obter (obter (mapasA a) prop) cat)"

text \<open>A small per-file result of a contributions file, for evaluating the combiner.\<close>

definition arquivoExemplo :: arquivoSped where
  "arquivoExemplo =
     \<lparr> metadadosA = Some [(''nomeArquivo'', texto ''contribuicoes.txt'')],
       empresaA = Some [(''nome'', texto ''ACME''), (''cnpj'', texto ''00000000000191'')],
       listasA = [(''documentos'', [[(''tipo'', texto ''documento''), (''indOper'', texto ''0''),
                                     (''codPart'', texto ''P1'')]]),
                  (''participantes'', [[(''tipo'', texto ''participante''),
                                        (''codigo'', texto ''P1'')]])],
       mapasA = [(''creditos'', [(''pis'', [[(''valorCredito'', numero (Fin 5))]])]),
                 (''debitos'', [(''pis'', [[(''valorTotalContribuicao'', numero (Fin 1650))]])])],
       objetosA = [(''regimes'', [(''pis_cofins'', [(''codigoIncidencia'', texto ''1'')])])],
       valoresA = [(''lucroBruto'', numero (Fin 100))] \<rparr>"

definition combinadoExemplo :: combinado where
  "combinadoExemplo =
     \<lparr> empresaC = [(''nome'', texto ''ACME''), (''cnpj'', texto ''00000000000191'')],
       listasC =
         [(''documentos'',
           [[(''tipo'', texto ''documento''), (''indOper'', texto ''0''), (''codPart'', texto ''P1''),
             (''participante'', Obj [(''tipo'', texto ''participante''), (''codigo'', texto ''P1'')])]]),
          (''itens'', []), (''itensAnaliticos'', []), (''balancoPatrimonial'', []),
          (''demonstracaoResultado'', []), (''lancamentosContabeis'', []),
          (''partidasLancamento'', []), (''incentivosFiscais'', []),
          (''participantes'', [[(''tipo'', texto ''participante''), (''codigo'', texto ''P1'')]]),
          (''inventario'', []), (''discriminacaoReceita'', [])],
       mapasC =
         [(''impostos'', []),
          (''creditos'', [(''pis'', [[(''valorCredito'', numero (Fin 5))]])]),
          (''debitos'', []), (''ajustes'', []), (''receitasNaoTributadas'', [])],
       objetosC =
         [(''regimes'', [(''pis_cofins'', [(''codigoIncidencia'', texto ''1'')])]),
          (''calculoImposto'', [])],
       valoresC = [(''lucroBruto'', numero (Fin 100)), (''resultadoOperacional'', numero (Fin 70))],
       arquivosProcessados = [[(''nomeArquivo'', texto ''contribuicoes.txt'')], []] \<rparr>"

section \<open>Tax-composition resolver\<close>

subsection \<open>Numbers and property reads\<close>

text \<open>
  The comparisons \<open>a >= b\<close> and \<open>a <= b\<close>, subtraction, division and
  \<open>Math.max(0, x)\<close>. As there is no negative zero, a division by zero takes the sign of
  the dividend.
\<close>

definition num_ge :: "jsnum \<Rightarrow> jsnum \<Rightarrow> bool" where
  "num_ge a b = (a \<noteq> NaN \<and> b \<noteq> NaN \<and> \<not> num_gt b a)"

definition num_le :: "jsnum \<Rightarrow> jsnum \<Rightarrow> bool" where
  "num_le a b = num_ge b a"

fun num_neg :: "jsnum \<Rightarrow> jsnum" where
  "num_neg NaN = NaN"
| "num_neg (Fin a) = Fin (- a)"
| "num_neg PInf = NInf"
| "num_neg NInf = PInf"

definition num_sub :: "jsnum \<Rightarrow> jsnum \<Rightarrow> jsnum" where
  "num_sub a b = num_add a (num_neg b)"

fun num_div :: "jsnum \<Rightarrow> jsnum \<Rightarrow> jsnum" where
  "num_div NaN _ = NaN"
| "num_div _ NaN = NaN"
| "num_div (Fin a) (Fin b) =
     (if b = 0 then (if a = 0 then NaN else if a > 0 then PInf else NInf) else Fin (a / b))"
| "num_div (Fin a) PInf = Fin 0"
| "num_div (Fin a) NInf = Fin 0"
| "num_div PInf (Fin b) = (if b \<ge> 0 then PInf else NInf)"
| "num_div NInf (Fin b) = (if b \<ge> 0 then NInf else PInf)"
| "num_div PInf PInf = NaN"
| "num_div PInf NInf = NaN"
| "num_div NInf PInf = NaN"
| "num_div NInf NInf = NaN"

definition mathMax0 :: "jsnum \<Rightarrow> jsnum" where
  "mathMax0 x = (case x of NaN \<Rightarrow> NaN | Fin a \<Rightarrow> Fin (max 0 a) | PInf \<Rightarrow> PInf | NInf \<Rightarrow> Fin 0)"

text \<open>
  Reading the property \<open>k\<close> of any value, \<open>d[k]\<close>: it raises on \<open>undefined\<close> and
  \<open>null\<close>; an array and a string have their length and their elements, an object its
  own properties, any other value none.
\<close>

definition elemento :: "'a list \<Rightarrow> string \<Rightarrow> 'a option" where
  "elemento xs k =
     (case filter (\<lambda>i. textoNat i = k) [0..<length xs] of
        [] \<Rightarrow> None
      | i # _ \<Rightarrow> Some (xs ! i))"

definition membro :: "dado \<Rightarrow> string \<Rightarrow> excecao + dado" where
  "membro d k =
     (case d of
        Prim JUndefined \<Rightarrow> Inl (TypeError ''Cannot read properties of undefined'')
      | Prim JNull \<Rightarrow> Inl (TypeError ''Cannot read properties of null'')
      | Prim (JStr s) \<Rightarrow>
          Inr (if k = ''length'' then numero (Fin (of_nat (length s)))
               else (case elemento s k of Some ch \<Rightarrow> texto [ch] | None \<Rightarrow> Prim JUndefined))
      | Prim _ \<Rightarrow> Inr (Prim JUndefined)
      | Arr xs \<Rightarrow>
          Inr (if k = ''length'' then numero (Fin (of_nat (length xs)))
               else (case elemento xs k of Some x \<Rightarrow> x | None \<Rightarrow> Prim JUndefined))
      | Obj ps \<Rightarrow> Inr (campo ps k))"

text \<open>The optional read \<open>d?.k\<close>.\<close>

definition membroOpcional :: "dado \<Rightarrow> string \<Rightarrow> dado" where
  "membroOpcional d k = (case membro d k of Inl _ \<Rightarrow> Prim JUndefined | Inr v \<Rightarrow> v)"

text \<open>\<open>d.k1 || d.k2 || ... || 0\<close>.\<close>

fun primeiroTruthy :: "dado \<Rightarrow> string list \<Rightarrow> excecao + dado" where
  "primeiroTruthy d [] = Inr (numero (Fin 0))"
| "primeiroTruthy d (k # ks) =
     (case membro d k of
        Inl e \<Rightarrow> Inl e
      | Inr v \<Rightarrow> if truthyD v then Inr v else primeiroTruthy d ks)"

subsection \<open>Values with provenance\<close>

definition FonteDados_SPED :: string where "FonteDados_SPED = ''sped''"
definition FonteDados_ESTIMADO :: string where "FonteDados_ESTIMADO = ''estimado''"

text \<open>
  \<open>criarValorComFonte\<close>; the first argument is the text of the clock reading that becomes
  the \<open>timestamp\<close>. Every caller passes a number as the value.
\<close>

definition criarValorComFonte :: "string \<Rightarrow> jsval \<Rightarrow> string \<Rightarrow> registro \<Rightarrow> dado" where
  "criarValorComFonte agora valor fonte metadados =
     Obj [(''valor'', numero (parseValorMonetario valor)),
          (''fonte'', texto fonte),
          (''metadados'', Obj (objectAssign [(''timestamp'', texto agora)] metadados))]"

definition extrairValorNumerico :: "coercoes \<Rightarrow> dado \<Rightarrow> dado" where
  "extrairValorNumerico c dadoComFonte =
     (case dadoComFonte of
        Prim (JNum n) \<Rightarrow> dadoComFonte
      | Obj ps \<Rightarrow>
          if campo ps ''valor'' \<noteq> Prim JUndefined then campo ps ''valor''
          else numero (parseValorMonetarioD c dadoComFonte)
      | _ \<Rightarrow> numero (parseValorMonetarioD c dadoComFonte))"

subsection \<open>The parameter structure\<close>

record composicao =
  debitos :: registro
  creditos :: registro
  aliquotasEfetivas :: registro
  fontesDados :: registro

record parametros =
  sistemaAtual :: registro
  composicaoTributaria :: composicao

definition parametrosIniciais :: parametros where
  "parametrosIniciais =
     \<lparr> sistemaAtual = [(''regimeTributario'', texto ''real''),
                       (''regimePISCOFINS'', texto (''n'' @ [CHR 0xE3] @ ''o-cumulativo''))],
       composicaoTributaria =
         \<lparr> debitos = [], creditos = [], aliquotasEfetivas = [], fontesDados = [] \<rparr> \<rparr>"

text \<open>
  \<open>lista.reduce((sum, d) => sum + parseValorMonetario(d.k1 || d.k2 || 0), 0)\<close>: reading a
  property of an element that is \<open>undefined\<close> or \<open>null\<close> raises, and so does the call
  of \<open>reduce\<close> on a value that is not an array.
\<close>

fun somarValores :: "coercoes \<Rightarrow> string list \<Rightarrow> dado list \<Rightarrow> jsnum \<Rightarrow> excecao + jsnum" where
  "somarValores c props [] soma = Inr soma"
| "somarValores c props (d # ds) soma =
     (case primeiroTruthy d props of
        Inl e \<Rightarrow> Inl e
      | Inr v \<Rightarrow> somarValores c props ds (num_add soma (parseValorMonetarioD c v)))"

definition totalDaLista :: "coercoes \<Rightarrow> string list \<Rightarrow> dado \<Rightarrow> excecao + jsnum \<times> nat" where
  "totalDaLista c props lista =
     (case lista of
        Arr ds \<Rightarrow>
          (case somarValores c props ds (Fin 0) of
             Inl e \<Rightarrow> Inl e
           | Inr valorTotal \<Rightarrow> Inr (valorTotal, length ds))
      | _ \<Rightarrow> Inl (TypeError ''reduce is not a function''))"

text \<open>
  The seven blocks of \<open>calcularParametrosFiscais\<close> that read the ledgers have one of two
  shapes: \<open>if (sped?.debitos?.imposto) { ... }\<close> and \<open>if (sped?.creditos?.imposto) { ... }\<close>.
  Each block either raises before it assigns anything or completes. The clock is read
  once for each value created; \<open>relogio\<close> gives the reading for the key of the value.
\<close>

definition registrarDebito ::
  "coercoes \<Rightarrow> (string \<Rightarrow> string) \<Rightarrow> dado \<Rightarrow> string \<Rightarrow> string list \<Rightarrow> string \<Rightarrow> parametros
     \<Rightarrow> excecao + parametros" where
  "registrarDebito c relogio sped imposto props fonteSped p =
     (let lista = membroOpcional (membroOpcional sped ''debitos'') imposto
      in if \<not> truthyD lista then Inr p
         else
           (case totalDaLista c props lista of
              Inl e \<Rightarrow> Inl e
            | Inr (valorTotal, n) \<Rightarrow>
                (let ct = composicaoTributaria p;
                     valor = criarValorComFonte (relogio (imposto @ ''_debito'')) (JNum valorTotal)
                               FonteDados_SPED
                               [(''registros'', numero (Fin (of_nat n))),
                                (''fonte_sped'', texto fonteSped)]
                 in Inr (p \<lparr> composicaoTributaria :=
                           ct \<lparr> debitos := definir imposto valor (debitos ct),
                                fontesDados := definir (imposto @ ''_debito'')
                                                 (texto FonteDados_SPED) (fontesDados ct) \<rparr> \<rparr>))))"

definition registrarCredito ::
  "coercoes \<Rightarrow> (string \<Rightarrow> string) \<Rightarrow> dado \<Rightarrow> string \<Rightarrow> string \<Rightarrow> parametros
     \<Rightarrow> excecao + parametros" where
  "registrarCredito c relogio sped imposto fonteSped p =
     (let lista = membroOpcional (membroOpcional sped ''creditos'') imposto
      in if \<not> truthyD lista then Inr p
         else
           (case totalDaLista c [''valorCredito''] lista of
              Inl e \<Rightarrow> Inl e
            | Inr (valorTotal, n) \<Rightarrow>
                (let ct = composicaoTributaria p;
                     valor = criarValorComFonte (relogio (imposto @ ''_credito'')) (JNum valorTotal)
                               FonteDados_SPED
                               [(''registros'', numero (Fin (of_nat n))),
                                (''fonte_sped'', texto fonteSped)]
                 in Inr (p \<lparr> composicaoTributaria :=
                           ct \<lparr> creditos := definir imposto valor (creditos ct),
                                fontesDados := definir (imposto @ ''_credito'')
                                                 (texto FonteDados_SPED) (fontesDados ct) \<rparr> \<rparr>))))"

subsection \<open>Effective rates\<close>

text \<open>\<open>a || b\<close>.\<close>

definition ouJS :: "dado \<Rightarrow> dado \<Rightarrow> dado" where
  "ouJS a b = (if truthyD a then a else b)"

text \<open>
  The effective-rate block occurs twice: in \<open>extrairParametrosFiscais\<close> on the scale of
  fractions (bound 1, defaults 0.0065, 0.03, 0.18) and in \<open>calcularParametrosFiscais\<close> on
  the scale of percentages (the quotient is multiplied by 100; bound 100, defaults 0.65,
  3.0, 18.0). The scale and the defaults are the parameters \<open>escala\<close> and \<open>padrao\<close>
  here; on the scale 1 the multiplication is the identity.
\<close>

definition aliquotaPadraoFracao :: "string \<Rightarrow> jsnum" where
  "aliquotaPadraoFracao imposto =
     (if imposto = ''pis'' then Fin 0.0065
      else if imposto = ''cofins'' then Fin 0.03
      else if imposto = ''icms'' then Fin 0.18 else Fin 0)"

definition aliquotaPadraoPercentual :: "string \<Rightarrow> jsnum" where
  "aliquotaPadraoPercentual imposto =
     (if imposto = ''pis'' then Fin 0.65
      else if imposto = ''cofins'' then Fin 3.0
      else if imposto = ''icms'' then Fin 18.0 else Fin 0.0)"

definition impostoLiquido :: "coercoes \<Rightarrow> dado \<Rightarrow> dado \<Rightarrow> jsnum" where
  "impostoLiquido c debito credito = mathMax0 (num_sub (paraNumero c debito) (paraNumero c credito))"

definition aliquotaEfetiva :: "rat \<Rightarrow> coercoes \<Rightarrow> jsnum \<Rightarrow> dado \<Rightarrow> dado \<Rightarrow> jsnum" where
  "aliquotaEfetiva escala c faturamentoMensal debito credito =
     num_mul (num_div (impostoLiquido c debito credito) faturamentoMensal) (Fin escala)"

definition aliquotaRegistrada ::
  "rat \<Rightarrow> (string \<Rightarrow> jsnum) \<Rightarrow> coercoes \<Rightarrow> jsnum \<Rightarrow> string \<Rightarrow> dado \<Rightarrow> dado \<Rightarrow> jsnum" where
  "aliquotaRegistrada escala padrao c faturamentoMensal imposto debito credito =
     (let a = aliquotaEfetiva escala c faturamentoMensal debito credito
      in if num_ge a (Fin 0) \<and> num_le a (Fin escala) then a else padrao imposto)"

text \<open>
  The free identifiers of the two blocks. \<open>validarValorMonetario\<close> is defined in none of the
  source files at hand; \<open>faturamentoMensal\<close> and \<open>composicaoTributaria\<close> are local
  variables in \<open>extrairParametrosFiscais\<close> but free in \<open>calcularParametrosFiscais\<close>. What
  the enclosing scopes bind is a parameter: \<open>None\<close> is an identifier that is not defined,
  and a bound identifier holds a value of the kind the block expects (a number, a
  composition, a function from values to values that may raise).
\<close>

record ambiente =
  faturamentoMensalG :: "jsnum option"
  composicaoTributariaG :: "composicao option"
  validarValorMonetarioG :: "(dado \<Rightarrow> excecao + dado) option"

definition chamarValidar :: "ambiente \<Rightarrow> dado \<Rightarrow> excecao + dado" where
  "chamarValidar env v =
     (case validarValorMonetarioG env of
        None \<Rightarrow> Inl (ReferenceError ''validarValorMonetario is not defined'')
      | Some validarValorMonetario \<Rightarrow> validarValorMonetario v)"

text \<open>The \<open>forEach\<close> over \<open>Object.keys(composicaoTributaria.debitos)\<close>.\<close>

fun registrarAliquotas ::
  "ambiente \<Rightarrow> (string \<Rightarrow> dado \<Rightarrow> dado \<Rightarrow> jsnum) \<Rightarrow> composicao \<Rightarrow> string list \<Rightarrow> registro
     \<Rightarrow> excecao + registro" where
  "registrarAliquotas env aliquotaDe ct [] aliquotas = Inr aliquotas"
| "registrarAliquotas env aliquotaDe ct (imposto # resto) aliquotas =
     (case chamarValidar env (campo (debitos ct) imposto) of
        Inl e \<Rightarrow> Inl e
      | Inr debito \<Rightarrow>
          (case chamarValidar env (ouJS (campo (creditos ct) imposto) (numero (Fin 0))) of
             Inl e \<Rightarrow> Inl e
           | Inr credito \<Rightarrow>
               registrarAliquotas env aliquotaDe ct resto
                 (definir imposto (numero (aliquotaDe imposto debito credito)) aliquotas)))"

definition totalImpostoLiquido :: "coercoes \<Rightarrow> composicao \<Rightarrow> jsnum" where
  "totalImpostoLiquido c ct =
     fold (\<lambda>imposto acumulado.
             num_add acumulado
               (impostoLiquido c (campo (debitos ct) imposto)
                  (ouJS (campo (creditos ct) imposto) (numero (Fin 0)))))
       (map fst (debitos ct)) (Fin 0)"

definition calcularAliquotasEfetivas ::
  "rat \<Rightarrow> (string \<Rightarrow> jsnum) \<Rightarrow> registro \<Rightarrow> ambiente \<Rightarrow> coercoes \<Rightarrow> jsnum \<Rightarrow> composicao
     \<Rightarrow> excecao + composicao" where
  "calcularAliquotasEfetivas escala padrao semFaturamento env c faturamentoMensal ct =
     (if num_gt faturamentoMensal (Fin 0) then
        (case registrarAliquotas env (aliquotaRegistrada escala padrao c faturamentoMensal) ct
                (map fst (debitos ct)) (aliquotasEfetivas ct) of
           Inl e \<Rightarrow> Inl e
         | Inr aliquotas \<Rightarrow>
             (let aliquotaTotal = num_mul (num_div (totalImpostoLiquido c ct) faturamentoMensal)
                                    (Fin escala)
              in Inr (ct \<lparr> aliquotasEfetivas :=
                        definir ''total''
                          (numero (if num_ge aliquotaTotal (Fin 0) \<and> num_le aliquotaTotal (Fin escala)
                                   then aliquotaTotal else Fin 0))
                          aliquotas \<rparr>)))
      else Inr (ct \<lparr> aliquotasEfetivas := semFaturamento \<rparr>))"

text \<open>The block of \<open>extrairParametrosFiscais\<close> (lines 820 to 873).\<close>

definition aliquotasEfetivasFracao ::
  "ambiente \<Rightarrow> coercoes \<Rightarrow> jsnum \<Rightarrow> composicao \<Rightarrow> excecao + composicao" where
  "aliquotasEfetivasFracao env c faturamentoMensal ct =
     calcularAliquotasEfetivas 1 aliquotaPadraoFracao
       [(''pis'', numero (Fin 0.0065)), (''cofins'', numero (Fin 0.03)),
        (''icms'', numero (Fin 0.18)), (''ipi'', numero (Fin 0)), (''iss'', numero (Fin 0)),
        (''total'', numero (Fin 0.2165))]
       env c faturamentoMensal ct"

text \<open>
  The block of \<open>calcularParametrosFiscais\<close> (lines 2948 to 3002): the same computation on
  the bindings of the free identifiers, which it reads in this order.
\<close>

definition aliquotasEfetivasPercentuais :: "ambiente \<Rightarrow> coercoes \<Rightarrow> excecao + composicao" where
  "aliquotasEfetivasPercentuais env c =
     (case faturamentoMensalG env of
        None \<Rightarrow> Inl (ReferenceError ''faturamentoMensal is not defined'')
      | Some faturamentoMensal \<Rightarrow>
          (case composicaoTributariaG env of
             None \<Rightarrow> Inl (ReferenceError ''composicaoTributaria is not defined'')
           | Some ct \<Rightarrow>
               calcularAliquotasEfetivas 100 aliquotaPadraoPercentual
                 [(''pis'', numero (Fin 0.65)), (''cofins'', numero (Fin 3.0)),
                  (''icms'', numero (Fin 18.0)), (''ipi'', numero (Fin 0.0)),
                  (''iss'', numero (Fin 0.0)), (''total'', numero (Fin 21.65))]
                 env c faturamentoMensal ct))"

subsection \<open>Estimation of missing debits\<close>

definition estimarValoresAusentes :: "coercoes \<Rightarrow> (string \<Rightarrow> string) \<Rightarrow> parametros \<Rightarrow> parametros" where
  "estimarValoresAusentes c relogio p =
     (let composicao = composicaoTributaria p;
          c1 = (if \<not> truthyD (campo (debitos composicao) ''cofins'')
                   \<and> truthyD (campo (debitos composicao) ''pis'')
                then
                  (let valorPIS = extrairValorNumerico c (campo (debitos composicao) ''pis'');
                       cofinsEstimado = num_mul (paraNumero c valorPIS) (Fin (7.6 / 1.65))
                   in composicao
                        \<lparr> debitos := definir ''cofins''
                             (criarValorComFonte (relogio ''cofins_debito'') (JNum cofinsEstimado)
                                FonteDados_ESTIMADO
                                [(''baseadoEm'', texto ''PIS''), (''proporcao'', texto ''7.6/1.65'')])
                             (debitos composicao),
                          fontesDados := definir ''cofins_debito'' (texto FonteDados_ESTIMADO)
                                           (fontesDados composicao) \<rparr>)
                else composicao);
          c2 = (if \<not> truthyD (campo (debitos c1) ''pis'') \<and> truthyD (campo (debitos c1) ''cofins'')
                then
                  (let valorCOFINS = extrairValorNumerico c (campo (debitos c1) ''cofins'');
                       pisEstimado = num_mul (paraNumero c valorCOFINS) (Fin (1.65 / 7.6))
                   in c1
                        \<lparr> debitos := definir ''pis''
                             (criarValorComFonte (relogio ''pis_debito'') (JNum pisEstimado)
                                FonteDados_ESTIMADO
                                [(''baseadoEm'', texto ''COFINS''), (''proporcao'', texto ''1.65/7.6'')])
                             (debitos c1),
                          fontesDados := definir ''pis_debito'' (texto FonteDados_ESTIMADO)
                                           (fontesDados c1) \<rparr>)
                else c1);
          c3 = (if \<not> truthyD (campo (debitos c2) ''icms'') then
                  (let valorPISCOFINS =
                         maisJS c
                           (ouJS (extrairValorNumerico c (campo (debitos c2) ''pis'')) (numero (Fin 0)))
                           (ouJS (extrairValorNumerico c (campo (debitos c2) ''cofins'')) (numero (Fin 0)))
                   in if num_gt (paraNumero c valorPISCOFINS) (Fin 0) then
                        (let icmsEstimado = num_mul (paraNumero c valorPISCOFINS) (Fin 3.5)
                         in c2
                              \<lparr> debitos := definir ''icms''
                                   (criarValorComFonte (relogio ''icms_debito'') (JNum icmsEstimado)
                                      FonteDados_ESTIMADO
                                      [(''baseadoEm'', texto ''PIS+COFINS''),
                                       (''multiplicador'', texto ''3.5'')])
                                   (debitos c2),
                                fontesDados := definir ''icms_debito'' (texto FonteDados_ESTIMADO)
                                                 (fontesDados c2) \<rparr>)
                      else c2)
                else c2)
      in p \<lparr> composicaoTributaria := c3 \<rparr>)"

subsection \<open>\<open>calcularParametrosFiscais\<close>\<close>

text \<open>
  Statements in sequence on a state that is updated in place: the run stops at the first
  statement that raises, with the state as the statements before it left it.
\<close>

fun executar :: "('s \<Rightarrow> excecao + 's) list \<Rightarrow> 's \<Rightarrow> 's \<times> excecao option" where
  "executar [] s = (s, None)"
| "executar (f # fs) s = (case f s of Inl e \<Rightarrow> (s, Some e) | Inr s' \<Rightarrow> executar fs s')"

text \<open>
  The effective-rate block inside \<open>calcularParametrosFiscais\<close> assigns to the object that
  the free identifier \<open>composicaoTributaria\<close> names, never to \<open>parametros\<close>.
\<close>

definition blocoAliquotas :: "ambiente \<Rightarrow> coercoes \<Rightarrow> parametros \<Rightarrow> excecao + parametros" where
  "blocoAliquotas env c p =
     (case aliquotasEfetivasPercentuais env c of Inl e \<Rightarrow> Inl e | Inr _ \<Rightarrow> Inr p)"

definition corpoTry ::
  "ambiente \<Rightarrow> coercoes \<Rightarrow> (string \<Rightarrow> string) \<Rightarrow> dado \<Rightarrow> dado \<Rightarrow> (parametros \<Rightarrow> excecao + parametros) list" where
  "corpoTry env c relogio spedFiscal spedContribuicoes =
     [registrarDebito c relogio spedContribuicoes ''pis''
        [''valorTotalContribuicao'', ''valorContribuicaoAPagar''] ''contribuicoes'',
      registrarCredito c relogio spedContribuicoes ''pis'' ''contribuicoes'',
      registrarDebito c relogio spedContribuicoes ''cofins''
        [''valorTotalContribuicao'', ''valorContribuicaoAPagar''] ''contribuicoes'',
      registrarCredito c relogio spedContribuicoes ''cofins'' ''contribuicoes'',
      registrarDebito c relogio spedFiscal ''icms'' [''valorTotalDebitos''] ''fiscal'',
      registrarCredito c relogio spedFiscal ''icms'' ''fiscal'',
      registrarDebito c relogio spedFiscal ''ipi'' [''valorTotalDebitos''] ''fiscal'',
      blocoAliquotas env c,
      (\<lambda>p. Inr (estimarValoresAusentes c relogio p))]"

text \<open>
  The \<open>try\<close> block ends with \<open>return parametros\<close>, and the \<open>catch\<close> block returns the
  same object as the statements before the exception left it.
\<close>

definition calcularParametrosFiscais ::
  "ambiente \<Rightarrow> coercoes \<Rightarrow> (string \<Rightarrow> string) \<Rightarrow> dado \<Rightarrow> dado \<Rightarrow> excecao + parametros" where
  "calcularParametrosFiscais env c relogio spedFiscal spedContribuicoes =
     (case executar (corpoTry env c relogio spedFiscal spedContribuicoes) parametrosIniciais of
        (parametros, None) \<Rightarrow> Inr parametros
      | (parametros, Some erro) \<Rightarrow> Inr parametros)"

text \<open>The scopes as the source files at hand leave them: none of the three is defined.\<close>

definition ambienteFonte :: ambiente where
  "ambienteFonte =
     \<lparr> faturamentoMensalG = None, composicaoTributariaG = None, validarValorMonetarioG = None \<rparr>"

text \<open>
  A composition for evaluating the effective-rate blocks: a PIS debit of 2000 against a
  credit of 500 and a COFINS debit of 30, to be set against a revenue of 1000.
\<close>

definition composicaoExemplo :: composicao where
  "composicaoExemplo =
     \<lparr> debitos = [(''pis'', numero (Fin 2000)), (''cofins'', numero (Fin 30))],
       creditos = [(''pis'', numero (Fin 500))],
       aliquotasEfetivas = [],
       fontesDados = [] \<rparr>"

section \<open>Line-level tax pass of the parser\<close>










section \<open>The scenario of one contributions file\<close>



definition relogioExemplo :: "string \<Rightarrow> string" where
  "relogioExemplo k = ''2025-01-31T12:00:00.000Z''"



text \<open>
  A contributions dataset whose only PIS debit record, 2000, exceeds a monthly revenue of
  1000, and the parameter structure with that debit recorded and nothing else.
\<close>

definition contribuicoesExcedente :: dado where
  "contribuicoesExcedente =
     Obj [(''debitos'', Obj [(''pis'', Arr [Obj [(''valorTotalContribuicao'', numero (Fin 2000))]])])]"

definition parametrosExcedente :: parametros where
  "parametrosExcedente =
     parametrosIniciais
       \<lparr> composicaoTributaria :=
           \<lparr> debitos =
               [(''pis'',
                 Obj [(''valor'', numero (Fin 2000)),
                      (''fonte'', texto ''sped''),
                      (''metadados'', Obj [(''timestamp'', texto ''2025-01-31T12:00:00.000Z''),
                                           (''registros'', numero (Fin 1)),
                                           (''fonte_sped'', texto ''contribuicoes'')])])],
             creditos = [],
             aliquotasEfetivas = [],
             fontesDados = [(''pis_debito'', texto ''sped'')] \<rparr> \<rparr>"

section \<open>Debit resolvers\<close>

text \<open>
  The dataset \<open>dadosSped\<close> is an object, kept as the list of its properties; the values
  of the properties are arbitrary. The monthly revenue is a number.
\<close>

text \<open>The test \<open>x?.length > 0\<close>.\<close>

definition comprimentoPositivo :: "coercoes \<Rightarrow> dado \<Rightarrow> bool" where
  "comprimentoPositivo c x =
     (case x of
        Arr xs \<Rightarrow> xs \<noteq> []
      | Prim (JStr s) \<Rightarrow> s \<noteq> []
      | Obj ps \<Rightarrow>
          (case map_of ps ''length'' of
             None \<Rightarrow> False
           | Some n \<Rightarrow> num_gt (paraNumero c n) (Fin 0))
      | _ \<Rightarrow> False)"

subsection \<open>First source of PIS and COFINS: the direct debit records\<close>

text \<open>
  The value of one record in the \<open>forEach\<close> of priority 1: the first of
  \<open>valorTotalContribuicao\<close> and \<open>valorContribuicaoAPagar\<close> that is a number, else the
  first that is a string, parsed, else 0. Reading a property of \<open>undefined\<close> or
  \<open>null\<close> raises.
\<close>

definition valorContribuicao :: "dado \<Rightarrow> excecao + jsnum" where
  "valorContribuicao debito =
     (case membro debito ''valorTotalContribuicao'' of
        Inl e \<Rightarrow> Inl e
      | Inr valorTotalContribuicao \<Rightarrow>
          (let valorContribuicaoAPagar = membroOpcional debito ''valorContribuicaoAPagar''
           in Inr (case valorTotalContribuicao of
                     Prim (JNum n) \<Rightarrow> n
                   | _ \<Rightarrow>
                     (case valorContribuicaoAPagar of
                        Prim (JNum n) \<Rightarrow> n
                      | _ \<Rightarrow>
                        (case valorTotalContribuicao of
                           Prim (JStr s) \<Rightarrow> parseValorMonetario (JStr s)
                         | _ \<Rightarrow>
                           (case valorContribuicaoAPagar of
                              Prim (JStr s) \<Rightarrow> parseValorMonetario (JStr s)
                            | _ \<Rightarrow> Fin 0))))))"

text \<open>\<open>valor > 0 && valor < 1000000000\<close>.\<close>

definition valorValido :: "jsnum \<Rightarrow> bool" where
  "valorValido valor = (num_gt valor (Fin 0) \<and> num_lt valor (Fin 1000000000))"

fun somarDebitosValidos :: "dado list \<Rightarrow> jsnum \<Rightarrow> excecao + jsnum" where
  "somarDebitosValidos [] totalDebitos = Inr totalDebitos"
| "somarDebitosValidos (debito # resto) totalDebitos =
     (case valorContribuicao debito of
        Inl e \<Rightarrow> Inl e
      | Inr valor \<Rightarrow>
          somarDebitosValidos resto
            (if valorValido valor then num_add totalDebitos valor else totalDebitos))"

text \<open>
  Priority 1 of \<open>calcularDebitosPIS\<close> and \<open>calcularDebitosCOFINS\<close>: \<open>None\<close> when the
  function goes on to the next source. A value with a positive length that is not an
  array has no \<open>slice\<close> or no \<open>forEach\<close>, and the call raises.
\<close>

definition debitosDiretos :: "coercoes \<Rightarrow> dado \<Rightarrow> excecao + jsnum option" where
  "debitosDiretos c lista =
     (if comprimentoPositivo c lista then
        (case lista of
           Arr registros \<Rightarrow>
             (case somarDebitosValidos registros (Fin 0) of
                Inl e \<Rightarrow> Inl e
              | Inr totalDebitos \<Rightarrow>
                  Inr (if num_gt totalDebitos (Fin 0) then Some totalDebitos else None))
         | _ \<Rightarrow> Inl (TypeError ''is not a function''))
      else Inr None)"

subsection \<open>Second source: the totalization records\<close>

text \<open>The callback of the \<open>reduce\<close> in the array branch of \<open>extrairValorSeguro\<close>.\<close>

definition somarItem :: "coercoes \<Rightarrow> string \<Rightarrow> dado \<Rightarrow> jsnum \<Rightarrow> jsnum" where
  "somarItem c propriedade item soma =
     (if truthyD item \<and> truthyD (membroOpcional item propriedade) then
        (let itemValor = (case membroOpcional item propriedade of
                            Prim (JNum n) \<Rightarrow> n
                          | v \<Rightarrow> parseValorMonetarioD c v)
         in num_add soma (if num_gt itemValor (Fin 0) then itemValor else Fin 0))
      else soma)"

text \<open>\<open>extrairValorSeguro\<close> with its default \<open>valorPadrao = 0\<close>, as every caller uses it.\<close>

definition extrairValorSeguro :: "coercoes \<Rightarrow> dado \<Rightarrow> string \<Rightarrow> jsnum" where
  "extrairValorSeguro c objeto propriedade =
     (case objeto of
        Prim _ \<Rightarrow> Fin 0
      | _ \<Rightarrow>
          (case membroOpcional objeto propriedade of
             Prim (JNum n) \<Rightarrow> if num_gt n (Fin 0) \<and> num_lt n (Fin 1000000000) then n else Fin 0
           | Prim (JStr s) \<Rightarrow> parseValorMonetario (JStr s)
           | _ \<Rightarrow>
               (case objeto of
                  Arr itens \<Rightarrow>
                    if itens \<noteq> [] \<and> num_gt (fold (somarItem c propriedade) itens (Fin 0)) (Fin 0)
                    then fold (somarItem c propriedade) itens (Fin 0)
                    else Fin 0
                | _ \<Rightarrow> Fin 0)))"

text \<open>
  \<open>parseFloat(reg[i]?.replace(',', '.') || 0)\<close>: a field that is neither a string nor
  \<open>undefined\<close> nor \<open>null\<close> has no \<open>replace\<close>, and the call raises.
\<close>

definition campoPosicional :: "dado \<Rightarrow> string \<Rightarrow> excecao + jsnum" where
  "campoPosicional reg i =
     (case membro reg i of
        Inl e \<Rightarrow> Inl e
      | Inr x \<Rightarrow>
          (case x of
             Prim JUndefined \<Rightarrow> Inr (Fin 0)
           | Prim JNull \<Rightarrow> Inr (Fin 0)
           | Prim (JStr s) \<Rightarrow>
               Inr (if replaceFirst (CHR '','') (CHR ''.'') s = [] then Fin 0
                    else parseFloat (replaceFirst (CHR '','') (CHR ''.'') s))
           | _ \<Rightarrow> Inl (TypeError ''replace is not a function'')))"

text \<open>\<open>extrairValorSeguro(reg, propriedade) || parseFloat(reg[i]?.replace(',', '.') || 0)\<close>.\<close>

definition valorTotalizado :: "coercoes \<Rightarrow> dado \<Rightarrow> string \<Rightarrow> string \<Rightarrow> excecao + jsnum" where
  "valorTotalizado c reg propriedade i =
     (if truthy (JNum (extrairValorSeguro c reg propriedade))
      then Inr (extrairValorSeguro c reg propriedade)
      else campoPosicional reg i)"

fun somarTotalizados ::
  "coercoes \<Rightarrow> string \<Rightarrow> string \<Rightarrow> dado list \<Rightarrow> jsnum \<Rightarrow> excecao + jsnum" where
  "somarTotalizados c propriedade i [] acumulado = Inr acumulado"
| "somarTotalizados c propriedade i (reg # resto) acumulado =
     (case valorTotalizado c reg propriedade i of
        Inl e \<Rightarrow> Inl e
      | Inr valor \<Rightarrow>
          somarTotalizados c propriedade i resto
            (if num_gt valor (Fin 0) then num_add acumulado valor else acumulado))"

definition debitosTotalizados ::
  "coercoes \<Rightarrow> dado \<Rightarrow> string \<Rightarrow> string \<Rightarrow> excecao + jsnum option" where
  "debitosTotalizados c lista propriedade i =
     (if comprimentoPositivo c lista then
        (case lista of
           Arr registros \<Rightarrow>
             (case somarTotalizados c propriedade i registros (Fin 0) of
                Inl e \<Rightarrow> Inl e
              | Inr valorTotalizador \<Rightarrow>
                  Inr (if num_gt valorTotalizador (Fin 0) then Some valorTotalizador else None))
         | _ \<Rightarrow> Inl (TypeError ''is not a function''))
      else Inr None)"

subsection \<open>Regime\<close>

definition determinarRegimeTributario :: "coercoes \<Rightarrow> registro \<Rightarrow> string" where
  "determinarRegimeTributario c dadosSped =
     (let forma = membroOpcional (membroOpcional (campo dadosSped ''ecf'') ''parametros'')
                    ''formaApuracao'';
          pisCofins = membroOpcional (campo dadosSped ''regimes'') ''pis_cofins'';
          codigo = membroOpcional pisCofins ''codigoIncidencia''
      in if truthyD forma \<and> forma \<in> set [texto ''1'', texto ''2''] then ''real''
         else if truthyD forma \<and> forma \<in> set [texto ''3'', texto ''4''] then ''presumido''
         else if truthyD forma \<and> forma \<in> set [texto ''5'', texto ''6'', texto ''7''] then ''simples''
         else if truthyD pisCofins \<and> codigo = texto ''1'' then ''real''
         else if truthyD pisCofins \<and> codigo = texto ''2'' then ''presumido''
         else if comprimentoPositivo c (membroOpcional (campo dadosSped ''impostos'') ''simples'')
           then ''simples''
         else if comprimentoPositivo c (membroOpcional (campo dadosSped ''creditos'') ''pis'')
                 \<or> comprimentoPositivo c (membroOpcional (campo dadosSped ''creditos'') ''cofins'')
           then ''real''
         else ''presumido'')"

definition regimePorCodigo :: "dado \<Rightarrow> string option" where
  "regimePorCodigo codigo =
     (if codigo = texto ''1'' then Some ''nao-cumulativo''
      else if codigo = texto ''2'' then Some ''cumulativo''
      else if codigo = texto ''3'' then Some ''nao-cumulativo''
      else None)"

definition determinarRegimePisCofins :: "coercoes \<Rightarrow> registro \<Rightarrow> string" where
  "determinarRegimePisCofins c dadosSped =
     (let pisCofins = membroOpcional (campo dadosSped ''regimes'') ''pis_cofins'';
          codigoContribuicoes =
            membroOpcional
              (membroOpcional (membroOpcional (campo dadosSped ''contribuicoes'') ''regimes'')
                 ''pis_cofins'')
              ''codigoIncidencia'';
          peloRegime = (if determinarRegimeTributario c dadosSped = ''real'' then ''nao-cumulativo''
                        else ''cumulativo'')
      in case (if truthyD pisCofins then regimePorCodigo (membroOpcional pisCofins ''codigoIncidencia'')
               else None) of
           Some r \<Rightarrow> r
         | None \<Rightarrow>
             (case (if truthyD codigoContribuicoes then regimePorCodigo codigoContribuicoes
                    else None) of
                Some r \<Rightarrow> r
              | None \<Rightarrow> peloRegime))"

subsection \<open>\<open>calcularDebitosPIS\<close> and \<open>calcularDebitosCOFINS\<close>\<close>

text \<open>
  The two functions have the same text up to the key of the direct records, the key of
  the totalization records and the two rates, which are the parameters here.
\<close>

definition calcularDebitosContribuicao ::
  "string \<Rightarrow> string \<Rightarrow> rat \<Rightarrow> rat \<Rightarrow> coercoes \<Rightarrow> registro \<Rightarrow> jsnum \<Rightarrow> excecao + jsnum" where
  "calcularDebitosContribuicao imposto totalizador aliquotaNaoCumulativa aliquotaCumulativa
       c dadosSped faturamentoMensal =
     (case debitosDiretos c (membroOpcional (campo dadosSped ''debitos'') imposto) of
        Inl e \<Rightarrow> Inl e
      | Inr (Some totalDebitos) \<Rightarrow> Inr totalDebitos
      | Inr None \<Rightarrow>
          (case debitosTotalizados c (membroOpcional (campo dadosSped ''debitos'') totalizador)
                  ''valorContribuicaoApurada'' ''5'' of
             Inl e \<Rightarrow> Inl e
           | Inr (Some valorTotalizador) \<Rightarrow> Inr valorTotalizador
           | Inr None \<Rightarrow>
               if num_gt faturamentoMensal (Fin 0) then
                 (if determinarRegimeTributario c dadosSped = ''simples'' then Inr (Fin 0)
                  else if determinarRegimePisCofins c dadosSped = ''nao-cumulativo''
                    then Inr (num_mul faturamentoMensal (Fin aliquotaNaoCumulativa))
                  else Inr (num_mul faturamentoMensal (Fin aliquotaCumulativa)))
               else Inr (Fin 0)))"

definition calcularDebitosPIS :: "coercoes \<Rightarrow> registro \<Rightarrow> jsnum \<Rightarrow> excecao + jsnum" where
  "calcularDebitosPIS = calcularDebitosContribuicao ''pis'' ''m200'' 0.0165 0.0065"

definition calcularDebitosCOFINS :: "coercoes \<Rightarrow> registro \<Rightarrow> jsnum \<Rightarrow> excecao + jsnum" where
  "calcularDebitosCOFINS = calcularDebitosContribuicao ''cofins'' ''m600'' 0.076 0.03"

subsection \<open>Sector and state rate\<close>

text \<open>
  \<open>extrairCFOPs\<close> collects the truthy \<open>cfop\<close> values of the line items and of the
  analytic items in a \<open>Set\<close>, in the order of their first occurrence.
\<close>

fun coletarCFOPs :: "dado list \<Rightarrow> dado list \<Rightarrow> excecao + dado list" where
  "coletarCFOPs [] cfops = Inr cfops"
| "coletarCFOPs (item # resto) cfops =
     (case membro item ''cfop'' of
        Inl e \<Rightarrow> Inl e
      | Inr cfop \<Rightarrow>
          coletarCFOPs resto
            (if truthyD cfop \<and> cfop \<notin> set cfops then cfops @ [cfop] else cfops))"

definition coletarDe :: "coercoes \<Rightarrow> dado \<Rightarrow> dado list \<Rightarrow> excecao + dado list" where
  "coletarDe c lista cfops =
     (if comprimentoPositivo c lista then
        (case lista of
           Arr itens \<Rightarrow> coletarCFOPs itens cfops
         | _ \<Rightarrow> Inl (TypeError ''forEach is not a function''))
      else Inr cfops)"

definition extrairCFOPs :: "coercoes \<Rightarrow> registro \<Rightarrow> excecao + dado list" where
  "extrairCFOPs c dadosSped =
     (case coletarDe c (campo dadosSped ''itens'') [] of
        Inl e \<Rightarrow> Inl e
      | Inr cfops \<Rightarrow> coletarDe c (campo dadosSped ''itensAnaliticos'') cfops)"

text \<open>
  \<open>analisarCFOPs\<close> on codes of any kind: a code that is not a string is in neither
  list, so the loop reaches \<open>cfop.startsWith\<close>, which raises.
\<close>

definition textoDoCodigo :: "dado \<Rightarrow> string" where
  "textoDoCodigo d = (case d of Prim (JStr s) \<Rightarrow> s | _ \<Rightarrow> [])"

definition analisarCodigos :: "dado list \<Rightarrow> excecao + string" where
  "analisarCodigos cfops =
     (if list_all ehTexto cfops then Inr (analisarCFOPs (map textoDoCodigo cfops))
      else Inl (TypeError ''cfop.startsWith is not a function''))"

definition determinarTipoEmpresa :: "coercoes \<Rightarrow> registro \<Rightarrow> excecao + string" where
  "determinarTipoEmpresa c dadosSped =
     (if comprimentoPositivo c (membroOpcional (campo dadosSped ''impostos'') ''ipi'')
         \<or> comprimentoPositivo c (membroOpcional (campo dadosSped ''debitos'') ''ipi'')
      then Inr ''industria''
      else
        (case extrairCFOPs c dadosSped of
           Inl e \<Rightarrow> Inl e
         | Inr cfops \<Rightarrow> analisarCodigos cfops))"

text \<open>
  \<open>toUpperCase\<close> on Latin-1 text. The three Latin-1 letters whose capital is not a single
  Latin-1 character (sharp s, y with diaeresis, micro sign) are left as they are; no key
  of the state table contains a letter outside A to Z.
\<close>

definition upperChar :: "char \<Rightarrow> char" where
  "upperChar c = (case map_of (zip minusculas maiusculas) c of Some d \<Rightarrow> d | None \<Rightarrow> c)"

definition toUpperCase :: "string \<Rightarrow> string" where
  "toUpperCase s = map upperChar s"

definition aliquotasPorUf :: "(string \<times> rat) list" where
  "aliquotasPorUf =
     [(''AC'', 0.19), (''AL'', 0.20), (''AP'', 0.18), (''AM'', 0.20), (''BA'', 0.205),
      (''CE'', 0.20), (''DF'', 0.20), (''ES'', 0.17), (''GO'', 0.19), (''MA'', 0.23),
      (''MT'', 0.17), (''MS'', 0.17), (''MG'', 0.18), (''PA'', 0.19), (''PB'', 0.20),
      (''PR'', 0.195), (''PE'', 0.205), (''PI'', 0.225), (''RJ'', 0.20), (''RN'', 0.20),
      (''RS'', 0.17), (''RO'', 0.195), (''RR'', 0.20), (''SC'', 0.17), (''SP'', 0.18),
      (''SE'', 0.20), (''TO'', 0.20)]"

definition obterAliquotaMediaEstado :: "string \<Rightarrow> rat" where
  "obterAliquotaMediaEstado uf =
     (case map_of aliquotasPorUf (toUpperCase uf) of Some a \<Rightarrow> a | None \<Rightarrow> 0.18)"

subsection \<open>\<open>calcularDebitosICMS\<close>\<close>

text \<open>
  Priority 1: the \<open>reduce\<close> adds \<open>valorTotalDebitos || valorSaldoAPagar || 0\<close> of
  every record with the operator \<open>+\<close>, and nothing is discarded.
\<close>

fun somarDebitosICMS :: "coercoes \<Rightarrow> dado list \<Rightarrow> dado \<Rightarrow> excecao + dado" where
  "somarDebitosICMS c [] acumulado = Inr acumulado"
| "somarDebitosICMS c (debito # resto) acumulado =
     (case primeiroTruthy debito [''valorTotalDebitos'', ''valorSaldoAPagar''] of
        Inl e \<Rightarrow> Inl e
      | Inr valor \<Rightarrow> somarDebitosICMS c resto (maisJS c acumulado valor))"

definition debitosDiretosICMS :: "coercoes \<Rightarrow> dado \<Rightarrow> excecao + dado option" where
  "debitosDiretosICMS c lista =
     (if comprimentoPositivo c lista then
        (case lista of
           Arr registros \<Rightarrow>
             (case somarDebitosICMS c registros (numero (Fin 0)) of
                Inl e \<Rightarrow> Inl e
              | Inr totalDebitos \<Rightarrow>
                  Inr (if num_gt (paraNumero c totalDebitos) (Fin 0) then Some totalDebitos
                       else None))
         | _ \<Rightarrow> Inl (TypeError ''is not a function''))
      else Inr None)"

text \<open>
  Priority 3: the filter of the outbound analytic records. \<open>reg.cfop || ''\<close> must be a
  string for \<open>startsWith\<close> to exist.
\<close>

fun filtrarSaidas :: "dado list \<Rightarrow> excecao + dado list" where
  "filtrarSaidas [] = Inr []"
| "filtrarSaidas (reg # resto) =
     (case membro reg ''cfop'' of
        Inl e \<Rightarrow> Inl e
      | Inr cfop \<Rightarrow>
          (case ouJS cfop (texto []) of
             Prim (JStr s) \<Rightarrow>
               (case filtrarSaidas resto of
                  Inl e \<Rightarrow> Inl e
                | Inr saidas \<Rightarrow>
                    Inr (if startsWith s (CHR ''5'') \<or> startsWith s (CHR ''6'') then reg # saidas
                         else saidas))
           | _ \<Rightarrow> Inl (TypeError ''cfop.startsWith is not a function'')))"

definition debitosAnaliticos :: "coercoes \<Rightarrow> dado \<Rightarrow> excecao + jsnum option" where
  "debitosAnaliticos c lista =
     (if comprimentoPositivo c lista then
        (case lista of
           Arr registros \<Rightarrow>
             (case filtrarSaidas registros of
                Inl e \<Rightarrow> Inl e
              | Inr registrosSaida \<Rightarrow>
                  (case somarTotalizados c ''valorIcms'' ''7'' registrosSaida (Fin 0) of
                     Inl e \<Rightarrow> Inl e
                   | Inr valorC190 \<Rightarrow>
                       Inr (if num_gt valorC190 (Fin 0) then Some valorC190 else None)))
         | _ \<Rightarrow> Inl (TypeError ''filter is not a function''))
      else Inr None)"

text \<open>Priority 4: the estimate from the revenue, for a company that is not in services.\<close>

definition estimarDebitoICMS :: "coercoes \<Rightarrow> registro \<Rightarrow> jsnum \<Rightarrow> excecao + dado" where
  "estimarDebitoICMS c dadosSped faturamentoMensal =
     (case determinarTipoEmpresa c dadosSped of
        Inl e \<Rightarrow> Inl e
      | Inr tipoEmpresa \<Rightarrow>
          if tipoEmpresa \<noteq> ''servicos'' \<and> num_gt faturamentoMensal (Fin 0) then
            (let uf = membroOpcional (campo dadosSped ''empresa'') ''uf''
             in if truthyD uf then
                  (case uf of
                     Prim (JStr s) \<Rightarrow>
                       Inr (numero (num_mul (num_mul faturamentoMensal (Fin 0.6))
                                      (Fin (obterAliquotaMediaEstado (toUpperCase s)))))
                   | _ \<Rightarrow> Inl (TypeError ''uf.toUpperCase is not a function''))
                else Inr (numero (num_mul (num_mul faturamentoMensal (Fin 0.6)) (Fin 0.18))))
          else Inr (numero (Fin 0)))"

definition calcularDebitosICMS :: "coercoes \<Rightarrow> registro \<Rightarrow> jsnum \<Rightarrow> excecao + dado" where
  "calcularDebitosICMS c dadosSped faturamentoMensal =
     (case debitosDiretosICMS c (membroOpcional (campo dadosSped ''debitos'') ''icms'') of
        Inl e \<Rightarrow> Inl e
      | Inr (Some totalDebitos) \<Rightarrow> Inr totalDebitos
      | Inr None \<Rightarrow>
          (case debitosTotalizados c (membroOpcional (campo dadosSped ''debitos'') ''e110'')
                  ''valorTotalDebitos'' ''2'' of
             Inl e \<Rightarrow> Inl e
           | Inr (Some valorE110) \<Rightarrow> Inr (numero valorE110)
           | Inr None \<Rightarrow>
               (case debitosAnaliticos c (membroOpcional (campo dadosSped ''impostos'') ''c190'') of
                  Inl e \<Rightarrow> Inl e
                | Inr (Some valorC190) \<Rightarrow> Inr (numero valorC190)
                | Inr None \<Rightarrow> estimarDebitoICMS c dadosSped faturamentoMensal)))"

subsection \<open>The first source as the specification words it\<close>

text \<open>The values summed after discarding those outside the open interval from 0 to 1e9.\<close>

definition fonte1_spec :: "jsnum list \<Rightarrow> jsnum" where
  "fonte1_spec valores = foldl num_add (Fin 0) (filter valorValido valores)"

text \<open>The values summed as they are.\<close>

definition somaSimples :: "jsnum list \<Rightarrow> jsnum" where
  "somaSimples valores = foldl num_add (Fin 0) valores"

text \<open>
  Datasets for evaluating the resolvers: ICMS debit records of 2,000,000,000 and 5; ICMS
  debit records of \<open>-10\<close> and 5 with no other source; PIS debit records of 2,000,000,000,
  \<open>"1.650,00"\<close> and 5 and a COFINS debit record of 7,600 next to totalization records
  and a regime code.
\<close>

definition dadosIcmsGrande :: registro where
  "dadosIcmsGrande =
     [(''debitos'', Obj [(''icms'', Arr [Obj [(''valorTotalDebitos'', numero (Fin 2000000000))],
                                          Obj [(''valorTotalDebitos'', numero (Fin 5))]])])]"

definition dadosIcmsNegativo :: registro where
  "dadosIcmsNegativo =
     [(''debitos'', Obj [(''icms'', Arr [Obj [(''valorTotalDebitos'', numero (Fin (- 10)))],
                                          Obj [(''valorTotalDebitos'', numero (Fin 5))]])])]"

definition dadosContribuicoesExemplo :: registro where
  "dadosContribuicoesExemplo =
     [(''debitos'',
       Obj [(''pis'', Arr [Obj [(''valorTotalContribuicao'', numero (Fin 2000000000))],
                           Obj [(''valorContribuicaoAPagar'', texto ''1.650,00'')],
                           Obj [(''valorTotalContribuicao'', numero (Fin 5))]]),
            (''cofins'', Arr [Obj [(''valorTotalContribuicao'', numero (Fin 7600))]]),
            (''m200'', Arr [Obj [(''valorContribuicaoApurada'', numero (Fin 999))]]),
            (''m600'', Arr [Obj [(''valorContribuicaoApurada'', numero (Fin 888))]])]),
      (''regimes'', Obj [(''pis_cofins'', Obj [(''codigoIncidencia'', texto ''1'')])])]"

section \<open>Verification\<close>

subsection \<open>Monetary normaliser\<close>

lemma split_not_Nil: "split c s \<noteq> []"
  by (induction s) (auto split: list.splits)

lemma split_length: "length (split c s) = Suc (countChar c s)"
  by (induction s) (auto simp: countChar_def split_not_Nil split: list.splits)

lemma split_hd: "split c s ! 0 = takeWhile (\<lambda>x. x \<noteq> c) s"
  by (induction s) (auto simp: split_not_Nil split: list.splits)

lemma takeWhile_no_sep: "countChar c s = 0 \<Longrightarrow> takeWhile (\<lambda>x. x \<noteq> c) s = s"
  by (simp add: countChar_def filter_empty_conv takeWhile_eq_all_conv)

lemma split_second: "countChar c s = 1 \<Longrightarrow> split c s ! 1 = tl (dropWhile (\<lambda>x. x \<noteq> c) s)"
proof (induction s)
  case Nil
  then show ?case by (simp add: countChar_def)
next
  case (Cons x xs)
  show ?case
  proof (cases "x = c")
    case True
    with Cons.prems have "countChar c xs = 0" by (simp add: countChar_def)
    then have "takeWhile (\<lambda>x. x \<noteq> c) xs = xs" by (rule takeWhile_no_sep)
    with True show ?thesis by (simp add: split_hd)
  next
    case False
    with Cons.prems have one: "countChar c xs = 1" by (simp add: countChar_def)
    obtain p ps where sp: "split c xs = p # ps"
      using split_not_Nil [of c xs] by (cases "split c xs") auto
    from Cons.IH [OF one] sp False show ?thesis by simp
  qed
qed

lemma str_includes_count: "str_includes s c = (countChar c s > 0)"
  by (auto simp: str_includes_def countChar_def filter_empty_conv)

lemma normalizar_one_comma:
  assumes "countChar (CHR '','') t = 1"
  shows "normalizarSeparadores t =
     removeDots (takeWhile (\<lambda>c. c \<noteq> CHR '','') t) @ ''.'' @ tl (dropWhile (\<lambda>c. c \<noteq> CHR '','') t)"
  using assms
  by (simp add: normalizarSeparadores_def str_includes_count split_length split_hd
      split_second [simplified] Let_def)

lemma normalizar_many_commas:
  assumes "countChar (CHR '','') t > 1"
  shows "normalizarSeparadores t = t"
  using assms
  by (simp add: normalizarSeparadores_def str_includes_count split_length Let_def)

lemma normalizar_many_dots:
  assumes "countChar (CHR '','') t = 0" "countChar (CHR ''.'') t > 1"
  shows "normalizarSeparadores t = removeDots t"
  using assms
  by (simp add: normalizarSeparadores_def str_includes_count split_length Let_def)

lemma normalizar_plain:
  assumes "countChar (CHR '','') t = 0" "countChar (CHR ''.'') t \<le> 1"
  shows "normalizarSeparadores t = t"
  using assms
  by (simp add: normalizarSeparadores_def str_includes_count split_length Let_def)

lemma parseFloat_literals:
  "parseFloat [] = NaN" "parseFloat ''0'' = Fin 0" "parseFloat ''null'' = NaN"
  by (simp_all add: parseFloat_def takeSign_def isWhite_def isDigit_def digitsVal_def digitVal_def
      expPart_def scale10_def)

lemma trim_literals: "trim [] = []" "trim ''0'' = ''0''" "trim ''null'' = ''null''"
  by (simp_all add: trim_def isWhite_def)

lemma normalizar_literals:
  "normalizarSeparadores [] = []" "normalizarSeparadores ''0'' = ''0''"
  "normalizarSeparadores ''null'' = ''null''"
  by (simp_all add: normalizarSeparadores_def str_includes_def)

lemma pvm_literals:
  "parseValorMonetario (JStr []) = Fin 0" "parseValorMonetario (JStr ''0'') = Fin 0"
  "parseValorMonetario (JStr ''null'') = Fin 0"
  by (simp_all add: parseValorMonetario_def)

lemma rhs_literals:
  "nanToZero (parseFloat (normalizarSeparadores (trim []))) = Fin 0"
  "nanToZero (parseFloat (normalizarSeparadores (trim ''0''))) = Fin 0"
  "nanToZero (parseFloat (normalizarSeparadores (trim ''null''))) = Fin 0"
  by (simp_all add: nanToZero_def isNaN_def trim_literals normalizar_literals parseFloat_literals)

lemma parseValorMonetario_string:
  "parseValorMonetario (JStr s) = nanToZero (parseFloat (normalizarSeparadores (trim s)))"
proof (cases "s = [] \<or> s = ''0'' \<or> s = ''null''")
  case True
  then show ?thesis
    using pvm_literals rhs_literals by metis
next
  case False
  then have "parseValorMonetario (JStr s) =
      (let valor = normalizarSeparadores (trim (toString (JStr s))); resultado = parseFloat valor
       in if isNaN resultado then Fin 0 else resultado)"
    unfolding parseValorMonetario_def truthy_def by simp
  then show ?thesis
    by (simp add: nanToZero_def toString_def Let_def)
qed

lemma parseValorMonetario_not_NaN: "parseValorMonetario v \<noteq> NaN"
proof (cases v)
  case (JNum n)
  then show ?thesis by (simp add: parseValorMonetario_def isNaN_def truthy_def)
next
  case (JStr s)
  then show ?thesis by (simp add: parseValorMonetario_string nanToZero_def isNaN_def)
next
  case (JBool b)
  then show ?thesis
    by (cases b) (simp_all add: parseValorMonetario_def isNaN_def truthy_def Let_def)
qed (simp_all add: parseValorMonetario_def truthy_def)

lemmas avaliar_parse = parseValorMonetario_def normalizarSeparadores_def truthy_def
  str_includes_def removeDots_def trim_def isWhite_def toString_def parseFloat_def takeSign_def
  isDigit_def digitsVal_def digitVal_def expPart_def scale10_def isNaN_def

text \<open>
  C6 (amended). \<open>parseValorMonetario\<close> is total and never yields \<open>NaN\<close>; it maps
  \<open>"1.234.567,89"\<close> to 1234567.89, the empty string to 0 and \<open>"12.50"\<close> to 12.5.
  On a string whose trimmed text holds exactly one comma, the comma is the decimal
  separator and the dots before it are dropped; with two or more commas the text is parsed
  as it stands; with no comma and two or more dots all dots are dropped; with no comma and
  at most one dot the text is parsed as it stands. A text that does not start with a number
  gives 0.
\<close>

theorem parseValorMonetario_rules:
  "parseValorMonetario v \<noteq> NaN
   \<and> parseValorMonetario (JStr ''1.234.567,89'') = Fin 1234567.89
   \<and> parseValorMonetario (JStr []) = Fin 0
   \<and> parseValorMonetario (JStr ''12.50'') = Fin 12.5
   \<and> (countChar (CHR '','') (trim s1) = 1 \<longrightarrow>
        parseValorMonetario (JStr s1) =
          nanToZero (parseFloat (removeDots (takeWhile (\<lambda>c. c \<noteq> CHR '','') (trim s1)) @ ''.''
                                  @ tl (dropWhile (\<lambda>c. c \<noteq> CHR '','') (trim s1)))))
   \<and> (countChar (CHR '','') (trim s2) > 1 \<longrightarrow>
        parseValorMonetario (JStr s2) = nanToZero (parseFloat (trim s2)))
   \<and> (countChar (CHR '','') (trim s3) = 0 \<and> countChar (CHR ''.'') (trim s3) > 1 \<longrightarrow>
        parseValorMonetario (JStr s3) = nanToZero (parseFloat (removeDots (trim s3))))
   \<and> (countChar (CHR '','') (trim s4) = 0 \<and> countChar (CHR ''.'') (trim s4) \<le> 1 \<longrightarrow>
        parseValorMonetario (JStr s4) = nanToZero (parseFloat (trim s4)))"
proof -
  have ex1: "parseValorMonetario (JStr ''1.234.567,89'') = Fin 1234567.89"
    by (simp add: avaliar_parse)
  have ex2: "parseValorMonetario (JStr []) = Fin 0"
    by (simp add: pvm_literals)
  have ex3: "parseValorMonetario (JStr ''12.50'') = Fin 12.5"
    by (simp add: avaliar_parse)
  show ?thesis
    using parseValorMonetario_not_NaN [of v] ex1 ex2 ex3
    by (simp add: parseValorMonetario_string normalizar_one_comma normalizar_many_commas
        normalizar_many_dots normalizar_plain)
qed

theorem parseValorMonetario_rules_witness:
  "parseValorMonetario (JStr ''abc'') = Fin 0
   \<and> countChar (CHR '','') (trim ''1.234,5'') = 1
   \<and> parseValorMonetario (JStr ''1.234,5'') = Fin 1234.5
   \<and> countChar (CHR '','') (trim ''1.000,5,0'') > 1
   \<and> parseValorMonetario (JStr ''1.000,5,0'') = Fin 1
   \<and> countChar (CHR '','') (trim ''1.234.567'') = 0 \<and> countChar (CHR ''.'') (trim ''1.234.567'') > 1
   \<and> parseValorMonetario (JStr ''1.234.567'') = Fin 1234567
   \<and> countChar (CHR '','') (trim '' 12.50'') = 0 \<and> countChar (CHR ''.'') (trim '' 12.50'') \<le> 1
   \<and> parseValorMonetario (JStr '' 12.50'') = Fin 12.5"
  using parseValorMonetario_rules [of "JStr ''abc''" "''1.234,5''" "''1.000,5,0''" "''1.234.567''"
      "'' 12.50''"]
  by (simp add: avaliar_parse countChar_def nanToZero_def)

text \<open>
  C6 as stated fails: with two commas the code leaves the text untouched, so
  \<open>"1.000,5,0"\<close> is read as 1, while the rule "a comma is the decimal separator and the
  dots of the integer part are dropped" gives 1000.5.
\<close>

theorem parseValorMonetario_comma_counterexample:
  "parseValorMonetario (JStr ''1.000,5,0'') = Fin 1
   \<and> parseMonetary_spec ''1.000,5,0'' = Fin 1000.5
   \<and> parseValorMonetario (JStr ''1.000,5,0'') \<noteq> parseMonetary_spec ''1.000,5,0''"
  by (simp add: avaliar_parse parseMonetary_spec_def)

subsection \<open>Sector classifier\<close>

lemma contarCFOP_step:
  "contarCFOP x (i, s, c) =
     (if x \<in> set cfopsIndustria then (i + 2, s, c)
      else if x \<in> set cfopsServicos then (i, s + 1, c)
      else if startsWith x (CHR ''5'') \<or> startsWith x (CHR ''6'') then (i, s, c + 1)
      else (i, s, c))"
  by (simp add: contarCFOP_def)

lemma fold_contarCFOP:
  "fold contarCFOP cfops (i, s, c) =
     (i + 2 * length (filter (\<lambda>x. x \<in> set cfopsIndustria) cfops),
      s + length (filter (\<lambda>x. x \<notin> set cfopsIndustria \<and> x \<in> set cfopsServicos) cfops),
      c + length (filter (\<lambda>x. x \<notin> set cfopsIndustria \<and> x \<notin> set cfopsServicos
                              \<and> (startsWith x (CHR ''5'') \<or> startsWith x (CHR ''6''))) cfops))"
proof (induction cfops arbitrary: i s c)
  case Nil
  show ?case by simp
next
  case (Cons x xs)
  show ?case by (simp add: contarCFOP_step Cons.IH)
qed

lemma pontuarCFOPs_industria:
  assumes "set cfops \<subseteq> set cfopsIndustria"
  shows "pontuarCFOPs cfops = (2 * length cfops, 0, 0)"
proof -
  from assms have a: "filter (\<lambda>x. x \<in> set cfopsIndustria) cfops = cfops"
    by (simp add: subset_iff)
  from assms have b: "filter (\<lambda>x. x \<notin> set cfopsIndustria \<and> x \<in> set cfopsServicos) cfops = []"
    by (auto simp: filter_empty_conv)
  from assms have c: "filter (\<lambda>x. x \<notin> set cfopsIndustria \<and> x \<notin> set cfopsServicos
        \<and> (startsWith x (CHR ''5'') \<or> startsWith x (CHR ''6''))) cfops = []"
    by (auto simp: filter_empty_conv)
  show ?thesis
    unfolding pontuarCFOPs_def fold_contarCFOP a b c by simp
qed

text \<open>
  C7 (amended). \<open>analisarCFOPs\<close> scores every industry-listed code 2, every other
  services-listed code 1 and every other code starting with 5 or 6 as one commerce point.
  Industry is returned when its score is positive and not below the other two (so it also
  wins its ties); otherwise services is returned when it is strictly above commerce, and
  commerce in every remaining case. When the industry score equals neither of the other
  scores this is "the highest score wins, commerce on a tie". A non-empty code list drawn
  entirely from the industry list gives \<open>industria\<close>; the empty list gives \<open>comercio\<close>.
\<close>

theorem analisarCFOPs_classification:
  "pontuarCFOPs cfops =
     (2 * length (filter (\<lambda>x. x \<in> set cfopsIndustria) cfops),
      length (filter (\<lambda>x. x \<notin> set cfopsIndustria \<and> x \<in> set cfopsServicos) cfops),
      length (filter (\<lambda>x. x \<notin> set cfopsIndustria \<and> x \<notin> set cfopsServicos
                          \<and> (startsWith x (CHR ''5'') \<or> startsWith x (CHR ''6''))) cfops))
   \<and> (pontuarCFOPs cfops = (i, s, c) \<longrightarrow>
        (0 < i \<and> s \<le> i \<and> c \<le> i \<longrightarrow> analisarCFOPs cfops = ''industria'')
        \<and> (\<not> (0 < i \<and> s \<le> i \<and> c \<le> i) \<and> c < s \<longrightarrow> analisarCFOPs cfops = ''servicos'')
        \<and> (\<not> (0 < i \<and> s \<le> i \<and> c \<le> i) \<and> s \<le> c \<longrightarrow> analisarCFOPs cfops = ''comercio'')
        \<and> (i \<noteq> s \<and> i \<noteq> c \<longrightarrow> analisarCFOPs cfops = classificar_spec (i, s, c)))
   \<and> (cfops \<noteq> [] \<and> set cfops \<subseteq> set cfopsIndustria \<longrightarrow> analisarCFOPs cfops = ''industria'')
   \<and> analisarCFOPs [] = ''comercio''"
proof -
  have p1: "pontuarCFOPs cfops =
     (2 * length (filter (\<lambda>x. x \<in> set cfopsIndustria) cfops),
      length (filter (\<lambda>x. x \<notin> set cfopsIndustria \<and> x \<in> set cfopsServicos) cfops),
      length (filter (\<lambda>x. x \<notin> set cfopsIndustria \<and> x \<notin> set cfopsServicos
                          \<and> (startsWith x (CHR ''5'') \<or> startsWith x (CHR ''6''))) cfops))"
    unfolding pontuarCFOPs_def fold_contarCFOP by simp
  have p2: "pontuarCFOPs cfops = (i, s, c) \<longrightarrow>
        (0 < i \<and> s \<le> i \<and> c \<le> i \<longrightarrow> analisarCFOPs cfops = ''industria'')
        \<and> (\<not> (0 < i \<and> s \<le> i \<and> c \<le> i) \<and> c < s \<longrightarrow> analisarCFOPs cfops = ''servicos'')
        \<and> (\<not> (0 < i \<and> s \<le> i \<and> c \<le> i) \<and> s \<le> c \<longrightarrow> analisarCFOPs cfops = ''comercio'')
        \<and> (i \<noteq> s \<and> i \<noteq> c \<longrightarrow> analisarCFOPs cfops = classificar_spec (i, s, c))"
    by (auto simp: analisarCFOPs_def classificar_spec_def)
  have p3: "cfops \<noteq> [] \<and> set cfops \<subseteq> set cfopsIndustria \<longrightarrow> analisarCFOPs cfops = ''industria''"
    by (auto simp: analisarCFOPs_def pontuarCFOPs_industria)
  have p4: "analisarCFOPs [] = ''comercio''"
    by (simp add: analisarCFOPs_def pontuarCFOPs_def)
  from p1 p2 p3 p4 show ?thesis by blast
qed

theorem analisarCFOPs_classification_witness:
  "pontuarCFOPs [''5101'', ''6102''] = (4, 0, 0)
   \<and> [''5101'', ''6102''] \<noteq> [] \<and> set [''5101'', ''6102''] \<subseteq> set cfopsIndustria
   \<and> analisarCFOPs [''5101'', ''6102''] = ''industria''
   \<and> analisarCFOPs [''5101'', ''6102''] = classificar_spec (4, 0, 0)"
  using analisarCFOPs_classification [of "[''5101'', ''6102'']" 4 0 0]
  by (simp add: cfopsIndustria_def cfopsServicos_def startsWith_def classificar_spec_def)

text \<open>
  C7 as stated fails on a tie between industry and commerce: one industry code (2 points)
  and two plain outbound codes (2 commerce points) give \<open>industria\<close>, not the commerce
  default.
\<close>

theorem analisarCFOPs_tie_counterexample:
  "pontuarCFOPs [''5101'', ''5999'', ''5998''] = (2, 0, 2)
   \<and> analisarCFOPs [''5101'', ''5999'', ''5998''] = ''industria''
   \<and> classificar_spec (2, 0, 2) = ''comercio''"
  by (simp add: analisarCFOPs_def pontuarCFOPs_def contarCFOP_step cfopsIndustria_def
      cfopsServicos_def startsWith_def classificar_spec_def)

subsection \<open>File-type classifier\<close>













lemma fold_contarLinha_vazias: "fold contarLinha (replicate n []) cs = cs"
  by (induction n) (simp_all add: contarLinha_def)




subsection \<open>Record decoders\<close>

lemma parseRegistroC170_minimo: "length campos < 17 \<Longrightarrow> parseRegistroC170 campos = None"
  by (simp add: parseRegistroC170_def validarEstruturaRegistro_def)

lemma parseRegistroE110_minimo: "length campos < 29 \<Longrightarrow> parseRegistroE110 campos = None"
  by (simp add: parseRegistroE110_def validarEstruturaRegistro_def)

lemma parseRegistroM200_minimo: "length campos < 14 \<Longrightarrow> parseRegistroM200 campos = None"
  by (simp add: parseRegistroM200_def validarEstruturaRegistro_def)

lemma parseRegistro0001_minimo: "length campos < 3 \<Longrightarrow> parseRegistro0001 campos = None"
  by (simp add: parseRegistro0001_def validarEstruturaRegistro_def)

text \<open>
  C5 (defect in the code). The decoder of the fiscal document record C100 has no
  field-count test: for the two-field line \<open>|C100\<close> it returns a document record whose
  positional fields are all \<open>undefined\<close>, although the layout table of the same module
  gives 18 as the minimum for C100 and the sibling decoders return nothing below their
  minimum.
\<close>

theorem parseRegistroC100_sem_validacao:
  "parseRegistroC100 [[], ''C100''] =
     Some [(''tipo'', Prim (JStr ''documento'')),
           (''indOper'', Prim JUndefined), (''indEmit'', Prim JUndefined),
           (''codPart'', Prim JUndefined), (''modelo'', Prim JUndefined),
           (''serie'', Prim JUndefined), (''numero'', Prim JUndefined),
           (''chaveNFe'', Prim JUndefined), (''dataEmissao'', Prim JUndefined),
           (''dataSaidaEntrada'', Prim JUndefined),
           (''valorTotal'', Prim (JNum (Fin 0))), (''valorProdutos'', Prim (JNum (Fin 0)))]
   \<and> map_of layoutsMinimosFiscal ''C100'' = Some 18
   \<and> parseRegistroC170 [[], ''C170''] = None"
  by (simp add: parseRegistroC100_def indice_def texto_def numero_def parseValorMonetario_def
      truthy_def layoutsMinimosFiscal_def parseRegistroC170_def validarEstruturaRegistro_def)

subsection \<open>Per-line decode loop\<close>

lemma textoNatAux_digitsVal:
  "n < fuel \<Longrightarrow> foldl (\<lambda>acc c. 10 * acc + digitVal c) 0 (textoNatAux fuel n) = n"
proof (induction fuel arbitrary: n)
  case 0
  then show ?case by simp
next
  case (Suc fuel)
  have dig: "digitVal (''0123456789'' ! k) = k" if "k < 10" for k
  proof -
    from that have "k \<in> {0, 1, 2, 3, 4, 5, 6, 7, 8, 9}" by auto
    then show ?thesis by (auto simp: digitVal_def)
  qed
  show ?case
  proof (cases "n < 10")
    case True
    then show ?thesis by (simp add: dig)
  next
    case False
    then have "n div 10 < fuel" using Suc.prems by simp
    from Suc.IH [OF this] False show ?thesis
      by (simp add: dig)
  qed
qed

lemma textoNat_digitsVal: "digitsVal (textoNat n) = n"
  unfolding digitsVal_def textoNat_def by (rule textoNatAux_digitsVal) simp

lemma percorrerLinhas_append:
  "percorrerLinhas c tab t i (xs @ ys) res =
     percorrerLinhas c tab t (i + length xs) ys (percorrerLinhas c tab t i xs res)"
  by (induction xs arbitrary: i res) simp_all

lemma processarLinha_excecao:
  assumes "trim linha \<noteq> []" "length (split (CHR ''|'') linha) \<ge> 2"
    "buscarDecodificador tab t (split (CHR ''|'') linha ! 1) = Some dec"
    "dec (split (CHR ''|'') linha) = Inl msg"
  shows "processarLinha c tab t i linha res =
     res \<lparr> erros := erros res @ [''Erro no registro '' @ split (CHR ''|'') linha ! 1
                                     @ '' (linha '' @ textoNat (i + 1) @ ''): '' @ msg] \<rparr>"
  using assms by (simp add: processarLinha_def mensagemErroRegistro_def Let_def)

lemma processarLinha_desconhecido:
  assumes "trim linha \<noteq> []" "length (split (CHR ''|'') linha) \<ge> 2"
    "buscarDecodificador tab t (split (CHR ''|'') linha ! 1) = None"
  shows "processarLinha c tab t i linha res =
     res \<lparr> registrosIgnorados := registrosIgnorados res + 1 \<rparr>"
  using assms by (simp add: processarLinha_def Let_def)

text \<open>
  C9. In the loop of \<open>extrairDados\<close> a decoder that raises on the line at index \<open>i\<close>
  only appends one message carrying the line number \<open>i + 1\<close> (in decimal) to the error
  list; a line whose record code has no decoder for the detected type only increments the
  ignored counter and leaves the error list as it is. Whatever happened on the earlier
  lines, every later line is processed in turn with its own index: the loop is never
  aborted.
\<close>

theorem extrairDados_linha_nunca_fatal:
  "(trim linha \<noteq> [] \<and> length (split (CHR ''|'') linha) \<ge> 2
      \<and> buscarDecodificador tab t (split (CHR ''|'') linha ! 1) = Some dec
      \<and> dec (split (CHR ''|'') linha) = Inl msg \<longrightarrow>
      processarLinha c tab t i linha res =
        res \<lparr> erros := erros res @ [''Erro no registro '' @ split (CHR ''|'') linha ! 1
                                        @ '' (linha '' @ textoNat (i + 1) @ ''): '' @ msg] \<rparr>)
   \<and> digitsVal (textoNat (i + 1)) = i + 1
   \<and> (trim linha2 \<noteq> [] \<and> length (split (CHR ''|'') linha2) \<ge> 2
      \<and> buscarDecodificador tab t (split (CHR ''|'') linha2 ! 1) = None \<longrightarrow>
      processarLinha c tab t i linha2 res = res \<lparr> registrosIgnorados := registrosIgnorados res + 1 \<rparr>
      \<and> erros (processarLinha c tab t i linha2 res) = erros res)
   \<and> percorrerLinhas c tab t i0 (xs @ l # ys) res0 =
        percorrerLinhas c tab t (i0 + length xs + 1) ys
          (processarLinha c tab t (i0 + length xs) l (percorrerLinhas c tab t i0 xs res0))
   \<and> extrairDados c tab linhas tipo =
        percorrerLinhas c tab (resolverTipo tab linhas tipo) 0 linhas
          (resultadoInicial (resolverTipo tab linhas tipo))"
proof -
  have a: "trim linha \<noteq> [] \<and> length (split (CHR ''|'') linha) \<ge> 2
      \<and> buscarDecodificador tab t (split (CHR ''|'') linha ! 1) = Some dec
      \<and> dec (split (CHR ''|'') linha) = Inl msg \<longrightarrow>
      processarLinha c tab t i linha res =
        res \<lparr> erros := erros res @ [''Erro no registro '' @ split (CHR ''|'') linha ! 1
                                        @ '' (linha '' @ textoNat (i + 1) @ ''): '' @ msg] \<rparr>"
    using processarLinha_excecao [of linha tab t dec msg c i res] by blast
  have b: "trim linha2 \<noteq> [] \<and> length (split (CHR ''|'') linha2) \<ge> 2
      \<and> buscarDecodificador tab t (split (CHR ''|'') linha2 ! 1) = None \<longrightarrow>
      processarLinha c tab t i linha2 res = res \<lparr> registrosIgnorados := registrosIgnorados res + 1 \<rparr>
      \<and> erros (processarLinha c tab t i linha2 res) = erros res"
    using processarLinha_desconhecido [of linha2 tab t c i res] by simp
  have d: "percorrerLinhas c tab t i0 (xs @ l # ys) res0 =
        percorrerLinhas c tab t (i0 + length xs + 1) ys
          (processarLinha c tab t (i0 + length xs) l (percorrerLinhas c tab t i0 xs res0))"
    by (simp add: percorrerLinhas_append)
  have e: "extrairDados c tab linhas tipo =
        percorrerLinhas c tab (resolverTipo tab linhas tipo) 0 linhas
          (resultadoInicial (resolverTipo tab linhas tipo))"
    by (simp add: extrairDados_def Let_def)
  show ?thesis
    by (intro conjI a textoNat_digitsVal b d e)
qed

lemmas avaliar_laco = processarLinha_def buscarDecodificador_def tabelaExemplo_def
  decodificadorFalho_def mensagemErroRegistro_def trim_def isWhite_def
  resultadoInicial_def

theorem extrairDados_linha_nunca_fatal_witness:
  "processarLinha semCoercao tabelaExemplo ''fiscal'' 4 ''|X999|a|'' (resultadoInicial ''fiscal'')
     = (resultadoInicial ''fiscal'')
         \<lparr> erros := [''Erro no registro X999 (linha 5): campo invalido''] \<rparr>
   \<and> processarLinha semCoercao tabelaExemplo ''fiscal'' 4 ''|ZZZZ|'' (resultadoInicial ''fiscal'')
     = (resultadoInicial ''fiscal'') \<lparr> registrosIgnorados := 1 \<rparr>
   \<and> erros (extrairDados semCoercao tabelaExemplo [''|X999|a|'', ''|ZZZZ|'', ''|X999|b|''] ''fiscal'')
     = [''Erro no registro X999 (linha 1): campo invalido'',
        ''Erro no registro X999 (linha 3): campo invalido'']
   \<and> registrosIgnorados
        (extrairDados semCoercao tabelaExemplo [''|X999|a|'', ''|ZZZZ|'', ''|X999|b|''] ''fiscal'') = 1"
proof -
  have h1: "trim ''|X999|a|'' \<noteq> [] \<and> length (split (CHR ''|'') ''|X999|a|'') \<ge> 2
      \<and> buscarDecodificador tabelaExemplo ''fiscal'' (split (CHR ''|'') ''|X999|a|'' ! 1)
          = Some decodificadorFalho
      \<and> decodificadorFalho (split (CHR ''|'') ''|X999|a|'') = Inl ''campo invalido''"
    by (simp add: avaliar_laco)
  have h2: "trim ''|ZZZZ|'' \<noteq> [] \<and> length (split (CHR ''|'') ''|ZZZZ|'') \<ge> 2
      \<and> buscarDecodificador tabelaExemplo ''fiscal'' (split (CHR ''|'') ''|ZZZZ|'' ! 1) = None"
    by (simp add: avaliar_laco)
  have t5: "textoNat 5 = ''5''" "textoNat 1 = ''1''" "textoNat (Suc 0) = ''1''" "textoNat 3 = ''3''"
    "textoNat (Suc (Suc (Suc 0))) = ''3''"
    by code_simp+
  have rt: "resolverTipo tabelaExemplo [''|X999|a|'', ''|ZZZZ|'', ''|X999|b|''] ''fiscal'' = ''fiscal''"
    by (simp add: resolverTipo_def tabelaExemplo_def)
  have ev: "percorrerLinhas semCoercao tabelaExemplo ''fiscal'' 0
              [''|X999|a|'', ''|ZZZZ|'', ''|X999|b|''] (resultadoInicial ''fiscal'')
            = (resultadoInicial ''fiscal'')
                \<lparr> registrosIgnorados := 1,
                  erros := [''Erro no registro X999 (linha 1): campo invalido'',
                            ''Erro no registro X999 (linha 3): campo invalido''] \<rparr>"
    by (simp add: avaliar_laco t5)
  show ?thesis
    using extrairDados_linha_nunca_fatal [of "''|X999|a|''" tabelaExemplo "''fiscal''"
        decodificadorFalho "''campo invalido''" semCoercao 4 "resultadoInicial ''fiscal''"
        "''|ZZZZ|''" 0 "[''|X999|a|'']" "''|ZZZZ|''" "[''|X999|b|'']" "resultadoInicial ''fiscal''"
        "[''|X999|a|'', ''|ZZZZ|'', ''|X999|b|'']" "''fiscal''"]
      h1 h2 t5 rt ev
    by (simp add: resultadoInicial_def)
qed

subsection \<open>Cross-file combiner\<close>

lemma map_of_definir: "map_of (definir k v m) k' = (if k' = k then Some v else map_of m k')"
  by (induction m) auto

lemma obter_definir: "obter (definir k v m) k' = (if k' = k then v else obter m k')"
  by (simp add: obter_def map_of_definir)

lemma obter_Cons: "obter ((k, v) # m) cat = (if cat = k then v else obter m cat)"
  by (simp add: obter_def)

lemma obter_Nil: "obter [] cat = []"
  by (simp add: obter_def)

lemma definir_novo: "k \<notin> fst ` set m \<Longrightarrow> definir k v m = m @ [(k, v)]"
  by (induction m) auto

lemma obter_ausente: "k \<notin> fst ` set m \<Longrightarrow> obter m k = []"
  by (simp add: obter_def map_of_eq_None_iff [THEN iffD2])

lemma fold_mesclarCategoria_novo:
  "distinct (map fst es) \<Longrightarrow> fst ` set es \<inter> fst ` set m = {} \<Longrightarrow>
     fold mesclarCategoria es m = m @ es"
proof (induction es arbitrary: m)
  case Nil
  show ?case by simp
next
  case (Cons e es)
  obtain k v where e: "e = (k, v)" by (cases e)
  from Cons.prems e have knew: "k \<notin> fst ` set m" by auto
  then have step: "mesclarCategoria e m = m @ [(k, v)]"
    by (simp add: e mesclarCategoria_def definir_novo obter_ausente)
  from Cons.prems e have d: "distinct (map fst es)" and
    disj: "fst ` set es \<inter> fst ` set (m @ [(k, v)]) = {}"
    by auto
  have "fold mesclarCategoria (e # es) m = fold mesclarCategoria es (m @ [(k, v)])"
    by (simp add: step)
  also have "\<dots> = (m @ [(k, v)]) @ es" by (rule Cons.IH [OF d disj])
  finally show ?case by (simp add: e)
qed

lemma fold_mesclarCategoria_vazio:
  "distinct (map fst es) \<Longrightarrow> fold mesclarCategoria es [] = es"
  using fold_mesclarCategoria_novo [of es "[]"] by simp

lemma obter_mesclarCategoria:
  "obter (mesclarCategoria (k, v) m) cat = (if cat = k then obter m k @ v else obter m cat)"
  by (simp add: mesclarCategoria_def obter_definir)

lemma obter_fold_mesclarCategoria:
  "distinct (map fst es) \<Longrightarrow>
     obter (fold mesclarCategoria es m) cat = obter m cat @ obter es cat"
proof (induction es arbitrary: m)
  case Nil
  show ?case by (simp add: obter_Nil)
next
  case (Cons e es)
  obtain k v where e: "e = (k, v)" by (cases e)
  from Cons.prems e have d: "distinct (map fst es)" and knew: "k \<notin> fst ` set es" by auto
  have "obter (fold mesclarCategoria (e # es) m) cat
          = obter (mesclarCategoria (k, v) m) cat @ obter es cat"
    using Cons.IH [OF d] by (simp add: e)
  also have "\<dots> = obter m cat @ obter (e # es) cat"
  proof (cases "cat = k")
    case True
    with knew have "obter es cat = []" by (simp add: obter_ausente)
    with True show ?thesis by (simp add: obter_mesclarCategoria e obter_Cons)
  next
    case False
    then show ?thesis by (simp add: obter_mesclarCategoria e obter_Cons)
  qed
  finally show ?case .
qed


text \<open>Frames of the merge steps.\<close>

lemma mesclarValor_frame:
  "listasC (mesclarValor a p c) = listasC c" "mapasC (mesclarValor a p c) = mapasC c"
  "objetosC (mesclarValor a p c) = objetosC c" "empresaC (mesclarValor a p c) = empresaC c"
  "arquivosProcessados (mesclarValor a p c) = arquivosProcessados c"
  by (simp_all add: mesclarValor_def split: option.splits dado.splits jsval.splits)

lemma fold_mesclarValor_frame:
  "listasC (fold (mesclarValor a) ps c) = listasC c" "mapasC (fold (mesclarValor a) ps c) = mapasC c"
  "objetosC (fold (mesclarValor a) ps c) = objetosC c" "empresaC (fold (mesclarValor a) ps c) = empresaC c"
  "arquivosProcessados (fold (mesclarValor a) ps c) = arquivosProcessados c"
  by (induction ps arbitrary: c) (simp_all add: mesclarValor_frame)

lemma mesclarObjeto_frame:
  "listasC (mesclarObjeto a p c) = listasC c" "mapasC (mesclarObjeto a p c) = mapasC c"
  "empresaC (mesclarObjeto a p c) = empresaC c" "valoresC (mesclarObjeto a p c) = valoresC c"
  "arquivosProcessados (mesclarObjeto a p c) = arquivosProcessados c"
  by (simp_all add: mesclarObjeto_def split: option.splits)

lemma fold_mesclarObjeto_frame:
  "listasC (fold (mesclarObjeto a) ps c) = listasC c" "mapasC (fold (mesclarObjeto a) ps c) = mapasC c"
  "empresaC (fold (mesclarObjeto a) ps c) = empresaC c" "valoresC (fold (mesclarObjeto a) ps c) = valoresC c"
  "arquivosProcessados (fold (mesclarObjeto a) ps c) = arquivosProcessados c"
  by (induction ps arbitrary: c) (simp_all add: mesclarObjeto_frame)

lemma mesclarMapa_frame:
  "listasC (mesclarMapa a p c) = listasC c" "objetosC (mesclarMapa a p c) = objetosC c"
  "empresaC (mesclarMapa a p c) = empresaC c" "valoresC (mesclarMapa a p c) = valoresC c"
  "arquivosProcessados (mesclarMapa a p c) = arquivosProcessados c"
  by (simp_all add: mesclarMapa_def split: option.splits)

lemma fold_mesclarMapa_frame:
  "listasC (fold (mesclarMapa a) ps c) = listasC c" "objetosC (fold (mesclarMapa a) ps c) = objetosC c"
  "empresaC (fold (mesclarMapa a) ps c) = empresaC c" "valoresC (fold (mesclarMapa a) ps c) = valoresC c"
  "arquivosProcessados (fold (mesclarMapa a) ps c) = arquivosProcessados c"
  by (induction ps arbitrary: c) (simp_all add: mesclarMapa_frame)

lemma mesclarLista_frame:
  "mapasC (mesclarLista a p c) = mapasC c" "objetosC (mesclarLista a p c) = objetosC c"
  "empresaC (mesclarLista a p c) = empresaC c" "valoresC (mesclarLista a p c) = valoresC c"
  "arquivosProcessados (mesclarLista a p c) = arquivosProcessados c"
  by (simp_all add: mesclarLista_def split: option.splits)

lemma fold_mesclarLista_frame:
  "mapasC (fold (mesclarLista a) ps c) = mapasC c" "objetosC (fold (mesclarLista a) ps c) = objetosC c"
  "empresaC (fold (mesclarLista a) ps c) = empresaC c" "valoresC (fold (mesclarLista a) ps c) = valoresC c"
  "arquivosProcessados (fold (mesclarLista a) ps c) = arquivosProcessados c"
  by (induction ps arbitrary: c) (simp_all add: mesclarLista_frame)

lemma mesclarEmpresa_frame:
  "listasC (mesclarEmpresa a c) = listasC c" "mapasC (mesclarEmpresa a c) = mapasC c"
  "objetosC (mesclarEmpresa a c) = objetosC c" "valoresC (mesclarEmpresa a c) = valoresC c"
  "arquivosProcessados (mesclarEmpresa a c) = arquivosProcessados c"
  by (simp_all add: mesclarEmpresa_def split: option.splits)

text \<open>What the merge of one file does to a list and to a categorised property.\<close>

lemma obter_fold_mesclarLista:
  "distinct ps \<Longrightarrow>
     obter (listasC (fold (mesclarLista a) ps c)) prop =
       (if prop \<in> set ps then obter (listasC c) prop @ obter (listasA a) prop
        else obter (listasC c) prop)"
proof (induction ps arbitrary: c)
  case Nil
  show ?case by simp
next
  case (Cons p ps)
  have step: "obter (listasC (mesclarLista a p c)) q =
      (if q = p then obter (listasC c) p @ obter (listasA a) p else obter (listasC c) q)" for q
    by (cases "map_of (listasA a) p") (simp_all add: mesclarLista_def obter_definir, simp_all add: obter_def)
  from Cons.prems have d: "distinct ps" and np: "p \<notin> set ps" by simp_all
  show ?case
    using Cons.IH [OF d, of "mesclarLista a p c"] np by (auto simp: step)
qed

lemma obter_fold_mesclarMapa:
  "distinct ps \<Longrightarrow>
     obter (mapasC (fold (mesclarMapa a) ps c)) prop =
       (if prop \<in> set ps then fold mesclarCategoria (obter (mapasA a) prop) (obter (mapasC c) prop)
        else obter (mapasC c) prop)"
proof (induction ps arbitrary: c)
  case Nil
  show ?case by simp
next
  case (Cons p ps)
  have step: "obter (mapasC (mesclarMapa a p c)) q =
      (if q = p then fold mesclarCategoria (obter (mapasA a) p) (obter (mapasC c) p)
       else obter (mapasC c) q)" for q
    by (cases "map_of (mapasA a) p") (simp_all add: mesclarMapa_def obter_definir, simp_all add: obter_def)
  from Cons.prems have d: "distinct ps" and np: "p \<notin> set ps" by simp_all
  show ?case
    using Cons.IH [OF d, of "mesclarMapa a p c"] np by (auto simp: step)
qed


lemma distinct_props: "distinct arrayProps" "distinct objArrayProps"
  by (simp_all add: arrayProps_def objArrayProps_def)

lemma categoriasDistintas_obter:
  "categoriasDistintas a \<Longrightarrow> distinct (map fst (obter (mapasA a) prop))"
proof (cases "map_of (mapasA a) prop")
  case None
  then show ?thesis by (simp add: obter_def)
next
  case (Some es)
  assume wf: "categoriasDistintas a"
  from Some have "(prop, es) \<in> set (mapasA a)" by (rule map_of_SomeD)
  with wf have "distinct (map fst es)"
    by (auto simp: categoriasDistintas_def list_all_iff)
  with Some show ?thesis by (simp add: obter_def)
qed

lemma listas_mesclarResultado:
  "prop \<in> set arrayProps \<Longrightarrow>
     obter (listasC (mesclarResultado r c)) prop = obter (listasC c) prop @ listaDe prop r"
proof (cases r)
  case None
  then show ?thesis by (simp add: mesclarResultado_def listaDe_def)
next
  case (Some a)
  assume p: "prop \<in> set arrayProps"
  show ?thesis
    unfolding Some mesclarResultado_def Let_def option.case listaDe_def
      fold_mesclarValor_frame fold_mesclarObjeto_frame fold_mesclarMapa_frame
    using p
    by (cases "metadadosA a")
       (simp_all add: obter_fold_mesclarLista [OF distinct_props(1)] mesclarEmpresa_frame)
qed

lemma mapas_mesclarResultado:
  "obter (mapasC (mesclarResultado r c)) prop =
     (case r of
        None \<Rightarrow> obter (mapasC c) prop
      | Some a \<Rightarrow>
          if prop \<in> set objArrayProps
          then fold mesclarCategoria (obter (mapasA a) prop) (obter (mapasC c) prop)
          else obter (mapasC c) prop)"
proof (cases r)
  case None
  then show ?thesis by (simp add: mesclarResultado_def)
next
  case (Some a)
  show ?thesis
    unfolding Some mesclarResultado_def Let_def option.case
      fold_mesclarValor_frame fold_mesclarObjeto_frame
    by (cases "metadadosA a")
       (simp_all add: obter_fold_mesclarMapa [OF distinct_props(2)] fold_mesclarLista_frame
          mesclarEmpresa_frame)
qed

lemma arquivos_mesclarResultado:
  "arquivosProcessados (mesclarResultado r c) =
     arquivosProcessados c @ (case r of None \<Rightarrow> [] | Some a \<Rightarrow>
                                 (case metadadosA a of None \<Rightarrow> [] | Some m \<Rightarrow> [m]))"
proof (cases r)
  case None
  then show ?thesis by (simp add: mesclarResultado_def)
next
  case (Some a)
  show ?thesis
    unfolding Some mesclarResultado_def Let_def option.case
      fold_mesclarValor_frame fold_mesclarObjeto_frame fold_mesclarMapa_frame
      fold_mesclarLista_frame mesclarEmpresa_frame
    by (cases "metadadosA a") simp_all
qed

lemma listas_fold_mesclarResultado:
  "prop \<in> set arrayProps \<Longrightarrow>
     obter (listasC (fold mesclarResultado rs c)) prop =
       obter (listasC c) prop @ concat (map (listaDe prop) rs)"
  by (induction rs arbitrary: c) (simp_all add: listas_mesclarResultado)

lemma categorias_fold_mesclarResultado:
  "prop \<in> set objArrayProps \<Longrightarrow> (\<forall>a. Some a \<in> set rs \<longrightarrow> categoriasDistintas a) \<Longrightarrow>
     obter (obter (mapasC (fold mesclarResultado rs c)) prop) cat =
       obter (obter (mapasC c) prop) cat @ concat (map (categoriaDe prop cat) rs)"
proof (induction rs arbitrary: c)
  case Nil
  show ?case by simp
next
  case (Cons r rs)
  have step: "obter (obter (mapasC (mesclarResultado r c)) prop) cat =
      obter (obter (mapasC c) prop) cat @ categoriaDe prop cat r"
  proof (cases r)
    case None
    then show ?thesis by (simp add: mapas_mesclarResultado categoriaDe_def)
  next
    case (Some a)
    with Cons.prems have "categoriasDistintas a" by simp
    then have "distinct (map fst (obter (mapasA a) prop))" by (rule categoriasDistintas_obter)
    with Some Cons.prems(1) show ?thesis
      by (simp add: mapas_mesclarResultado categoriaDe_def obter_fold_mesclarCategoria)
  qed
  from Cons.prems have "\<forall>a. Some a \<in> set rs \<longrightarrow> categoriasDistintas a" by simp
  from Cons.IH [OF Cons.prems(1) this, of "mesclarResultado r c"] step
  show ?case by simp
qed


text \<open>The aggregation steps only write scalar values.\<close>

lemma agregarReceitaBruta_frame:
  "agregarReceitaBruta c d = Inr d' \<Longrightarrow> \<exists>v. d' = d \<lparr> valoresC := v \<rparr>"
  by (auto simp: agregarReceitaBruta_def Let_def split: if_splits sum.splits option.splits
      intro: exI [of _ "valoresC d"])

lemma agregarSaldoClientes_frame:
  "agregarSaldoClientes c d = Inr d' \<Longrightarrow> \<exists>v. d' = d \<lparr> valoresC := v \<rparr>"
  by (auto simp: agregarSaldoClientes_def Let_def split: if_splits sum.splits
      intro: exI [of _ "valoresC d"])

lemma agregarResultadoOperacional_frame:
  "agregarResultadoOperacional c d = Inr d' \<Longrightarrow> \<exists>v. d' = d \<lparr> valoresC := v \<rparr>"
  by (auto simp: agregarResultadoOperacional_def split: if_splits intro: exI [of _ "valoresC d"])

lemma calcularValoresAgregados_frame:
  assumes "calcularValoresAgregados c d = Inr d'"
  shows "\<exists>v. d' = d \<lparr> valoresC := v \<rparr>"
proof -
  from assms obtain d1 d2 where
    s1: "agregarReceitaBruta c d = Inr d1" and
    s2: "agregarSaldoClientes c d1 = Inr d2" and
    s3: "agregarResultadoOperacional c d2 = Inr d'"
    by (auto simp: calcularValoresAgregados_def ligar_def split: sum.splits)
  from agregarReceitaBruta_frame [OF s1] obtain v1 where "d1 = d \<lparr> valoresC := v1 \<rparr>" ..
  moreover from agregarSaldoClientes_frame [OF s2] obtain v2 where "d2 = d1 \<lparr> valoresC := v2 \<rparr>" ..
  moreover from agregarResultadoOperacional_frame [OF s3] obtain v3 where "d' = d2 \<lparr> valoresC := v3 \<rparr>" ..
  ultimately have "d' = d \<lparr> valoresC := v3 \<rparr>" by simp
  then show ?thesis ..
qed

lemma processarRelacoesCruzadas_frame:
  assumes "processarRelacoesCruzadas c d = Inr d'"
  shows "mapasC d' = mapasC d" "objetosC d' = objetosC d" "empresaC d' = empresaC d"
    "arquivosProcessados d' = arquivosProcessados d"
    "listasC d' = definir ''documentos'' (relacionarDocumentos c d) (listasC d)"
proof -
  from assms calcularValoresAgregados_frame
  obtain v where "d' = d \<lparr> listasC := definir ''documentos'' (relacionarDocumentos c d) (listasC d),
                           valoresC := v \<rparr>"
    unfolding processarRelacoesCruzadas_def by fastforce
  then show "mapasC d' = mapasC d" "objetosC d' = objetosC d" "empresaC d' = empresaC d"
    "arquivosProcessados d' = arquivosProcessados d"
    "listasC d' = definir ''documentos'' (relacionarDocumentos c d) (listasC d)"
    by simp_all
qed

lemma length_relacionarDocumentos:
  "length (relacionarDocumentos c d) = length (obter (listasC d) ''documentos'')"
  by (simp add: relacionarDocumentos_def Let_def)

lemma relacionarDocumentos_sem_relacoes:
  "obter (listasC d) ''participantes'' = [] \<Longrightarrow> obter (listasC d) ''itens'' = [] \<Longrightarrow>
     relacionarDocumentos c d = obter (listasC d) ''documentos''"
  by (simp add: relacionarDocumentos_def Let_def)

lemma processarRelacoesCruzadas_retorna:
  assumes "obter (listasC d) ''documentos'' = []" "obter (listasC d) ''balancoPatrimonial'' = []"
  shows "\<exists>d'. processarRelacoesCruzadas c d = Inr d'"
proof -
  let ?d0 = "d \<lparr> listasC := definir ''documentos'' (relacionarDocumentos c d) (listasC d) \<rparr>"
  from assms(1) have r: "relacionarDocumentos c d = []"
    using length_relacionarDocumentos [of c d] by simp
  have docs: "obter (listasC ?d0) ''documentos'' = []"
    by (simp add: obter_definir r)
  have bal: "obter (listasC ?d0) ''balancoPatrimonial'' = []"
    using assms(2) by (simp add: obter_definir)
  have s1: "agregarReceitaBruta c ?d0 = Inr ?d0"
    using docs by (simp add: agregarReceitaBruta_def Let_def)
  have s2: "agregarSaldoClientes c ?d0 = Inr ?d0"
    using bal by (simp add: agregarSaldoClientes_def Let_def)
  have "\<exists>d'. agregarResultadoOperacional c ?d0 = Inr d'"
    by (simp add: agregarResultadoOperacional_def)
  then show ?thesis
    by (simp add: processarRelacoesCruzadas_def calcularValoresAgregados_def ligar_def s1 s2)
qed

lemma inicial_vazio:
  "prop \<in> set objArrayProps \<Longrightarrow> obter (mapasC combinadoInicial) prop = []"
  "obter (listasC combinadoInicial) prop = []"
  "arquivosProcessados combinadoInicial = []"
  by (auto simp: combinadoInicial_def objArrayProps_def obter_def)

lemma vazio_sem_dados:
  "obter (mapasA arquivoVazio) prop = []"
  "obter (listasA arquivoVazio) prop = []"
  "categoriasDistintas (arquivoVazio \<lparr> metadadosA := m \<rparr>)"
  by (auto simp: arquivoVazio_def arrayProps_def obter_def categoriasDistintas_def)


lemma combinar_vazio_mapas:
  assumes wf: "categoriasDistintas A" and p: "prop \<in> set objArrayProps"
  shows "obter (mapasC (fold mesclarResultado [Some A, Some (arquivoVazio \<lparr> metadadosA := m \<rparr>)]
                          combinadoInicial)) prop = obter (mapasA A) prop"
proof -
  from wf have "distinct (map fst (obter (mapasA A) prop))" by (rule categoriasDistintas_obter)
  then show ?thesis
    using p by (simp add: mapas_mesclarResultado inicial_vazio vazio_sem_dados
        fold_mesclarCategoria_vazio)
qed

text \<open>What the merge of one file does to a scalar total.\<close>

lemma valores_mesclarValor:
  "map_of (valoresC (mesclarValor a p c)) k =
     (if k = p then
        (case totalNumerico a p of
           None \<Rightarrow> map_of (valoresC c) p
         | Some v \<Rightarrow>
             (case map_of (valoresC c) p of
                None \<Rightarrow> Some v
              | Some w \<Rightarrow> if truthyD w then Some w else Some v))
      else map_of (valoresC c) k)"
  by (simp add: mesclarValor_def totalNumerico_def map_of_definir
      split: option.splits dado.splits jsval.splits)

lemma valores_fold_mesclarValor:
  "map_of (valoresC (fold (mesclarValor a) ps c)) k =
     (if k \<in> set ps then
        (case totalNumerico a k of
           None \<Rightarrow> map_of (valoresC c) k
         | Some v \<Rightarrow>
             (case map_of (valoresC c) k of
                None \<Rightarrow> Some v
              | Some w \<Rightarrow> if truthyD w then Some w else Some v))
      else map_of (valoresC c) k)"
proof (induction ps arbitrary: c)
  case Nil
  then show ?case by simp
next
  case (Cons p ps)
  have "map_of (valoresC (fold (mesclarValor a) (p # ps) c)) k
          = map_of (valoresC (fold (mesclarValor a) ps (mesclarValor a p c))) k"
    by simp
  also have "\<dots> =
     (if k \<in> set ps then
        (case totalNumerico a k of
           None \<Rightarrow> map_of (valoresC (mesclarValor a p c)) k
         | Some v \<Rightarrow>
             (case map_of (valoresC (mesclarValor a p c)) k of
                None \<Rightarrow> Some v
              | Some w \<Rightarrow> if truthyD w then Some w else Some v))
      else map_of (valoresC (mesclarValor a p c)) k)"
    by (rule Cons.IH)
  finally show ?case
    by (auto simp: valores_mesclarValor split: option.splits)
qed

lemma valores_mesclarResultado:
  "map_of (valoresC (mesclarResultado (Some a) c)) k =
     (if k \<in> set valorProps then
        (case totalNumerico a k of
           None \<Rightarrow> map_of (valoresC c) k
         | Some v \<Rightarrow>
             (case map_of (valoresC c) k of
                None \<Rightarrow> Some v
              | Some w \<Rightarrow> if truthyD w then Some w else Some v))
      else map_of (valoresC c) k)"
  by (simp add: mesclarResultado_def Let_def valores_fold_mesclarValor fold_mesclarObjeto_frame
      fold_mesclarMapa_frame fold_mesclarLista_frame mesclarEmpresa_frame split: option.splits)

lemma totalNumerico_vazio: "totalNumerico (arquivoVazio \<lparr> metadadosA := m \<rparr>) k = None"
  by (simp add: totalNumerico_def arquivoVazio_def)

lemma combinar_vazio_valores:
  "map_of (valoresC (fold mesclarResultado [Some A, Some (arquivoVazio \<lparr> metadadosA := m \<rparr>)]
                       combinadoInicial)) k
     = (if k \<in> set valorProps then totalNumerico A k else None)"
proof -
  have "valoresC combinadoInicial = []" by (simp add: combinadoInicial_def)
  then show ?thesis
    by (simp add: valores_mesclarResultado totalNumerico_vazio split: option.splits)
qed

text \<open>The aggregation steps write a scalar total only where it is missing or falsy.\<close>

lemma valorTruthy_igual:
  "map_of v k = map_of v' k \<Longrightarrow> valorTruthy v k = valorTruthy v' k"
  by (simp add: valorTruthy_def)

lemma agregarReceitaBruta_valores:
  "agregarReceitaBruta c d = Inr d' \<Longrightarrow>
   k \<noteq> ''receitaBruta'' \<or> valorTruthy (valoresC d) k \<Longrightarrow>
   map_of (valoresC d') k = map_of (valoresC d) k"
  by (auto simp: agregarReceitaBruta_def Let_def map_of_definir
      split: if_splits sum.splits option.splits)

lemma agregarSaldoClientes_valores:
  "agregarSaldoClientes c d = Inr d' \<Longrightarrow>
   k \<noteq> ''saldoClientes'' \<or> valorTruthy (valoresC d) k \<Longrightarrow>
   map_of (valoresC d') k = map_of (valoresC d) k"
  by (auto simp: agregarSaldoClientes_def Let_def map_of_definir split: if_splits sum.splits)

lemma agregarResultadoOperacional_valores:
  "agregarResultadoOperacional c d = Inr d' \<Longrightarrow>
   map_of (valoresC d') k =
     (if k = ''resultadoOperacional'' \<and> \<not> valorTruthy (valoresC d) ''resultadoOperacional''
         \<and> valorTruthy (valoresC d) ''lucroBruto''
      then Some (Prim (JNum (num_mul (paraNumero c (campo (valoresC d) ''lucroBruto'')) (Fin 0.7))))
      else map_of (valoresC d) k)"
  by (auto simp: agregarResultadoOperacional_def map_of_definir split: if_splits)

lemma processarRelacoesCruzadas_valores:
  assumes "processarRelacoesCruzadas c d = Inr d'"
  shows "k \<notin> {''receitaBruta'', ''saldoClientes'', ''resultadoOperacional''}
           \<or> valorTruthy (valoresC d) k \<Longrightarrow>
         map_of (valoresC d') k = map_of (valoresC d) k"
    and "\<not> valorTruthy (valoresC d) ''resultadoOperacional'' \<Longrightarrow>
         valorTruthy (valoresC d) ''lucroBruto'' \<Longrightarrow>
         map_of (valoresC d') ''resultadoOperacional''
           = Some (Prim (JNum (num_mul (paraNumero c (campo (valoresC d) ''lucroBruto'')) (Fin 0.7))))"
proof -
  let ?d0 = "d \<lparr> listasC := definir ''documentos'' (relacionarDocumentos c d) (listasC d) \<rparr>"
  from assms obtain d1 d2 where
    s1: "agregarReceitaBruta c ?d0 = Inr d1" and
    s2: "agregarSaldoClientes c d1 = Inr d2" and
    s3: "agregarResultadoOperacional c d2 = Inr d'"
    by (auto simp: processarRelacoesCruzadas_def calcularValoresAgregados_def ligar_def
        split: sum.splits)
  have v0: "valoresC ?d0 = valoresC d" by simp
  {
    assume k: "k \<notin> {''receitaBruta'', ''saldoClientes'', ''resultadoOperacional''}
           \<or> valorTruthy (valoresC d) k"
    have e1: "map_of (valoresC d1) k = map_of (valoresC d) k"
      using agregarReceitaBruta_valores [OF s1, of k] k v0 by auto
    have t1: "valorTruthy (valoresC d1) k = valorTruthy (valoresC d) k"
      by (rule valorTruthy_igual [OF e1])
    have e2: "map_of (valoresC d2) k = map_of (valoresC d1) k"
      using agregarSaldoClientes_valores [OF s2, of k] k t1 by auto
    have t2: "valorTruthy (valoresC d2) k = valorTruthy (valoresC d) k"
      using valorTruthy_igual [OF e2] t1 by simp
    have "map_of (valoresC d') k = map_of (valoresC d2) k"
      using agregarResultadoOperacional_valores [OF s3, of k] k t2 by auto
    then show "map_of (valoresC d') k = map_of (valoresC d) k" using e1 e2 by simp
  }
  {
    assume ro: "\<not> valorTruthy (valoresC d) ''resultadoOperacional''"
      and lb: "valorTruthy (valoresC d) ''lucroBruto''"
    have e1: "map_of (valoresC d1) q = map_of (valoresC d) q" if "q \<noteq> ''receitaBruta''" for q
      using agregarReceitaBruta_valores [OF s1, of q] that v0 by auto
    have e2: "map_of (valoresC d2) q = map_of (valoresC d1) q" if "q \<noteq> ''saldoClientes''" for q
      using agregarSaldoClientes_valores [OF s2, of q] that by auto
    have ro2: "map_of (valoresC d2) ''resultadoOperacional'' = map_of (valoresC d) ''resultadoOperacional''"
      using e1 [of "''resultadoOperacional''"] e2 [of "''resultadoOperacional''"] by simp
    have lb2: "map_of (valoresC d2) ''lucroBruto'' = map_of (valoresC d) ''lucroBruto''"
      using e1 [of "''lucroBruto''"] e2 [of "''lucroBruto''"] by simp
    have "\<not> valorTruthy (valoresC d2) ''resultadoOperacional''"
      using valorTruthy_igual [OF ro2] ro by simp
    moreover have "valorTruthy (valoresC d2) ''lucroBruto''"
      using valorTruthy_igual [OF lb2] lb by simp
    moreover have "campo (valoresC d2) ''lucroBruto'' = campo (valoresC d) ''lucroBruto''"
      using lb2 by (simp add: campo_def)
    ultimately show "map_of (valoresC d') ''resultadoOperacional''
           = Some (Prim (JNum (num_mul (paraNumero c (campo (valoresC d) ''lucroBruto'')) (Fin 0.7))))"
      using agregarResultadoOperacional_valores [OF s3, of "''resultadoOperacional''"] by simp
  }
qed

text \<open>
  C4 (amended). Whenever \<open>combinarResultados\<close> returns for a per-file result \<open>A\<close>
  followed by an empty result, the combined dataset holds, under the same category keys
  and with the same lists, every category of \<open>impostos\<close>, \<open>creditos\<close>,
  \<open>receitasNaoTributadas\<close> and \<open>ajustes\<close> of \<open>A\<close>; every list property of
  \<open>A\<close> other than the documents unchanged; as many documents as \<open>A\<close> has (the same
  documents when \<open>A\<close> has no participants and no line items to attach); and the metadata
  of both inputs in \<open>arquivosProcessados\<close>. Of the scalar totals, a property of the list
  \<open>valorProps\<close> that is a number other than 0 and \<open>NaN\<close> in \<open>A\<close> is kept; a
  listed property other than \<open>receitaBruta\<close>, \<open>saldoClientes\<close> and
  \<open>resultadoOperacional\<close> is the number \<open>A\<close> has for it and is absent when \<open>A\<close>
  has no number for it; a property outside the list is absent; and
  \<open>resultadoOperacional\<close> is 0.7 times \<open>lucroBruto\<close> when \<open>A\<close> has a
  \<open>lucroBruto\<close> other than 0 and \<open>NaN\<close> and no \<open>resultadoOperacional\<close> other
  than 0 and \<open>NaN\<close>. For any inputs, the list under a category
  key of these four properties is the concatenation of the inputs' lists under that key,
  and every list property other than the documents is the concatenation of the inputs'
  lists. The call returns when \<open>A\<close> has neither documents nor balance-sheet entries.
\<close>

theorem combinarResultados_dataset_vazio:
  "(categoriasDistintas A
      \<and> combinarResultados c [Some A, Some (arquivoVazio \<lparr> metadadosA := m \<rparr>)] = Inr comb \<longrightarrow>
        (\<forall>prop \<in> set objArrayProps. obter (mapasC comb) prop = obter (mapasA A) prop)
      \<and> (\<forall>prop \<in> set arrayProps. prop \<noteq> ''documentos'' \<longrightarrow>
            obter (listasC comb) prop = obter (listasA A) prop)
      \<and> length (obter (listasC comb) ''documentos'') = length (obter (listasA A) ''documentos'')
      \<and> (obter (listasA A) ''participantes'' = [] \<and> obter (listasA A) ''itens'' = [] \<longrightarrow>
            obter (listasC comb) ''documentos'' = obter (listasA A) ''documentos'')
      \<and> arquivosProcessados comb =
            (case metadadosA A of None \<Rightarrow> [] | Some x \<Rightarrow> [x]) @ (case m of None \<Rightarrow> [] | Some x \<Rightarrow> [x])
      \<and> (\<forall>prop \<in> set valorProps. \<forall>n.
            map_of (valoresA A) prop = Some (Prim (JNum n)) \<and> n \<noteq> Fin 0 \<and> n \<noteq> NaN \<longrightarrow>
            map_of (valoresC comb) prop = Some (Prim (JNum n)))
      \<and> (\<forall>prop \<in> set valorProps.
            prop \<notin> {''receitaBruta'', ''saldoClientes'', ''resultadoOperacional''} \<longrightarrow>
            map_of (valoresC comb) prop = totalNumerico A prop)
      \<and> (\<forall>prop. prop \<notin> set valorProps \<longrightarrow> map_of (valoresC comb) prop = None)
      \<and> (\<forall>n. totalNumerico A ''lucroBruto'' = Some (Prim (JNum n)) \<and> n \<noteq> Fin 0 \<and> n \<noteq> NaN
              \<and> (\<forall>r. totalNumerico A ''resultadoOperacional'' = Some (Prim (JNum r)) \<longrightarrow>
                     r = Fin 0 \<or> r = NaN) \<longrightarrow>
            map_of (valoresC comb) ''resultadoOperacional''
              = Some (Prim (JNum (num_mul n (Fin 0.7))))))
   \<and> ((\<forall>a. Some a \<in> set rs \<longrightarrow> categoriasDistintas a) \<and> combinarResultados c rs = Inr comb2
        \<and> prop2 \<in> set objArrayProps \<longrightarrow>
        obter (obter (mapasC comb2) prop2) cat = concat (map (categoriaDe prop2 cat) rs))
   \<and> (combinarResultados c rs3 = Inr comb3 \<and> prop3 \<in> set arrayProps \<and> prop3 \<noteq> ''documentos'' \<longrightarrow>
        obter (listasC comb3) prop3 = concat (map (listaDe prop3) rs3))
   \<and> (obter (listasA B) ''documentos'' = [] \<and> obter (listasA B) ''balancoPatrimonial'' = [] \<longrightarrow>
        (\<exists>comb4. combinarResultados c [Some B, Some (arquivoVazio \<lparr> metadadosA := m4 \<rparr>)] = Inr comb4))"
  (is "?P1 \<and> ?P2 \<and> ?P3 \<and> ?P4")
proof -
  let ?V = "arquivoVazio \<lparr> metadadosA := m \<rparr>"
  let ?d = "fold mesclarResultado [Some A, Some ?V] combinadoInicial"
  have part1: "(\<forall>prop \<in> set objArrayProps. obter (mapasC comb) prop = obter (mapasA A) prop)
      \<and> (\<forall>prop \<in> set arrayProps. prop \<noteq> ''documentos'' \<longrightarrow>
            obter (listasC comb) prop = obter (listasA A) prop)
      \<and> length (obter (listasC comb) ''documentos'') = length (obter (listasA A) ''documentos'')
      \<and> (obter (listasA A) ''participantes'' = [] \<and> obter (listasA A) ''itens'' = [] \<longrightarrow>
            obter (listasC comb) ''documentos'' = obter (listasA A) ''documentos'')
      \<and> arquivosProcessados comb =
            (case metadadosA A of None \<Rightarrow> [] | Some x \<Rightarrow> [x]) @ (case m of None \<Rightarrow> [] | Some x \<Rightarrow> [x])
      \<and> (\<forall>prop \<in> set valorProps. \<forall>n.
            map_of (valoresA A) prop = Some (Prim (JNum n)) \<and> n \<noteq> Fin 0 \<and> n \<noteq> NaN \<longrightarrow>
            map_of (valoresC comb) prop = Some (Prim (JNum n)))
      \<and> (\<forall>prop \<in> set valorProps.
            prop \<notin> {''receitaBruta'', ''saldoClientes'', ''resultadoOperacional''} \<longrightarrow>
            map_of (valoresC comb) prop = totalNumerico A prop)
      \<and> (\<forall>prop. prop \<notin> set valorProps \<longrightarrow> map_of (valoresC comb) prop = None)
      \<and> (\<forall>n. totalNumerico A ''lucroBruto'' = Some (Prim (JNum n)) \<and> n \<noteq> Fin 0 \<and> n \<noteq> NaN
              \<and> (\<forall>r. totalNumerico A ''resultadoOperacional'' = Some (Prim (JNum r)) \<longrightarrow>
                     r = Fin 0 \<or> r = NaN) \<longrightarrow>
            map_of (valoresC comb) ''resultadoOperacional''
              = Some (Prim (JNum (num_mul n (Fin 0.7)))))"
    if wf: "categoriasDistintas A" and ok: "combinarResultados c [Some A, Some ?V] = Inr comb"
  proof -
    from ok have pr: "processarRelacoesCruzadas c ?d = Inr comb"
      by (simp add: combinarResultados_def)
    note fr = processarRelacoesCruzadas_frame [OF pr]
    have listas: "obter (listasC ?d) q = obter (listasA A) q" if "q \<in> set arrayProps" for q
      using that by (simp add: listas_mesclarResultado inicial_vazio listaDe_def vazio_sem_dados)
    have a: "\<forall>prop \<in> set objArrayProps. obter (mapasC comb) prop = obter (mapasA A) prop"
      using combinar_vazio_mapas [OF wf] fr(1) by simp
    have b: "\<forall>prop \<in> set arrayProps. prop \<noteq> ''documentos'' \<longrightarrow>
            obter (listasC comb) prop = obter (listasA A) prop"
      using listas by (simp add: fr(5) obter_definir)
    have docs: "''documentos'' \<in> set arrayProps" "''participantes'' \<in> set arrayProps"
      "''itens'' \<in> set arrayProps"
      by (simp_all add: arrayProps_def)
    have cdocs: "obter (listasC comb) ''documentos'' = relacionarDocumentos c ?d"
      by (simp add: fr(5) obter_definir)
    have c': "length (obter (listasC comb) ''documentos'') = length (obter (listasA A) ''documentos'')"
      using listas [OF docs(1)] by (simp only: cdocs length_relacionarDocumentos)
    have d': "obter (listasA A) ''participantes'' = [] \<and> obter (listasA A) ''itens'' = [] \<longrightarrow>
            obter (listasC comb) ''documentos'' = obter (listasA A) ''documentos''"
      using listas [OF docs(1)] listas [OF docs(2)] listas [OF docs(3)]
      by (simp only: cdocs) (simp add: relacionarDocumentos_sem_relacoes)
    have e: "arquivosProcessados comb =
            (case metadadosA A of None \<Rightarrow> [] | Some x \<Rightarrow> [x]) @ (case m of None \<Rightarrow> [] | Some x \<Rightarrow> [x])"
      by (simp add: fr(4) arquivos_mesclarResultado inicial_vazio arquivoVazio_def)
    note pv = processarRelacoesCruzadas_valores [OF pr]
    have mv: "map_of (valoresC ?d) k = (if k \<in> set valorProps then totalNumerico A k else None)" for k
      by (rule combinar_vazio_valores)
    have mv1: "map_of (valoresC ?d) k = totalNumerico A k" if "k \<in> set valorProps" for k
      unfolding mv using that by simp
    have mv2: "map_of (valoresC ?d) k = None" if "k \<notin> set valorProps" for k
      unfolding mv using that by simp
    have tres: "''receitaBruta'' \<in> set valorProps" "''saldoClientes'' \<in> set valorProps"
      "''resultadoOperacional'' \<in> set valorProps" "''lucroBruto'' \<in> set valorProps"
      by (simp_all add: valorProps_def)
    have f: "\<forall>prop \<in> set valorProps. \<forall>n.
            map_of (valoresA A) prop = Some (Prim (JNum n)) \<and> n \<noteq> Fin 0 \<and> n \<noteq> NaN \<longrightarrow>
            map_of (valoresC comb) prop = Some (Prim (JNum n))"
    proof (intro ballI allI impI)
      fix q n
      assume p: "q \<in> set valorProps"
        and n: "map_of (valoresA A) q = Some (Prim (JNum n)) \<and> n \<noteq> Fin 0 \<and> n \<noteq> NaN"
      have "totalNumerico A q = Some (Prim (JNum n))"
        using n by (simp add: totalNumerico_def)
      then have v: "map_of (valoresC ?d) q = Some (Prim (JNum n))"
        by (simp only: mv1 [OF p])
      have t: "valorTruthy (valoresC ?d) q"
        unfolding valorTruthy_def v using n by (simp add: truthy_def)
      have "map_of (valoresC comb) q = map_of (valoresC ?d) q"
        by (rule pv(1)) (rule disjI2, rule t)
      then show "map_of (valoresC comb) q = Some (Prim (JNum n))"
        by (simp only: v)
    qed
    have g: "\<forall>prop \<in> set valorProps.
            prop \<notin> {''receitaBruta'', ''saldoClientes'', ''resultadoOperacional''} \<longrightarrow>
            map_of (valoresC comb) prop = totalNumerico A prop"
    proof (intro ballI impI)
      fix q
      assume p: "q \<in> set valorProps"
        and k: "q \<notin> {''receitaBruta'', ''saldoClientes'', ''resultadoOperacional''}"
      have "map_of (valoresC comb) q = map_of (valoresC ?d) q"
        by (rule pv(1)) (rule disjI1, rule k)
      then show "map_of (valoresC comb) q = totalNumerico A q"
        by (simp only: mv1 [OF p])
    qed
    have h: "\<forall>prop. prop \<notin> set valorProps \<longrightarrow> map_of (valoresC comb) prop = None"
    proof (intro allI impI)
      fix q
      assume p: "q \<notin> set valorProps"
      then have k: "q \<notin> {''receitaBruta'', ''saldoClientes'', ''resultadoOperacional''}"
        using tres by auto
      have "map_of (valoresC comb) q = map_of (valoresC ?d) q"
        by (rule pv(1)) (rule disjI1, rule k)
      then show "map_of (valoresC comb) q = None"
        by (simp only: mv2 [OF p])
    qed
    have i: "\<forall>n. totalNumerico A ''lucroBruto'' = Some (Prim (JNum n)) \<and> n \<noteq> Fin 0 \<and> n \<noteq> NaN
              \<and> (\<forall>r. totalNumerico A ''resultadoOperacional'' = Some (Prim (JNum r)) \<longrightarrow>
                     r = Fin 0 \<or> r = NaN) \<longrightarrow>
            map_of (valoresC comb) ''resultadoOperacional''
              = Some (Prim (JNum (num_mul n (Fin 0.7))))"
    proof (intro allI impI, elim conjE)
      fix n
      assume lb: "totalNumerico A ''lucroBruto'' = Some (Prim (JNum n))"
        and n0: "n \<noteq> Fin 0" and nn: "n \<noteq> NaN"
        and ro: "\<forall>r. totalNumerico A ''resultadoOperacional'' = Some (Prim (JNum r)) \<longrightarrow>
                     r = Fin 0 \<or> r = NaN"
      have vl: "map_of (valoresC ?d) ''lucroBruto'' = Some (Prim (JNum n))"
        using lb by (simp only: mv1 [OF tres(4)])
      have vr: "map_of (valoresC ?d) ''resultadoOperacional'' = totalNumerico A ''resultadoOperacional''"
        by (rule mv1 [OF tres(3)])
      have t1: "\<not> valorTruthy (valoresC ?d) ''resultadoOperacional''"
        unfolding valorTruthy_def vr using ro
        by (auto simp: totalNumerico_def truthy_def split: option.splits dado.splits jsval.splits)
      have t2: "valorTruthy (valoresC ?d) ''lucroBruto''"
        unfolding valorTruthy_def vl using n0 nn by (simp add: truthy_def)
      have t3: "paraNumero c (campo (valoresC ?d) ''lucroBruto'') = n"
        unfolding campo_def vl by (simp add: paraNumero_def)
      show "map_of (valoresC comb) ''resultadoOperacional''
              = Some (Prim (JNum (num_mul n (Fin 0.7))))"
        using pv(2) [OF t1 t2] by (simp only: t3)
    qed
    show ?thesis by (intro conjI a b c' d' e f g h i)
  qed
  have part2: "obter (obter (mapasC comb2) prop2) cat = concat (map (categoriaDe prop2 cat) rs)"
    if wf: "\<forall>a. Some a \<in> set rs \<longrightarrow> categoriasDistintas a"
      and ok: "combinarResultados c rs = Inr comb2" and p: "prop2 \<in> set objArrayProps"
  proof -
    from ok have pr: "processarRelacoesCruzadas c (fold mesclarResultado rs combinadoInicial) = Inr comb2"
      by (simp add: combinarResultados_def)
    show ?thesis
      using categorias_fold_mesclarResultado [OF p wf, of combinadoInicial cat]
      by (simp add: processarRelacoesCruzadas_frame(1) [OF pr] inicial_vazio(1) [OF p] obter_Nil)
  qed
  have part3: "obter (listasC comb3) prop3 = concat (map (listaDe prop3) rs3)"
    if ok: "combinarResultados c rs3 = Inr comb3" and p: "prop3 \<in> set arrayProps"
      and nd: "prop3 \<noteq> ''documentos''"
  proof -
    from ok have pr: "processarRelacoesCruzadas c (fold mesclarResultado rs3 combinadoInicial) = Inr comb3"
      by (simp add: combinarResultados_def)
    show ?thesis
      using listas_fold_mesclarResultado [OF p, of rs3 combinadoInicial] nd
      by (simp add: processarRelacoesCruzadas_frame(5) [OF pr] obter_definir inicial_vazio)
  qed
  have part4: "\<exists>comb4. combinarResultados c [Some B, Some (arquivoVazio \<lparr> metadadosA := m4 \<rparr>)] = Inr comb4"
    if nodocs: "obter (listasA B) ''documentos'' = []"
      and nobal: "obter (listasA B) ''balancoPatrimonial'' = []"
  proof -
    have mem: "''documentos'' \<in> set arrayProps" "''balancoPatrimonial'' \<in> set arrayProps"
      by (simp_all add: arrayProps_def)
    have "obter (listasC (fold mesclarResultado [Some B, Some (arquivoVazio \<lparr> metadadosA := m4 \<rparr>)]
                   combinadoInicial)) ''documentos'' = []"
      using nodocs by (simp add: listas_mesclarResultado [OF mem(1)] inicial_vazio listaDe_def vazio_sem_dados)
    moreover have "obter (listasC (fold mesclarResultado [Some B, Some (arquivoVazio \<lparr> metadadosA := m4 \<rparr>)]
                   combinadoInicial)) ''balancoPatrimonial'' = []"
      using nobal by (simp add: listas_mesclarResultado [OF mem(2)] inicial_vazio listaDe_def vazio_sem_dados)
    ultimately show ?thesis
      unfolding combinarResultados_def by (rule processarRelacoesCruzadas_retorna)
  qed
  have q1: ?P1 by (intro impI, elim conjE, rule part1, assumption+)
  have q2: ?P2 by (intro impI, elim conjE, rule part2, assumption+)
  have q3: ?P3 by (intro impI, elim conjE, rule part3, assumption+)
  have q4: ?P4 by (intro impI, elim conjE, rule part4, assumption+)
  show ?thesis by (intro conjI q1 q2 q3 q4)
qed

lemma combinar_exemplo:
  "combinarResultados semCoercao
     [Some arquivoExemplo, Some (arquivoVazio \<lparr> metadadosA := Some [] \<rparr>)] = Inr combinadoExemplo"
  by code_simp

theorem combinarResultados_dataset_vazio_witness:
  "categoriasDistintas arquivoExemplo
   \<and> combinarResultados semCoercao
        [Some arquivoExemplo, Some (arquivoVazio \<lparr> metadadosA := Some [] \<rparr>)] = Inr combinadoExemplo
   \<and> obter (mapasC combinadoExemplo) ''creditos'' = [(''pis'', [[(''valorCredito'', numero (Fin 5))]])]
   \<and> obter (mapasA arquivoExemplo) ''creditos'' = [(''pis'', [[(''valorCredito'', numero (Fin 5))]])]
   \<and> obter (listasC combinadoExemplo) ''participantes'' = obter (listasA arquivoExemplo) ''participantes''
   \<and> length (obter (listasC combinadoExemplo) ''documentos'') = 1
   \<and> arquivosProcessados combinadoExemplo = [[(''nomeArquivo'', texto ''contribuicoes.txt'')], []]
   \<and> obter (obter (mapasC combinadoExemplo) ''creditos'') ''pis'' = [[(''valorCredito'', numero (Fin 5))]]
   \<and> map_of (valoresA arquivoExemplo) ''lucroBruto'' = Some (Prim (JNum (Fin 100)))
   \<and> map_of (valoresC combinadoExemplo) ''lucroBruto'' = Some (Prim (JNum (Fin 100)))
   \<and> totalNumerico arquivoExemplo ''resultadoOperacional'' = None
   \<and> map_of (valoresC combinadoExemplo) ''resultadoOperacional''
        = Some (Prim (JNum (num_mul (Fin 100) (Fin 0.7))))
   \<and> map_of (valoresC combinadoExemplo) ''capitalGiro'' = totalNumerico arquivoExemplo ''capitalGiro''
   \<and> map_of (valoresC combinadoExemplo) ''faturamentoMensal'' = None
   \<and> (\<exists>comb. combinarResultados semCoercao
                 [Some (arquivoExemplo \<lparr> listasA := [] \<rparr>), Some (arquivoVazio \<lparr> metadadosA := None \<rparr>)]
               = Inr comb)"
proof -
  have wf: "categoriasDistintas arquivoExemplo"
    by (simp add: categoriasDistintas_def arquivoExemplo_def)
  have wfs: "\<forall>a. Some a \<in> set [Some arquivoExemplo, Some (arquivoVazio \<lparr> metadadosA := Some [] \<rparr>)]
               \<longrightarrow> categoriasDistintas a"
    using wf by (auto simp: vazio_sem_dados)
  have mem: "''creditos'' \<in> set objArrayProps" "''participantes'' \<in> set arrayProps"
    by (simp_all add: objArrayProps_def arrayProps_def)
  have vz: "obter (listasA (arquivoExemplo \<lparr> listasA := [] \<rparr>)) ''documentos'' = []"
    "obter (listasA (arquivoExemplo \<lparr> listasA := [] \<rparr>)) ''balancoPatrimonial'' = []"
    by (simp_all add: obter_def)
  have vals: "obter (mapasA arquivoExemplo) ''creditos'' = [(''pis'', [[(''valorCredito'', numero (Fin 5))]])]"
    "metadadosA arquivoExemplo = Some [(''nomeArquivo'', texto ''contribuicoes.txt'')]"
    "length (obter (listasA arquivoExemplo) ''documentos'') = 1"
    "categoriaDe ''creditos'' ''pis'' (Some arquivoExemplo) = [[(''valorCredito'', numero (Fin 5))]]"
    "categoriaDe ''creditos'' ''pis'' (Some (arquivoVazio \<lparr> metadadosA := Some [] \<rparr>)) = []"
    "listaDe ''participantes'' (Some (arquivoVazio \<lparr> metadadosA := Some [] \<rparr>)) = []"
    "listaDe ''participantes'' (Some arquivoExemplo) = obter (listasA arquivoExemplo) ''participantes''"
    by (simp_all add: arquivoExemplo_def obter_def categoriaDe_def listaDe_def arquivoVazio_def
        arrayProps_def)
  have sc: "map_of (valoresA arquivoExemplo) ''lucroBruto'' = Some (Prim (JNum (Fin 100)))"
    "map_of (valoresC combinadoExemplo) ''lucroBruto'' = Some (Prim (JNum (Fin 100)))"
    "totalNumerico arquivoExemplo ''resultadoOperacional'' = None"
    "totalNumerico arquivoExemplo ''lucroBruto'' = Some (Prim (JNum (Fin 100)))"
    "map_of (valoresC combinadoExemplo) ''resultadoOperacional''
        = Some (Prim (JNum (num_mul (Fin 100) (Fin 0.7))))"
    "map_of (valoresC combinadoExemplo) ''capitalGiro'' = totalNumerico arquivoExemplo ''capitalGiro''"
    "map_of (valoresC combinadoExemplo) ''faturamentoMensal'' = None"
    "''lucroBruto'' \<in> set valorProps" "''capitalGiro'' \<in> set valorProps"
    "''faturamentoMensal'' \<notin> set valorProps"
    by (simp_all add: arquivoExemplo_def combinadoExemplo_def totalNumerico_def numero_def
        valorProps_def)
  show ?thesis
    using combinarResultados_dataset_vazio [of arquivoExemplo semCoercao "Some []" combinadoExemplo
        "[Some arquivoExemplo, Some (arquivoVazio \<lparr> metadadosA := Some [] \<rparr>)]" combinadoExemplo
        "''creditos''" "''pis''"
        "[Some arquivoExemplo, Some (arquivoVazio \<lparr> metadadosA := Some [] \<rparr>)]" combinadoExemplo
        "''participantes''" "arquivoExemplo \<lparr> listasA := [] \<rparr>" None]
      wf wfs mem vz vals sc combinar_exemplo
    by (simp add: obter_Cons)
qed

text \<open>
  C4 as stated fails: the combined dataset is not the input unchanged. The debit
  categories of the input are not merged at all, and an aggregate value the input does not
  have (the operating result, estimated as 70% of the gross profit) is added.
\<close>

theorem combinarResultados_counterexample:
  "combinarResultados semCoercao
     [Some arquivoExemplo, Some (arquivoVazio \<lparr> metadadosA := Some [] \<rparr>)] = Inr combinadoExemplo
   \<and> map_of (valoresA arquivoExemplo) ''resultadoOperacional'' = None
   \<and> map_of (valoresC combinadoExemplo) ''resultadoOperacional'' = Some (numero (Fin 70))
   \<and> obter (mapasA arquivoExemplo) ''debitos''
        = [(''pis'', [[(''valorTotalContribuicao'', numero (Fin 1650))]])]
   \<and> obter (mapasC combinadoExemplo) ''debitos'' = []"
  using combinar_exemplo
  by (simp add: arquivoExemplo_def combinadoExemplo_def obter_def)

subsection \<open>The parameter structure is always returned\<close>









subsection \<open>Effective rates are never stored\<close>

text \<open>
  C3 (defect). The two effective-rate blocks replace a rate above the bound by the default
  of the tax, but with the scopes as the source files leave them neither block gets that
  far. For a revenue of 1000 and a PIS debit of 2000 the block of
  \<open>extrairParametrosFiscais\<close> raises at its first call of \<open>validarValorMonetario\<close>;
  the block of \<open>calcularParametrosFiscais\<close> raises at \<open>faturamentoMensal\<close>; and
  \<open>calcularParametrosFiscais\<close>, given a contributions dataset with that PIS debit,
  returns the debit with no effective rate at all, neither the default 0.65 nor any other.
\<close>

theorem aliquotasEfetivas_nao_registradas:
  "aliquotasEfetivasFracao ambienteFonte semCoercao (Fin 1000) composicaoExemplo
     = Inl (ReferenceError ''validarValorMonetario is not defined'')
   \<and> aliquotasEfetivasPercentuais ambienteFonte semCoercao
     = Inl (ReferenceError ''faturamentoMensal is not defined'')
   \<and> calcularParametrosFiscais ambienteFonte semCoercao relogioExemplo (Prim JUndefined)
       contribuicoesExcedente = Inr parametrosExcedente
   \<and> campo (aliquotasEfetivas (composicaoTributaria parametrosExcedente)) ''pis'' = Prim JUndefined
   \<and> aliquotasEfetivas (composicaoTributaria parametrosExcedente) = []"
  by code_simp

subsection \<open>The scenario of a PIS debit without COFINS records\<close>




















subsection \<open>The first source of a debit wins\<close>

lemma somarDebitosValidos_filtrados:
  "map valorContribuicao registros = map Inr valores \<Longrightarrow>
   somarDebitosValidos registros acumulado
     = Inr (foldl num_add acumulado (filter valorValido valores))"
proof (induction registros arbitrary: valores acumulado)
  case Nil
  then show ?case by simp
next
  case (Cons r registros)
  then obtain v vs where vs: "valores = v # vs" "valorContribuicao r = Inr v"
    "map valorContribuicao registros = map Inr vs"
    by (cases valores) auto
  show ?case
    using Cons.IH [OF vs(3)] vs(1,2) by simp
qed

lemma fonte1_spec_vazia: "\<not> num_gt (fonte1_spec []) (Fin 0)"
  by (simp add: fonte1_spec_def)

lemma debitosDiretos_fonte1:
  assumes "map valorContribuicao registros = map Inr valores"
    and "num_gt (fonte1_spec valores) (Fin 0)"
  shows "debitosDiretos c (Arr registros) = Inr (Some (fonte1_spec valores))"
proof -
  have "valores \<noteq> []" using assms(2) fonte1_spec_vazia by auto
  then have "registros \<noteq> []" using assms(1) by auto
  then show ?thesis
    using somarDebitosValidos_filtrados [OF assms(1), of "Fin 0"] assms(2)
    by (simp add: debitosDiretos_def comprimentoPositivo_def fonte1_spec_def)
qed

lemma calcularDebitosContribuicao_fonte1:
  assumes "membroOpcional (campo dadosSped ''debitos'') imposto = Arr registros"
    and "map valorContribuicao registros = map Inr valores"
    and "num_gt (fonte1_spec valores) (Fin 0)"
  shows "calcularDebitosContribuicao imposto totalizador a b c dadosSped faturamentoMensal
           = Inr (fonte1_spec valores)"
  using debitosDiretos_fonte1 [OF assms(2,3), of c] assms(1)
  by (simp add: calcularDebitosContribuicao_def)

lemma maisJS_numeros: "maisJS c (numero a) (numero b) = numero (num_add a b)"
  by (simp add: maisJS_def numero_def ehPrimitivoNaoTexto_def paraNumero_def)

lemma somarDebitosICMS_simples:
  "map (\<lambda>d. primeiroTruthy d [''valorTotalDebitos'', ''valorSaldoAPagar'']) registros
     = map (\<lambda>n. Inr (numero n)) valores \<Longrightarrow>
   somarDebitosICMS c registros (numero acumulado) = Inr (numero (foldl num_add acumulado valores))"
proof (induction registros arbitrary: valores acumulado)
  case Nil
  then show ?case by simp
next
  case (Cons r registros)
  then obtain v vs where vs: "valores = v # vs"
    "primeiroTruthy r [''valorTotalDebitos'', ''valorSaldoAPagar''] = Inr (numero v)"
    "map (\<lambda>d. primeiroTruthy d [''valorTotalDebitos'', ''valorSaldoAPagar'']) registros
       = map (\<lambda>n. Inr (numero n)) vs"
    by (cases valores) auto
  have "somarDebitosICMS c (r # registros) (numero acumulado)
          = somarDebitosICMS c registros (numero (num_add acumulado v))"
    using vs(2) by (simp add: maisJS_numeros)
  also have "\<dots> = Inr (numero (foldl num_add (num_add acumulado v) vs))"
    by (rule Cons.IH [OF vs(3)])
  finally show ?case using vs(1) by simp
qed

lemma calcularDebitosICMS_fonte1:
  assumes "membroOpcional (campo dadosSped ''debitos'') ''icms'' = Arr registros"
    and "map (\<lambda>d. primeiroTruthy d [''valorTotalDebitos'', ''valorSaldoAPagar'']) registros
           = map (\<lambda>n. Inr (numero n)) valores"
    and "num_gt (somaSimples valores) (Fin 0)"
  shows "calcularDebitosICMS c dadosSped faturamentoMensal = Inr (numero (somaSimples valores))"
proof -
  have "valores \<noteq> []" using assms(3) by (auto simp: somaSimples_def)
  then have "registros \<noteq> []" using assms(2) by auto
  then have "debitosDiretosICMS c (Arr registros) = Inr (Some (numero (somaSimples valores)))"
    using somarDebitosICMS_simples [OF assms(2), of c "Fin 0"] assms(3)
    by (simp add: debitosDiretosICMS_def comprimentoPositivo_def somaSimples_def
        paraNumero_def numero_def)
  then show ?thesis using assms(1) by (simp add: calcularDebitosICMS_def)
qed

text \<open>
  C2 (amended). When the direct PIS debit records of the dataset are a list whose records
  all yield a value, and the sum of the values inside the open interval from 0 to 1e9 is
  positive, \<open>calcularDebitosPIS\<close> returns exactly that sum, whatever the rest of the
  dataset and the revenue are; likewise \<open>calcularDebitosCOFINS\<close> for the direct COFINS
  debit records. When the direct ICMS debit records are a list whose records all yield a
  number for \<open>valorTotalDebitos || valorSaldoAPagar || 0\<close>, and the sum of all these
  numbers, none discarded, is positive, \<open>calcularDebitosICMS\<close> returns exactly that sum,
  whatever the rest of the dataset and the revenue are.
\<close>

theorem fonte1_prioritaria:
  "(membroOpcional (campo dadosSped ''debitos'') ''pis'' = Arr registros
      \<and> map valorContribuicao registros = map Inr valores
      \<and> num_gt (fonte1_spec valores) (Fin 0) \<longrightarrow>
      calcularDebitosPIS c dadosSped faturamentoMensal = Inr (fonte1_spec valores))
   \<and> (membroOpcional (campo dadosSped2 ''debitos'') ''cofins'' = Arr registros2
      \<and> map valorContribuicao registros2 = map Inr valores2
      \<and> num_gt (fonte1_spec valores2) (Fin 0) \<longrightarrow>
      calcularDebitosCOFINS c2 dadosSped2 faturamentoMensal2 = Inr (fonte1_spec valores2))
   \<and> (membroOpcional (campo dadosSped3 ''debitos'') ''icms'' = Arr registros3
      \<and> map (\<lambda>d. primeiroTruthy d [''valorTotalDebitos'', ''valorSaldoAPagar'']) registros3
          = map (\<lambda>n. Inr (numero n)) valores3
      \<and> num_gt (somaSimples valores3) (Fin 0) \<longrightarrow>
      calcularDebitosICMS c3 dadosSped3 faturamentoMensal3 = Inr (numero (somaSimples valores3)))"
  (is "?P1 \<and> ?P2 \<and> ?P3")
proof -
  have q1: ?P1
    unfolding calcularDebitosPIS_def
    by (intro impI, elim conjE, rule calcularDebitosContribuicao_fonte1, assumption+)
  have q2: ?P2
    unfolding calcularDebitosCOFINS_def
    by (intro impI, elim conjE, rule calcularDebitosContribuicao_fonte1, assumption+)
  have q3: ?P3
    by (intro impI, elim conjE, rule calcularDebitosICMS_fonte1, assumption+)
  show ?thesis by (intro conjI q1 q2 q3)
qed

lemma exemplo_listas:
  "membroOpcional (campo dadosContribuicoesExemplo ''debitos'') ''pis''
     = Arr [Obj [(''valorTotalContribuicao'', numero (Fin 2000000000))],
            Obj [(''valorContribuicaoAPagar'', texto ''1.650,00'')],
            Obj [(''valorTotalContribuicao'', numero (Fin 5))]]"
  "membroOpcional (campo dadosContribuicoesExemplo ''debitos'') ''cofins''
     = Arr [Obj [(''valorTotalContribuicao'', numero (Fin 7600))]]"
  "membroOpcional (campo dadosIcmsGrande ''debitos'') ''icms''
     = Arr [Obj [(''valorTotalDebitos'', numero (Fin 2000000000))],
            Obj [(''valorTotalDebitos'', numero (Fin 5))]]"
  by (simp_all add: dadosContribuicoesExemplo_def dadosIcmsGrande_def campo_def
      membroOpcional_def membro_def)

lemma exemplo_valores:
  "map valorContribuicao
     [Obj [(''valorTotalContribuicao'', numero (Fin 2000000000))],
      Obj [(''valorContribuicaoAPagar'', texto ''1.650,00'')],
      Obj [(''valorTotalContribuicao'', numero (Fin 5))]]
     = map Inr [Fin 2000000000, Fin 1650, Fin 5]"
  "map valorContribuicao [Obj [(''valorTotalContribuicao'', numero (Fin 7600))]]
     = map Inr [Fin 7600]"
  "map (\<lambda>d. primeiroTruthy d [''valorTotalDebitos'', ''valorSaldoAPagar''])
     [Obj [(''valorTotalDebitos'', numero (Fin 2000000000))],
      Obj [(''valorTotalDebitos'', numero (Fin 5))]]
     = map (\<lambda>n. Inr (numero n)) [Fin 2000000000, Fin 5]"
  by (simp_all add: valorContribuicao_def membro_def membroOpcional_def campo_def numero_def
      texto_def Let_def avaliar_parse split_second)

lemma exemplo_somas:
  "fonte1_spec [Fin 2000000000, Fin 1650, Fin 5] = Fin 1655"
  "fonte1_spec [Fin 7600] = Fin 7600"
  "somaSimples [Fin 2000000000, Fin 5] = Fin 2000000005"
  "fonte1_spec [Fin 2000000000, Fin 5] = Fin 5"
  "fonte1_spec [Fin (- 10), Fin 5] = Fin 5"
  by (simp_all add: fonte1_spec_def somaSimples_def valorValido_def num_lt_def)

theorem fonte1_prioritaria_witness:
  "calcularDebitosPIS semCoercao dadosContribuicoesExemplo (Fin 1000) = Inr (Fin 1655)
   \<and> fonte1_spec [Fin 2000000000, Fin 1650, Fin 5] = Fin 1655
   \<and> calcularDebitosCOFINS semCoercao dadosContribuicoesExemplo (Fin 0) = Inr (Fin 7600)
   \<and> fonte1_spec [Fin 7600] = Fin 7600
   \<and> calcularDebitosICMS semCoercao dadosIcmsGrande (Fin 1000) = Inr (numero (Fin 2000000005))
   \<and> somaSimples [Fin 2000000000, Fin 5] = Fin 2000000005"
  using fonte1_prioritaria
      [where dadosSped = dadosContribuicoesExemplo
         and registros = "[Obj [(''valorTotalContribuicao'', numero (Fin 2000000000))],
                          Obj [(''valorContribuicaoAPagar'', texto ''1.650,00'')],
                          Obj [(''valorTotalContribuicao'', numero (Fin 5))]]"
         and valores = "[Fin 2000000000, Fin 1650, Fin 5]"
         and c = semCoercao and faturamentoMensal = "Fin 1000"
         and ?dadosSped2.0 = dadosContribuicoesExemplo
         and ?registros2.0 = "[Obj [(''valorTotalContribuicao'', numero (Fin 7600))]]"
         and ?valores2.0 = "[Fin 7600]" and ?c2.0 = semCoercao and ?faturamentoMensal2.0 = "Fin 0"
         and ?dadosSped3.0 = dadosIcmsGrande
         and ?registros3.0 = "[Obj [(''valorTotalDebitos'', numero (Fin 2000000000))],
                              Obj [(''valorTotalDebitos'', numero (Fin 5))]]"
         and ?valores3.0 = "[Fin 2000000000, Fin 5]" and ?c3.0 = semCoercao
         and ?faturamentoMensal3.0 = "Fin 1000"]
    exemplo_listas exemplo_valores exemplo_somas
  by simp

text \<open>
  C2 as stated fails for the ICMS resolver. With direct debit records of 2,000,000,000 and
  5 the first source of the claim is 5, and the resolver returns 2,000,000,005. With
  direct debit records of \<open>-10\<close> and 5 the first source of the claim is 5 again, and the
  resolver returns the estimate from the revenue, which changes with the revenue.
\<close>

theorem fonte1_icms_counterexample:
  "fonte1_spec [Fin 2000000000, Fin 5] = Fin 5
   \<and> calcularDebitosICMS semCoercao dadosIcmsGrande (Fin 1000) = Inr (numero (Fin 2000000005))
   \<and> fonte1_spec [Fin (- 10), Fin 5] = Fin 5
   \<and> calcularDebitosICMS semCoercao dadosIcmsNegativo (Fin 1000) = Inr (numero (Fin 108))
   \<and> calcularDebitosICMS semCoercao dadosIcmsNegativo (Fin 2000) = Inr (numero (Fin 216))"
  by code_simp

end
